theory Spec2Isabelle
  imports Complex_Main "HOL-Library.AList"
begin

section \<open>Epicenter forward model (geoist/inversion/epic2d.py)\<close>

text \<open>
  Python and numpy floats are modelled by the real numbers: rounding is left out, while
  the exceptional outcomes of the arithmetic are kept. A Python exception is a value of
  type \<open>error\<close>; a numpy array division, which raises nothing, yields an \<open>npfloat\<close>.
\<close>

datatype error = ValueError | ZeroDivisionError | IndexError

datatype npfloat = Fin real | PInf | NInf | NaN

text \<open>Python's true division of two scalars (\<open>from __future__ import division\<close>).\<close>

definition py_truediv :: "real \<Rightarrow> real \<Rightarrow> error + real" where
  "py_truediv a b = (if b = 0 then Inl ZeroDivisionError else Inr (a / b))"

text \<open>numpy's element division: a zero divisor gives NaN or an infinity, with a warning only.\<close>

definition np_div :: "real \<Rightarrow> real \<Rightarrow> npfloat" where
  "np_div a b =
     (if b \<noteq> 0 then Fin (a / b)
      else if a = 0 then NaN
      else if 0 < a then PInf else NInf)"

text \<open>
  The instance. The fields \<open>data\<close>, \<open>ndata\<close>, \<open>nparams\<close> and \<open>islinear\<close> belong to the base
  class; \<open>recs\<close> holds the rows given to \<open>np.array\<close>, each an (x, y) coordinate.
\<close>

record homogeneous =
  data :: "real list"
  ndata :: nat
  nparams :: nat
  islinear :: bool
  recs :: "(real \<times> real) list"
  vp :: real
  vs :: real

text \<open>
  Modelled from the spec: the base-class initialiser \<open>Misfit.__init__\<close>, called with
  \<open>data=ttres, nparams=2, islinear=False\<close>, is not part of the sources. It keeps the
  observation set as \<open>data\<close>, takes the number of data rows \<open>ndata\<close> to be the number of
  observations, and stores \<open>nparams\<close> and \<open>islinear\<close> as passed. The three assignments
  of \<open>Homogeneous.__init__\<close> follow it.
\<close>

definition Homogeneous_init ::
  "real list \<Rightarrow> (real \<times> real) list \<Rightarrow> real \<Rightarrow> real \<Rightarrow> homogeneous" where
  "Homogeneous_init ttres rs p s =
     \<lparr>data = ttres, ndata = length ttres, nparams = 2, islinear = False,
      recs = rs, vp = p, vs = s\<rparr>"

text \<open>
  \<open>self.recs[:, j]\<close>. The array made from an empty list of rows is one-dimensional, so
  indexing it with two indices raises IndexError; otherwise the array has shape (N, 2).
\<close>

definition column :: "(real \<times> real) list \<Rightarrow> nat \<Rightarrow> error + real list" where
  "column rs j =
     (if rs = [] then Inl IndexError
      else if j = 0 then Inr (map fst rs)
      else if j = 1 then Inr (map snd rs)
      else Inl IndexError)"

text \<open>\<open>alpha = 1/self.vs - 1/self.vp\<close>, the left operand first.\<close>

definition alpha_of :: "homogeneous \<Rightarrow> error + real" where
  "alpha_of h =
     (case py_truediv 1 (vs h) of Inl e \<Rightarrow> Inl e
      | Inr a \<Rightarrow> (case py_truediv 1 (vp h) of Inl e \<Rightarrow> Inl e
                 | Inr b \<Rightarrow> Inr (a - b)))"

text \<open>\<open>np.sqrt((self.recs[:, 0] - x)**2 + (self.recs[:, 1] - y)**2)\<close>\<close>

definition sqrt_term :: "homogeneous \<Rightarrow> real \<Rightarrow> real \<Rightarrow> error + real list" where
  "sqrt_term h x y =
     (case column (recs h) 0 of Inl e \<Rightarrow> Inl e
      | Inr c0 \<Rightarrow> (case column (recs h) 1 of Inl e \<Rightarrow> Inl e
                  | Inr c1 \<Rightarrow> Inr (map2 (\<lambda>a b. sqrt ((a - x)\<^sup>2 + (b - y)\<^sup>2)) c0 c1)))"

text \<open>\<open>predicted\<close>: the unpacking \<open>x, y = p\<close> raises ValueError unless p has two entries.\<close>

definition predicted :: "homogeneous \<Rightarrow> real list \<Rightarrow> error + real list" where
  "predicted h p =
     (case p of
        [x, y] \<Rightarrow>
          (case alpha_of h of Inl e \<Rightarrow> Inl e
           | Inr alpha \<Rightarrow> (case sqrt_term h x y of Inl e \<Rightarrow> Inl e
                          | Inr s \<Rightarrow> Inr (map (\<lambda>d. alpha * d) s)))
      | _ \<Rightarrow> Inl ValueError)"

text \<open>
  A two-dimensional array of floats as its list of rows; \<open>None\<close> is a cell of
  \<open>np.empty\<close> that nothing has written yet.
\<close>

type_synonym matrix = "npfloat option list list"

definition np_empty :: "nat \<Rightarrow> nat \<Rightarrow> matrix" where
  "np_empty r c = replicate r (replicate c None)"

text \<open>
  \<open>jac[:, j] = v\<close> on an array of shape (r, c): column j must exist, and v must have r
  entries or a single one, which numpy broadcasts over the rows.
\<close>

definition assign_column :: "nat \<Rightarrow> nat \<Rightarrow> matrix \<Rightarrow> nat \<Rightarrow> npfloat list \<Rightarrow> error + matrix" where
  "assign_column r c m j v =
     (if c \<le> j then Inl IndexError
      else if length v = r then Inr (map2 (\<lambda>row a. row[j := Some a]) m v)
      else if length v = 1 then Inr (map (\<lambda>row. row[j := Some (hd v)]) m)
      else Inl ValueError)"

text \<open>\<open>-alpha*(self.recs[:, j] - c)/sqrt\<close>, element by element.\<close>

definition jac_column :: "real \<Rightarrow> real list \<Rightarrow> real \<Rightarrow> real list \<Rightarrow> npfloat list" where
  "jac_column alpha col c s = map2 (\<lambda>a d. np_div (- alpha * (a - c)) d) col s"

definition jacobian :: "homogeneous \<Rightarrow> real list \<Rightarrow> error + matrix" where
  "jacobian h p =
     (case p of
        [x, y] \<Rightarrow>
          (case alpha_of h of Inl e \<Rightarrow> Inl e
           | Inr alpha \<Rightarrow>
          (case sqrt_term h x y of Inl e \<Rightarrow> Inl e
           | Inr s \<Rightarrow>
          (case column (recs h) 0 of Inl e \<Rightarrow> Inl e
           | Inr c0 \<Rightarrow>
          (case assign_column (ndata h) (nparams h) (np_empty (ndata h) (nparams h)) 0
                  (jac_column alpha c0 x s) of Inl e \<Rightarrow> Inl e
           | Inr jac0 \<Rightarrow>
          (case column (recs h) 1 of Inl e \<Rightarrow> Inl e
           | Inr c1 \<Rightarrow>
             assign_column (ndata h) (nparams h) jac0 1 (jac_column alpha c1 y s))))))
      | _ \<Rightarrow> Inl ValueError)"

text \<open>
  The two methods as functions of the instance: the result together with the instance
  after the call. That a call leaves the instance as it was is shown below on the bodies
  of the methods, statement by statement.
\<close>

definition call_predicted :: "homogeneous \<Rightarrow> real list \<Rightarrow> (error + real list) \<times> homogeneous" where
  "call_predicted h p = (predicted h p, h)"

definition call_jacobian :: "homogeneous \<Rightarrow> real list \<Rightarrow> (error + matrix) \<times> homogeneous" where
  "call_jacobian h p = (jacobian h p, h)"

text \<open>The Euclidean distance of two points of the plane, as the specification names it.\<close>

definition distance :: "real \<times> real \<Rightarrow> real \<times> real \<Rightarrow> real" where
  "distance a b = sqrt ((fst a - fst b)\<^sup>2 + (snd a - snd b)\<^sup>2)"

text \<open>
  Row i of the Jacobian as the two column assignments leave it, for the receiver r and
  the epicenter (x, y).
\<close>

definition jac_row :: "real \<Rightarrow> real \<Rightarrow> real \<Rightarrow> real \<times> real \<Rightarrow> npfloat option list" where
  "jac_row alpha x y r =
     [Some (np_div (- alpha * (fst r - x)) (distance r (x, y))),
      Some (np_div (- alpha * (snd r - y)) (distance r (x, y)))]"

text \<open>
  Any sequence of calls of the two methods, each made on the instance as the call
  before left it.
\<close>

datatype call = Predicted "real list" | Jacobian "real list"

fun run_call :: "homogeneous \<Rightarrow> call \<Rightarrow> homogeneous" where
  "run_call h (Predicted p) = snd (call_predicted h p)"
| "run_call h (Jacobian p) = snd (call_jacobian h p)"

definition run_calls :: "homogeneous \<Rightarrow> call list \<Rightarrow> homogeneous" where
  "run_calls h cs = foldl run_call h cs"

subsection \<open>The two methods statement by statement\<close>

text \<open>
  The state the interpreter holds during a call: the instance \<open>self\<close> with its attributes,
  and the arrays on the heap that \<open>np.empty\<close> hands out, each under its reference. An
  array carries its shape and its cells; \<open>jac[:, j] = v\<close> writes into the array in place.
\<close>

type_synonym ref = nat

record ndarray =
  shape_rows :: nat
  shape_cols :: nat
  cells :: matrix

record pystate =
  inst :: homogeneous
  heap :: "ref \<Rightarrow> ndarray"

text \<open>
  A statement or expression takes the state and yields a value or an exception, and the
  state it leaves. \<open>py_bind\<close> runs one after the other; an exception ends the body.
\<close>

type_synonym 'a py = "pystate \<Rightarrow> (error + 'a) \<times> pystate"

definition py_return :: "'a \<Rightarrow> 'a py" where
  "py_return v s = (Inr v, s)"

definition py_bind :: "'a py \<Rightarrow> ('a \<Rightarrow> 'b py) \<Rightarrow> 'b py" where
  "py_bind m f s = (case m s of (Inl e, s') \<Rightarrow> (Inl e, s') | (Inr v, s') \<Rightarrow> f v s')"

text \<open>
  An expression over the attributes of \<open>self\<close> and the local variables, such as
  \<open>1/self.vs - 1/self.vp\<close> or \<open>self.recs[:, 0]\<close>: it reads, and may raise.
\<close>

definition py_expr :: "(homogeneous \<Rightarrow> error + 'a) \<Rightarrow> 'a py" where
  "py_expr f s = (f (inst s), s)"

text \<open>
  \<open>np.empty((r, c))\<close>: a new array under the reference a that the allocator chose; no
  cell of it has been written.
\<close>

definition np_empty_at :: "ref \<Rightarrow> nat \<Rightarrow> nat \<Rightarrow> ref py" where
  "np_empty_at a r c s =
     (Inr a, s\<lparr>heap := (heap s)(a := \<lparr>shape_rows = r, shape_cols = c, cells = np_empty r c\<rparr>)\<rparr>)"

text \<open>
  \<open>jac[:, j] = v\<close>: the array under the reference is overwritten in place, column j.
\<close>

definition setitem_column :: "ref \<Rightarrow> nat \<Rightarrow> npfloat list \<Rightarrow> unit py" where
  "setitem_column a j v s =
     (let arr = heap s a
      in case assign_column (shape_rows arr) (shape_cols arr) (cells arr) j v of
           Inl e \<Rightarrow> (Inl e, s)
         | Inr m \<Rightarrow> (Inr (), s\<lparr>heap := (heap s)(a := arr\<lparr>cells := m\<rparr>)\<rparr>))"

text \<open>
  \<open>x, y = p\<close>
\<close>

definition unpack2 :: "real list \<Rightarrow> error + real \<times> real" where
  "unpack2 p = (case p of [x, y] \<Rightarrow> Inr (x, y) | _ \<Rightarrow> Inl ValueError)"

text \<open>
  The body of \<open>predicted\<close>, statement by statement.
\<close>

definition predicted_body :: "real list \<Rightarrow> real list py" where
  "predicted_body p =
     py_bind (py_expr (\<lambda>h. unpack2 p)) (\<lambda>(x, y).
     py_bind (py_expr alpha_of) (\<lambda>alpha.
     py_bind (py_expr (\<lambda>h. sqrt_term h x y)) (\<lambda>s.
     py_return (map (\<lambda>d. alpha * d) s))))"

text \<open>
  The body of \<open>jacobian\<close>, statement by statement; a is the reference of the array that
  \<open>np.empty\<close> returns in this call, and the method returns that reference.
\<close>

definition jacobian_body :: "ref \<Rightarrow> real list \<Rightarrow> ref py" where
  "jacobian_body a p =
     py_bind (py_expr (\<lambda>h. unpack2 p)) (\<lambda>(x, y).
     py_bind (py_expr alpha_of) (\<lambda>alpha.
     py_bind (py_expr (\<lambda>h. sqrt_term h x y)) (\<lambda>s.
     py_bind (py_expr (\<lambda>h. Inr (ndata h, nparams h))) (\<lambda>(r, c).
     py_bind (np_empty_at a r c) (\<lambda>jac.
     py_bind (py_expr (\<lambda>h. column (recs h) 0)) (\<lambda>c0.
     py_bind (setitem_column jac 0 (jac_column alpha c0 x s)) (\<lambda>_.
     py_bind (py_expr (\<lambda>h. column (recs h) 1)) (\<lambda>c1.
     py_bind (setitem_column jac 1 (jac_column alpha c1 y s)) (\<lambda>_.
     py_return jac)))))))))"

text \<open>
  A client of the object, such as the optimizer: a sequence of calls of the two methods,
  each run on the state the call before left.
\<close>

datatype method_call = CallPredicted "real list" | CallJacobian ref "real list"

fun exec_call :: "pystate \<Rightarrow> method_call \<Rightarrow> pystate" where
  "exec_call s (CallPredicted p) = snd (predicted_body p s)"
| "exec_call s (CallJacobian a p) = snd (jacobian_body a p s)"

definition exec_calls :: "pystate \<Rightarrow> method_call list \<Rightarrow> pystate" where
  "exec_calls s cs = foldl exec_call s cs"

text \<open>
  What the caller of \<open>jacobian\<close> holds: the exception, or the array under the returned
  reference.
\<close>

definition returned_array :: "(error + ref) \<times> pystate \<Rightarrow> error + ndarray" where
  "returned_array out = (case fst out of Inl e \<Rightarrow> Inl e | Inr a \<Rightarrow> Inr (heap (snd out) a))"

text \<open>
  Reading the cells of an array: a cell that was never written shows what the memory held
  before, \<open>junk i j\<close>, which differs from one allocation to the next.
\<close>

definition read_cells :: "(nat \<Rightarrow> nat \<Rightarrow> npfloat) \<Rightarrow> ndarray \<Rightarrow> npfloat list list" where
  "read_cells junk arr =
     map (\<lambda>(i, row). map (\<lambda>(j, c). case c of Some v \<Rightarrow> v | None \<Rightarrow> junk i j) (enumerate 0 row))
       (enumerate 0 (cells arr))"

text \<open>
  The outcome of a call of \<open>jacobian\<close> as its caller sees it.
\<close>

definition observed :: "(nat \<Rightarrow> nat \<Rightarrow> npfloat) \<Rightarrow> (error + ref) \<times> pystate \<Rightarrow> error + npfloat list list" where
  "observed junk out = map_sum id (read_cells junk) (returned_array out)"

subsection \<open>A Gauss-Newton loop on the forward model\<close>

text \<open>
  Modelled from the spec: the optimizer, a base class of the library, is not part of the
  sources. What follows is the standard Gauss-Newton loop that the specification names,
  on the two methods above: from the parameter vector p, with G the matrix
  \<open>jacobian(p)\<close> and r the residual \<open>data - predicted(p)\<close>, the next vector is
  p + d where d solves the normal equations of the least-squares problem G d = r. The loop
  fails when a method raises, when the Jacobian holds a value that is not finite, or when
  the matrix of the normal equations is singular.
\<close>

datatype gn_error = ModelRaised error | NotFinite | SingularMatrix

text \<open>
  Modelled from the spec: noiseless data generated from a known true epicenter, as in the
  example of the class docstring: the straight-ray travel time of the S wave minus that of
  the P wave, each the distance over the velocity.
\<close>

definition synthetic_data :: "(real \<times> real) list \<Rightarrow> real \<Rightarrow> real \<Rightarrow> real \<times> real \<Rightarrow> real list" where
  "synthetic_data rs p s src = map (\<lambda>r. distance r src / s - distance r src / p) rs"

text \<open>
  Modelled from the spec: part of the loop, which is not in the sources. The rows of the
  Jacobian as pairs of reals, when every entry is finite.
\<close>

fun finite_rows :: "matrix \<Rightarrow> (real \<times> real) list option" where
  "finite_rows [] = Some []"
| "finite_rows (row # m) =
     (case row of
        [Some (Fin a), Some (Fin b)] \<Rightarrow>
          (case finite_rows m of None \<Rightarrow> None | Some g \<Rightarrow> Some ((a, b) # g))
      | _ \<Rightarrow> None)"

text \<open>
  Modelled from the spec: part of the loop, which is not in the sources. The normal
  equations of the 2-parameter problem, solved by Cramer's rule.
\<close>

definition solve_normal_equations :: "(real \<times> real) list \<Rightarrow> real list \<Rightarrow> (real \<times> real) option" where
  "solve_normal_equations g r =
     (let gtg00 = sum_list (map (\<lambda>(gx, gy). gx * gx) g);
          gtg01 = sum_list (map (\<lambda>(gx, gy). gx * gy) g);
          gtg11 = sum_list (map (\<lambda>(gx, gy). gy * gy) g);
          gtr0 = sum_list (map2 (\<lambda>(gx, gy) ri. gx * ri) g r);
          gtr1 = sum_list (map2 (\<lambda>(gx, gy) ri. gy * ri) g r);
          det = gtg00 * gtg11 - gtg01 * gtg01
      in if det = 0 then None
         else Some ((gtg11 * gtr0 - gtg01 * gtr1) / det, (gtg00 * gtr1 - gtg01 * gtr0) / det))"

text \<open>
  Modelled from the spec: one step of the loop, which is not in the sources. The residual
  needs as many observations as predictions.
\<close>

definition gauss_newton_step :: "homogeneous \<Rightarrow> real list \<Rightarrow> gn_error + real list" where
  "gauss_newton_step h p =
     (case p of
        [x, y] \<Rightarrow>
          (case predicted h p of Inl e \<Rightarrow> Inl (ModelRaised e)
           | Inr f \<Rightarrow>
          (case jacobian h p of Inl e \<Rightarrow> Inl (ModelRaised e)
           | Inr jac \<Rightarrow>
          (case finite_rows jac of None \<Rightarrow> Inl NotFinite
           | Some g \<Rightarrow>
              if length (data h) \<noteq> length f then Inl (ModelRaised ValueError)
              else
                (case solve_normal_equations g (map2 (\<lambda>d fi. d - fi) (data h) f) of
                   None \<Rightarrow> Inl SingularMatrix
                 | Some (dx, dy) \<Rightarrow> Inr [x + dx, y + dy]))))
      | _ \<Rightarrow> Inl (ModelRaised ValueError))"

text \<open>
  Modelled from the spec: the loop, which is not in the sources, run for n iterations from
  the initial vector p.
\<close>

fun gauss_newton :: "homogeneous \<Rightarrow> nat \<Rightarrow> real list \<Rightarrow> gn_error + real list" where
  "gauss_newton h 0 p = Inr p"
| "gauss_newton h (Suc n) p =
     (case gauss_newton_step h p of Inl e \<Rightarrow> Inl e | Inr p' \<Rightarrow> gauss_newton h n p')"

text \<open>
  Modelled from the spec: the example of the specification and of the class docstring,
  whose data generator is not in the sources: receivers (5, 0), (5, 10)
  and (10, 0), true source (5, 5), Vp = 2 and Vs = 1.
\<close>

definition example_solver :: homogeneous where
  "example_solver =
     Homogeneous_init (synthetic_data [(5, 0), (5, 10), (10, 0)] 2 1 (5, 5))
       [(5, 0), (5, 10), (10, 0)] 2 1"

text \<open>
  The step on the example written out at the point (x, y): the distances to the three
  receivers, the entries A, B, C of the matrix of the normal equations for the unit
  vectors from the receivers to the point, the right-hand side (u, v), the determinant,
  and the next point. The common factor
  1/Vs - 1/Vp cancels; \<open>step_explicit\<close> below shows that this is what
  \<open>gauss_newton_step\<close> computes.
\<close>

definition receiver_dist1 :: "real \<Rightarrow> real \<Rightarrow> real" where
  "receiver_dist1 x y = sqrt ((x - 5)\<^sup>2 + y\<^sup>2)"

definition receiver_dist2 :: "real \<Rightarrow> real \<Rightarrow> real" where
  "receiver_dist2 x y = sqrt ((x - 5)\<^sup>2 + (y - 10)\<^sup>2)"

definition receiver_dist3 :: "real \<Rightarrow> real \<Rightarrow> real" where
  "receiver_dist3 x y = sqrt ((x - 10)\<^sup>2 + y\<^sup>2)"

definition gn_A :: "real \<Rightarrow> real \<Rightarrow> real" where
  "gn_A x y = (x - 5) * (x - 5) / ((x - 5)\<^sup>2 + y\<^sup>2) + (x - 5) * (x - 5) / ((x - 5)\<^sup>2 + (y - 10)\<^sup>2)
             + (x - 10) * (x - 10) / ((x - 10)\<^sup>2 + y\<^sup>2)"

definition gn_B :: "real \<Rightarrow> real \<Rightarrow> real" where
  "gn_B x y = (x - 5) * y / ((x - 5)\<^sup>2 + y\<^sup>2) + (x - 5) * (y - 10) / ((x - 5)\<^sup>2 + (y - 10)\<^sup>2)
             + (x - 10) * y / ((x - 10)\<^sup>2 + y\<^sup>2)"

definition gn_C :: "real \<Rightarrow> real \<Rightarrow> real" where
  "gn_C x y = y * y / ((x - 5)\<^sup>2 + y\<^sup>2) + (y - 10) * (y - 10) / ((x - 5)\<^sup>2 + (y - 10)\<^sup>2)
             + y * y / ((x - 10)\<^sup>2 + y\<^sup>2)"

definition gn_u :: "real \<Rightarrow> real \<Rightarrow> real" where
  "gn_u x y = (x - 5) * ((5 - receiver_dist1 x y) / receiver_dist1 x y) + (x - 5) * ((5 - receiver_dist2 x y) / receiver_dist2 x y)
             + (x - 10) * ((sqrt 50 - receiver_dist3 x y) / receiver_dist3 x y)"

definition gn_v :: "real \<Rightarrow> real \<Rightarrow> real" where
  "gn_v x y = y * ((5 - receiver_dist1 x y) / receiver_dist1 x y) + (y - 10) * ((5 - receiver_dist2 x y) / receiver_dist2 x y)
             + y * ((sqrt 50 - receiver_dist3 x y) / receiver_dist3 x y)"

definition gn_det :: "real \<Rightarrow> real \<Rightarrow> real" where
  "gn_det x y = gn_A x y * gn_C x y - gn_B x y * gn_B x y"

definition gn_x :: "real \<Rightarrow> real \<Rightarrow> real" where
  "gn_x x y = x + (gn_C x y * gn_u x y - gn_B x y * gn_v x y) / gn_det x y"

definition gn_y :: "real \<Rightarrow> real \<Rightarrow> real" where
  "gn_y x y = y + (gn_A x y * gn_v x y - gn_B x y * gn_u x y) / gn_det x y"

section \<open>Derivative detector (snoopy/algorithms/anomaly_detector_algorithms/derivative_detector.py)\<close>

text \<open>
  The items of the time series, \<open>self.time_series.items()\<close>, are a list of
  (timestamp, value) pairs in the order of the series, which the code indexes;
  timestamps and values are numbers, modelled as reals, and \<open>/\<close> is true division.
  \<open>anom_scores\<close> is a dictionary keyed by timestamp: an association list in insertion
  order, written with \<open>AList.update\<close>.
\<close>

record derivative_detector =
  time_series_items :: "(real \<times> real) list"
  smoothing_factor :: real
  derivatives :: "real list"
  anom_scores :: "(real \<times> real) list"

text \<open>\<open>xs[i]\<close> for an index that is not negative.\<close>

definition list_get :: "'a list \<Rightarrow> nat \<Rightarrow> error + 'a" where
  "list_get xs i = (if i < length xs then Inr (xs ! i) else Inl IndexError)"

text \<open>
  The body of the loop of \<open>_compute_derivatives\<close> over
  \<open>enumerate(self.time_series_items)\<close>, with the list \<open>derivatives\<close> built so far.
\<close>

fun derivatives_loop ::
  "(real \<times> real) list \<Rightarrow> (nat \<times> real \<times> real) list \<Rightarrow> real list \<Rightarrow> error + real list" where
  "derivatives_loop items [] derivs = Inr derivs"
| "derivatives_loop items ((i, timestamp, val) # rest) derivs =
     (if 0 < i then
        (case list_get items (i - 1) of Inl e \<Rightarrow> Inl e
         | Inr pre_item \<Rightarrow>
             (let pre_timestamp = fst pre_item;
                  pre_value = snd pre_item;
                  td = timestamp - pre_timestamp
              in case (if td \<noteq> 0 then py_truediv (val - pre_value) td
                       else Inr (val - pre_value)) of
                   Inl e \<Rightarrow> Inl e
                 | Inr derivative \<Rightarrow> derivatives_loop items rest (derivs @ [\<bar>derivative\<bar>])))
      else derivatives_loop items rest derivs)"

text \<open>
  \<open>_compute_derivatives\<close>: after the loop the first entry is repeated at the front, when
  there is one, and the list is stored in \<open>self.derivatives\<close>.
\<close>

definition compute_derivatives :: "derivative_detector \<Rightarrow> error + derivative_detector" where
  "compute_derivatives d =
     (case derivatives_loop (time_series_items d) (enumerate 0 (time_series_items d)) [] of
        Inl e \<Rightarrow> Inl e
      | Inr derivs \<Rightarrow>
          Inr (d\<lparr>derivatives := (if derivs \<noteq> [] then hd derivs # derivs else derivs)\<rparr>))"

text \<open>The first loop of \<open>_set_scores\<close>, filling the dictionary \<open>anom_scores\<close>.\<close>

fun scores_loop ::
  "(nat \<times> real \<times> real) list \<Rightarrow> real list \<Rightarrow> real list \<Rightarrow> (real \<times> real) list
     \<Rightarrow> error + (real \<times> real) list" where
  "scores_loop [] derivs ema scores = Inr scores"
| "scores_loop ((i, timestamp, val) # rest) derivs ema scores =
     (case list_get derivs i of Inl e \<Rightarrow> Inl e
      | Inr dv \<Rightarrow>
          (case list_get ema i of Inl e \<Rightarrow> Inl e
           | Inr em \<Rightarrow>
               scores_loop rest derivs ema (AList.update timestamp \<bar>dv - em\<bar> scores)))"

text \<open>
  \<open>numpy.std\<close> of a list that is not empty: the root of the mean squared deviation from
  the mean.
\<close>

definition np_mean :: "real list \<Rightarrow> real" where
  "np_mean xs = sum_list xs / real (length xs)"

definition np_std :: "real list \<Rightarrow> real" where
  "np_std xs = sqrt (np_mean (map (\<lambda>v. \<bar>v - np_mean xs\<bar>\<^sup>2) xs))"

text \<open>The second loop of \<open>_set_scores\<close>: \<open>anom_scores[timestamp] /= stdev\<close> for every key.\<close>

fun divide_scores :: "(real \<times> real) list \<Rightarrow> real \<Rightarrow> error + (real \<times> real) list" where
  "divide_scores [] stdev = Inr []"
| "divide_scores ((timestamp, score) # rest) stdev =
     (case py_truediv score stdev of Inl e \<Rightarrow> Inl e
      | Inr q \<Rightarrow>
          (case divide_scores rest stdev of Inl e \<Rightarrow> Inl e
           | Inr rest' \<Rightarrow> Inr ((timestamp, q) # rest')))"

text \<open>
  \<open>stdev = numpy.std(...)\<close> and the guarded loop. Of an empty list numpy returns NaN,
  which is true as a condition, and the loop then finds no key.
\<close>

definition normalize_scores :: "(real \<times> real) list \<Rightarrow> error + (real \<times> real) list" where
  "normalize_scores scores =
     (if scores = [] then Inr []
      else (let stdev = np_std (map snd scores)
            in if stdev \<noteq> 0 then divide_scores scores stdev else Inr scores))"

text \<open>
  \<open>_set_scores\<close>. The exponential moving average \<open>utils.compute_ema\<close> and the
  base-class step \<open>TimeSeries(self._denoise_scores(...))\<close> are not part of the sources:
  they are the parameters \<open>compute_ema\<close> and \<open>denoise\<close>.
\<close>

definition set_scores ::
  "(real \<Rightarrow> real list \<Rightarrow> real list) \<Rightarrow> ((real \<times> real) list \<Rightarrow> (real \<times> real) list)
     \<Rightarrow> derivative_detector \<Rightarrow> error + derivative_detector" where
  "set_scores compute_ema denoise d =
     (case compute_derivatives d of Inl e \<Rightarrow> Inl e
      | Inr d1 \<Rightarrow>
          (let derivatives_ema = compute_ema (smoothing_factor d1) (derivatives d1)
           in case scores_loop (enumerate 0 (time_series_items d1)) (derivatives d1)
                     derivatives_ema [] of
                Inl e \<Rightarrow> Inl e
              | Inr scores \<Rightarrow>
                  (case normalize_scores scores of Inl e \<Rightarrow> Inl e
                   | Inr scores' \<Rightarrow> Inr (d1\<lparr>anom_scores := denoise scores'\<rparr>))))"

text \<open>
  Entry i of the list of derivatives, for an index i from 1 on: what the loop body of
  \<open>_compute_derivatives\<close> appends for item i.
\<close>

definition raw_derivative :: "(real \<times> real) list \<Rightarrow> nat \<Rightarrow> real" where
  "raw_derivative items i =
     (let td = fst (items ! i) - fst (items ! (i - 1));
          dv = snd (items ! i) - snd (items ! (i - 1))
      in \<bar>if td \<noteq> 0 then dv / td else dv\<bar>)"

section \<open>Properties of the epicenter forward model\<close>

subsection \<open>What the two methods return on a well-formed instance\<close>

lemma sqrt_term_ok: "recs h \<noteq> [] \<Longrightarrow> sqrt_term h x y = Inr (map (\<lambda>r. distance r (x, y)) (recs h))"
  by (simp add: sqrt_term_def column_def distance_def zip_map_fst_snd map2_map_map split_def)

lemma alpha_ok: "vp h \<noteq> 0 \<Longrightarrow> vs h \<noteq> 0 \<Longrightarrow> alpha_of h = Inr (1 / vs h - 1 / vp h)"
  by (simp add: alpha_of_def py_truediv_def)

lemma assign0:
  "length v = n \<Longrightarrow> assign_column n 2 (np_empty n 2) 0 v = Inr (map (\<lambda>a. [Some a, None]) v)"
  by (simp add: assign_column_def np_empty_def list_eq_iff_nth_eq numeral_2_eq_2)

lemma assign1:
  "length w = length v \<Longrightarrow> assign_column (length v) 2 (map (\<lambda>a. [Some a, None]) v) (Suc 0) w
     = Inr (map2 (\<lambda>a b. [Some a, Some b]) v w)"
  by (auto simp: assign_column_def list_eq_iff_nth_eq)

lemma jacobian_ok:
  assumes "recs h \<noteq> []" "ndata h = length (recs h)" "nparams h = 2" "vp h \<noteq> 0" "vs h \<noteq> 0"
  shows "jacobian h [x, y] = Inr (map (jac_row (1 / vs h - 1 / vp h) x y) (recs h))"
proof -
  let ?a = "1 / vs h - 1 / vp h"
  let ?s = "map (\<lambda>r. distance r (x, y)) (recs h)"
  let ?v = "jac_column ?a (map fst (recs h)) x ?s"
  let ?w = "jac_column ?a (map snd (recs h)) y ?s"
  have lv: "length ?v = length (recs h)" and lw: "length ?w = length ?v"
    by (simp_all add: jac_column_def)
  have c0: "column (recs h) 0 = Inr (map fst (recs h))"
    and c1: "column (recs h) (Suc 0) = Inr (map snd (recs h))"
    using assms(1) by (simp_all add: column_def)
  have "jacobian h [x, y] = Inr (map2 (\<lambda>a b. [Some a, Some b]) ?v ?w)"
    using assms lv assign1[OF lw]
    by (simp add: jacobian_def alpha_ok sqrt_term_ok c0 c1 assign0)
  also have "map2 (\<lambda>a b. [Some a, Some b]) ?v ?w = map (jac_row ?a x y) (recs h)"
    by (simp add: list_eq_iff_nth_eq jac_column_def jac_row_def)
  finally show ?thesis .
qed

lemma assign_shape:
  assumes "assign_column r c m j v = Inr m'" "length m = r" "\<forall>row \<in> set m. length row = c"
  shows "length m' = r \<and> (\<forall>row \<in> set m'. length row = c)"
  using assms by (auto simp: assign_column_def split: if_splits dest!: set_zip_leftD)

lemma jacobian_shape:
  assumes "jacobian h p = Inr m"
  shows "length m = ndata h \<and> (\<forall>row \<in> set m. length row = nparams h)"
proof -
  from assms obtain v w jac0 where
    a0: "assign_column (ndata h) (nparams h) (np_empty (ndata h) (nparams h)) 0 v = Inr jac0"
    and a1: "assign_column (ndata h) (nparams h) jac0 1 w = Inr m"
    by (auto simp: jacobian_def split: list.splits sum.splits)
  have "length jac0 = ndata h \<and> (\<forall>row \<in> set jac0. length row = nparams h)"
    by (rule assign_shape[OF a0]) (simp_all add: np_empty_def)
  then show ?thesis using assign_shape[OF a1] by blast
qed

subsection \<open>The derivative of the distance\<close>

lemma deriv_sqrt_shift:
  fixes a c u x :: real
  assumes pos: "0 < (u - x)\<^sup>2 + c"
  shows "((\<lambda>t. a * sqrt ((u - t)\<^sup>2 + c)) has_real_derivative
            - a * (u - x) / sqrt ((u - x)\<^sup>2 + c)) (at x)"
proof -
  have g: "((\<lambda>t. (u - t)\<^sup>2 + c) has_real_derivative - 2 * (u - x)) (at x)"
    by (auto intro!: derivative_eq_intros)
  have s: "((\<lambda>t. sqrt ((u - t)\<^sup>2 + c)) has_real_derivative
             inverse (sqrt ((u - x)\<^sup>2 + c)) / 2 * (- 2 * (u - x))) (at x)"
    by (rule DERIV_chain2[OF DERIV_real_sqrt[OF pos] g])
  have "((\<lambda>t. a * sqrt ((u - t)\<^sup>2 + c)) has_real_derivative
             a * (inverse (sqrt ((u - x)\<^sup>2 + c)) / 2 * (- 2 * (u - x)))) (at x)"
    by (rule DERIV_cmult[OF s])
  moreover have "a * (inverse (sqrt ((u - x)\<^sup>2 + c)) / 2 * (- 2 * (u - x)))
                  = - a * (u - x) / sqrt ((u - x)\<^sup>2 + c)"
    using pos by (simp add: field_simps)
  ultimately show ?thesis
    by simp
qed

lemma deriv_distance_x:
  assumes "(xi, yi) \<noteq> (x, y)"
  shows "((\<lambda>t. a * distance (xi, yi) (t, y)) has_real_derivative
            - a * (xi - x) / distance (xi, yi) (x, y)) (at x)"
proof -
  have pos: "0 < (xi - x)\<^sup>2 + (yi - y)\<^sup>2"
    using assms by (auto simp: sum_power2_gt_zero_iff)
  show ?thesis
    unfolding distance_def fst_conv snd_conv by (rule deriv_sqrt_shift[OF pos])
qed

lemma deriv_distance_y:
  assumes "(xi, yi) \<noteq> (x, y)"
  shows "((\<lambda>t. a * distance (xi, yi) (x, t)) has_real_derivative
            - a * (yi - y) / distance (xi, yi) (x, y)) (at y)"
proof -
  have pos: "0 < (yi - y)\<^sup>2 + (xi - x)\<^sup>2"
    using assms by (auto simp: sum_power2_gt_zero_iff)
  show ?thesis
    unfolding distance_def fst_conv snd_conv
    using deriv_sqrt_shift[OF pos, of a] by (simp add: add.commute)
qed

subsection \<open>The claims on \<open>predicted\<close> and \<open>jacobian\<close>\<close>

lemma sqrt_25: "sqrt 25 = 5"
  by (rule real_sqrt_unique) simp_all

lemma distance_pos: "a \<noteq> b \<Longrightarrow> 0 < distance a b"
  by (cases a; cases b) (auto simp: distance_def sum_power2_gt_zero_iff)

lemma distance_self: "distance a a = 0"
  by (simp add: distance_def)

lemma predicted_ok:
  "recs h \<noteq> [] \<Longrightarrow> vp h \<noteq> 0 \<Longrightarrow> vs h \<noteq> 0 \<Longrightarrow>
   predicted h [x, y] = Inr (map (\<lambda>r. (1 / vs h - 1 / vp h) * distance r (x, y)) (recs h))"
  by (simp add: predicted_def sqrt_term_ok alpha_ok)

text \<open>
  C1 (amended). For an instance with at least one receiver and nonzero velocities, and
  every parameter vector (x, y), \<open>predicted\<close> returns a sequence with one entry per
  receiver, and entry i is (1/Vs - 1/Vp) times the Euclidean distance between receiver i
  and (x, y).
\<close>

theorem predicted_elements:
  assumes "recs h \<noteq> []" and "vp h \<noteq> 0" and "vs h \<noteq> 0"
  shows "\<exists>pred. predicted h [x, y] = Inr pred \<and> length pred = length (recs h) \<and>
           (\<forall>i < length (recs h).
              pred ! i = (1 / vs h - 1 / vp h) * distance (recs h ! i) (x, y))"
  using assms by (simp add: predicted_ok)

text \<open>
  Two receivers at distance 5 from the epicenter (5, 5), with Vp = 2 and Vs = 1.
\<close>

theorem predicted_elements_witness:
  "recs (Homogeneous_init [5 / 2, 5 / 2] [(5, 0), (5, 10)] 2 1) \<noteq> [] \<and>
   vp (Homogeneous_init [5 / 2, 5 / 2] [(5, 0), (5, 10)] 2 1) \<noteq> 0 \<and>
   vs (Homogeneous_init [5 / 2, 5 / 2] [(5, 0), (5, 10)] 2 1) \<noteq> 0 \<and>
   predicted (Homogeneous_init [5 / 2, 5 / 2] [(5, 0), (5, 10)] 2 1) [5, 5] = Inr [5 / 2, 5 / 2]"
proof -
  let ?h = "Homogeneous_init [5 / 2, 5 / 2] [(5, 0), (5, 10)] 2 1"
  have hyp: "recs ?h \<noteq> []" "vp ?h \<noteq> 0" "vs ?h \<noteq> 0"
    by (simp_all add: Homogeneous_init_def)
  from predicted_elements[OF hyp, of 5 5] obtain pred where
    p: "predicted ?h [5, 5] = Inr pred" and l: "length pred = length (recs ?h)"
    and e: "\<forall>i < length (recs ?h). pred ! i = (1 / vs ?h - 1 / vp ?h) * distance (recs ?h ! i) (5, 5)"
    by blast
  have "length pred = 2" using l by (simp add: Homogeneous_init_def)
  moreover have "pred ! 0 = 5 / 2" "pred ! 1 = 5 / 2"
    using e by (simp_all add: Homogeneous_init_def distance_def sqrt_25)
  ultimately have "pred = [5 / 2, 5 / 2]"
    by (auto simp: list_eq_iff_nth_eq less_Suc_eq numeral_2_eq_2)
  with p hyp show ?thesis by simp
qed

text \<open>
  With no receiver the array of receivers is one-dimensional and \<open>predicted\<close> raises
  IndexError instead of returning the empty sequence.
\<close>

theorem predicted_empty_receivers_counterexample:
  "predicted (Homogeneous_init [] [] 2 1) [5, 5] = Inl IndexError"
  by (simp add: predicted_def Homogeneous_init_def alpha_of_def py_truediv_def sqrt_term_def
      column_def)

text \<open>
  C3. A parameter vector whose length is not 2 makes \<open>predicted\<close> raise ValueError, before
  anything else is evaluated; no result is returned.
\<close>

theorem predicted_rejects_wrong_length:
  "length p \<noteq> 2 \<Longrightarrow> predicted h p = Inl ValueError"
  by (auto simp: predicted_def split: list.splits)

text \<open>
  A parameter vector of three entries.
\<close>

theorem predicted_rejects_wrong_length_witness:
  "length [1, 2, 3 :: real] \<noteq> 2 \<and>
   predicted (Homogeneous_init [5 / 2] [(5, 0)] 2 1) [1, 2, 3] = Inl ValueError"
  using predicted_rejects_wrong_length[of "[1, 2, 3]" "Homogeneous_init [5 / 2] [(5, 0)] 2 1"]
  by simp

text \<open>
  C2 (amended). For an instance with N receivers and N observations, N at least 1, and
  nonzero velocities, and every (x, y) that is no receiver's position, \<open>jacobian\<close> returns
  a matrix of N rows of two entries: entry 0 of row i is
  -(1/Vs - 1/Vp)(x_i - x)/distance, the derivative of entry i of \<open>predicted\<close> in x,
  and entry 1 is -(1/Vs - 1/Vp)(y_i - y)/distance, its derivative in y.
\<close>

theorem jacobian_partial_derivatives:
  assumes "recs h \<noteq> []" and "ndata h = length (recs h)" and "nparams h = 2"
    and "vp h \<noteq> 0" and "vs h \<noteq> 0" and "(x, y) \<notin> set (recs h)"
  shows "\<exists>jac. jacobian h [x, y] = Inr jac \<and> length jac = length (recs h) \<and>
           (\<forall>i < length (recs h).
              jac ! i =
                [Some (Fin (- (1 / vs h - 1 / vp h) * (fst (recs h ! i) - x)
                              / distance (recs h ! i) (x, y))),
                 Some (Fin (- (1 / vs h - 1 / vp h) * (snd (recs h ! i) - y)
                              / distance (recs h ! i) (x, y)))] \<and>
              ((\<lambda>t. projr (predicted h [t, y]) ! i) has_real_derivative
                 - (1 / vs h - 1 / vp h) * (fst (recs h ! i) - x)
                   / distance (recs h ! i) (x, y)) (at x) \<and>
              ((\<lambda>t. projr (predicted h [x, t]) ! i) has_real_derivative
                 - (1 / vs h - 1 / vp h) * (snd (recs h ! i) - y)
                   / distance (recs h ! i) (x, y)) (at y))"
proof -
  let ?a = "1 / vs h - 1 / vp h"
  have jac: "jacobian h [x, y] = Inr (map (jac_row ?a x y) (recs h))"
    using assms by (simp add: jacobian_ok)
  have rows: "map (jac_row ?a x y) (recs h) ! i =
                [Some (Fin (- ?a * (fst (recs h ! i) - x) / distance (recs h ! i) (x, y))),
                 Some (Fin (- ?a * (snd (recs h ! i) - y) / distance (recs h ! i) (x, y)))]"
    and dx: "((\<lambda>t. projr (predicted h [t, y]) ! i) has_real_derivative
                 - ?a * (fst (recs h ! i) - x) / distance (recs h ! i) (x, y)) (at x)"
    and dy: "((\<lambda>t. projr (predicted h [x, t]) ! i) has_real_derivative
                 - ?a * (snd (recs h ! i) - y) / distance (recs h ! i) (x, y)) (at y)"
    if i: "i < length (recs h)" for i
  proof -
    obtain xi yi where r: "recs h ! i = (xi, yi)" by (cases "recs h ! i")
    have ne: "(xi, yi) \<noteq> (x, y)"
      using assms(6) i r nth_mem[of i "recs h"] by auto
    then have "distance (xi, yi) (x, y) \<noteq> 0"
      using distance_pos[OF ne] by simp
    then show "map (jac_row ?a x y) (recs h) ! i =
                [Some (Fin (- ?a * (fst (recs h ! i) - x) / distance (recs h ! i) (x, y))),
                 Some (Fin (- ?a * (snd (recs h ! i) - y) / distance (recs h ! i) (x, y)))]"
      using i r by (simp add: jac_row_def np_div_def)
    have px: "projr (predicted h [t, y]) ! i = ?a * distance (xi, yi) (t, y)" for t
      using assms i r by (simp add: predicted_ok)
    have py: "projr (predicted h [x, t]) ! i = ?a * distance (xi, yi) (x, t)" for t
      using assms i r by (simp add: predicted_ok)
    show "((\<lambda>t. projr (predicted h [t, y]) ! i) has_real_derivative
                 - ?a * (fst (recs h ! i) - x) / distance (recs h ! i) (x, y)) (at x)"
      using deriv_distance_x[OF ne, of ?a] by (simp add: px r)
    show "((\<lambda>t. projr (predicted h [x, t]) ! i) has_real_derivative
                 - ?a * (snd (recs h ! i) - y) / distance (recs h ! i) (x, y)) (at y)"
      using deriv_distance_y[OF ne, of ?a] by (simp add: py r)
  qed
  show ?thesis
    using jac rows dx dy by simp
qed

text \<open>
  One receiver at the origin and the epicenter (3, 4), at distance 5.
\<close>

theorem jacobian_partial_derivatives_witness:
  "recs (Homogeneous_init [5 / 2] [(0, 0)] 2 1) \<noteq> [] \<and>
   ndata (Homogeneous_init [5 / 2] [(0, 0)] 2 1) = length (recs (Homogeneous_init [5 / 2] [(0, 0)] 2 1)) \<and>
   nparams (Homogeneous_init [5 / 2] [(0, 0)] 2 1) = 2 \<and>
   vp (Homogeneous_init [5 / 2] [(0, 0)] 2 1) \<noteq> 0 \<and>
   vs (Homogeneous_init [5 / 2] [(0, 0)] 2 1) \<noteq> 0 \<and>
   (3, 4) \<notin> set (recs (Homogeneous_init [5 / 2] [(0, 0)] 2 1)) \<and>
   jacobian (Homogeneous_init [5 / 2] [(0, 0)] 2 1) [3, 4]
     = Inr [[Some (Fin (3 / 10)), Some (Fin (2 / 5))]] \<and>
   ((\<lambda>t. projr (predicted (Homogeneous_init [5 / 2] [(0, 0)] 2 1) [t, 4]) ! 0)
      has_real_derivative 3 / 10) (at 3)"
proof -
  let ?h = "Homogeneous_init [5 / 2] [(0, 0)] 2 1"
  have hyp: "recs ?h \<noteq> []" "ndata ?h = length (recs ?h)" "nparams ?h = 2"
    "vp ?h \<noteq> 0" "vs ?h \<noteq> 0" "(3, 4) \<notin> set (recs ?h)"
    by (simp_all add: Homogeneous_init_def)
  from jacobian_partial_derivatives[OF hyp] obtain jac where
    j: "jacobian ?h [3, 4] = Inr jac" and l: "length jac = length (recs ?h)"
    and e: "\<forall>i < length (recs ?h).
              jac ! i =
                [Some (Fin (- (1 / vs ?h - 1 / vp ?h) * (fst (recs ?h ! i) - 3)
                              / distance (recs ?h ! i) (3, 4))),
                 Some (Fin (- (1 / vs ?h - 1 / vp ?h) * (snd (recs ?h ! i) - 4)
                              / distance (recs ?h ! i) (3, 4)))] \<and>
              ((\<lambda>t. projr (predicted ?h [t, 4]) ! i) has_real_derivative
                 - (1 / vs ?h - 1 / vp ?h) * (fst (recs ?h ! i) - 3)
                   / distance (recs ?h ! i) (3, 4)) (at 3) \<and>
              ((\<lambda>t. projr (predicted ?h [3, t]) ! i) has_real_derivative
                 - (1 / vs ?h - 1 / vp ?h) * (snd (recs ?h ! i) - 4)
                   / distance (recs ?h ! i) (3, 4)) (at 4)"
    by blast
  have d: "distance (0, 0) (3, 4) = 5"
    by (simp add: distance_def sqrt_25)
  have "length jac = 1" using l by (simp add: Homogeneous_init_def)
  moreover have "jac ! 0 = [Some (Fin (3 / 10)), Some (Fin (2 / 5))]"
    using e by (simp add: Homogeneous_init_def d)
  ultimately have "jac = [[Some (Fin (3 / 10)), Some (Fin (2 / 5))]]"
    by (simp add: list_eq_iff_nth_eq)
  moreover have "((\<lambda>t. projr (predicted ?h [t, 4]) ! 0) has_real_derivative 3 / 10) (at 3)"
    using e by (simp add: Homogeneous_init_def d)
  ultimately show ?thesis using j hyp by simp
qed

text \<open>
  With no receiver and no observation \<open>jacobian\<close> raises IndexError: no matrix is returned.
\<close>

theorem jacobian_empty_receivers_counterexample:
  "jacobian (Homogeneous_init [] [] 2 1) [5, 5] = Inl IndexError"
  by (simp add: jacobian_def Homogeneous_init_def alpha_of_def py_truediv_def sqrt_term_def
      column_def)

text \<open>
  C4 (amended). When (x, y) is the position of receiver i, \<open>jacobian\<close> signals no error:
  it returns the matrix, and both entries of row i are NaN, the quotient 0/0.
\<close>

theorem jacobian_nan_at_receiver:
  assumes "recs h \<noteq> []" and "ndata h = length (recs h)" and "nparams h = 2"
    and "vp h \<noteq> 0" and "vs h \<noteq> 0"
    and "i < length (recs h)" and "recs h ! i = (x, y)"
  shows "\<exists>jac. jacobian h [x, y] = Inr jac \<and> jac ! i = [Some NaN, Some NaN]"
  using assms by (simp add: jacobian_ok jac_row_def np_div_def distance_self)

text \<open>
  The epicenter on the first of two receivers.
\<close>

theorem jacobian_nan_at_receiver_witness:
  "recs (Homogeneous_init [0, 5] [(5, 0), (5, 10)] 2 1) \<noteq> [] \<and>
   ndata (Homogeneous_init [0, 5] [(5, 0), (5, 10)] 2 1)
     = length (recs (Homogeneous_init [0, 5] [(5, 0), (5, 10)] 2 1)) \<and>
   nparams (Homogeneous_init [0, 5] [(5, 0), (5, 10)] 2 1) = 2 \<and>
   vp (Homogeneous_init [0, 5] [(5, 0), (5, 10)] 2 1) \<noteq> 0 \<and>
   vs (Homogeneous_init [0, 5] [(5, 0), (5, 10)] 2 1) \<noteq> 0 \<and>
   0 < length (recs (Homogeneous_init [0, 5] [(5, 0), (5, 10)] 2 1)) \<and>
   recs (Homogeneous_init [0, 5] [(5, 0), (5, 10)] 2 1) ! 0 = (5, 0) \<and>
   projr (jacobian (Homogeneous_init [0, 5] [(5, 0), (5, 10)] 2 1) [5, 0]) ! 0
     = [Some NaN, Some NaN]"
proof -
  let ?h = "Homogeneous_init [0, 5] [(5, 0), (5, 10)] 2 1"
  have hyp: "recs ?h \<noteq> []" "ndata ?h = length (recs ?h)" "nparams ?h = 2"
    "vp ?h \<noteq> 0" "vs ?h \<noteq> 0" "0 < length (recs ?h)" "recs ?h ! 0 = (5, 0)"
    by (simp_all add: Homogeneous_init_def)
  from jacobian_nan_at_receiver[OF hyp] hyp show ?thesis
    by auto
qed

text \<open>
  A single receiver at (5, 0) and the epicenter on it: the call returns a row of NaN.
\<close>

theorem jacobian_coincident_counterexample:
  "jacobian (Homogeneous_init [0] [(5, 0)] 2 1) [5, 0] = Inr [[Some NaN, Some NaN]]"
  by (simp add: jacobian_def Homogeneous_init_def alpha_of_def py_truediv_def sqrt_term_def
      column_def assign_column_def np_empty_def jac_column_def np_div_def numeral_2_eq_2)

subsection \<open>The instance across calls\<close>

lemma run_call_id: "run_call h c = h"
  by (cases c) (simp_all add: call_predicted_def call_jacobian_def)

lemma run_calls_id: "run_calls h cs = h"
  unfolding run_calls_def by (induction cs) (simp_all add: run_call_id)

text \<open>
  The bodies compute what the functions \<open>predicted\<close> and \<open>jacobian\<close> say.
\<close>

lemma predicted_body_result: "fst (predicted_body p s) = predicted (inst s) p"
  by (auto simp: predicted_body_def predicted_def py_bind_def py_expr_def py_return_def unpack2_def
      split: list.splits sum.splits prod.splits)

lemma predicted_body_state: "snd (predicted_body p s) = s"
  by (auto simp: predicted_body_def py_bind_def py_expr_def py_return_def
      split: list.splits sum.splits prod.splits)

lemma jacobian_body_inst: "inst (snd (jacobian_body a p s)) = inst s"
  by (auto simp: jacobian_body_def py_bind_def py_expr_def py_return_def np_empty_at_def
      setitem_column_def Let_def split: list.splits sum.splits prod.splits)

lemma jacobian_body_heap: "(heap (snd (jacobian_body a p s)))(a := heap s a) = heap s"
  by (auto simp: jacobian_body_def py_bind_def py_expr_def py_return_def np_empty_at_def
      setitem_column_def Let_def split: list.splits sum.splits prod.splits)

lemma jacobian_body_result:
  "returned_array (jacobian_body a p s) =
     map_sum id (\<lambda>m. \<lparr>shape_rows = ndata (inst s), shape_cols = nparams (inst s), cells = m\<rparr>)
       (jacobian (inst s) p)"
  by (auto simp: jacobian_body_def jacobian_def py_bind_def py_expr_def py_return_def np_empty_at_def
      setitem_column_def Let_def returned_array_def unpack2_def
      split: list.splits sum.splits prod.splits)

text \<open>
  On an instance with two parameters the two column assignments write every cell of the
  array.
\<close>

lemma assign0_rows:
  assumes "assign_column r 2 (np_empty r 2) 0 v = Inr m"
  shows "\<forall>row \<in> set m. \<exists>u. row = [Some u, None]"
  using assms
  by (auto simp: assign_column_def np_empty_def numeral_2_eq_2 split: if_splits
      dest!: set_zip_leftD)

lemma assign1_rows:
  assumes "assign_column r 2 m (Suc 0) w = Inr m'"
    and "\<forall>row \<in> set m. \<exists>u. row = [Some u, None]"
  shows "\<forall>row \<in> set m'. \<exists>u v. row = [Some u, Some v]"
  using assms
  by (fastforce simp: assign_column_def split: if_splits dest!: set_zip_leftD)

lemma jacobian_cells_written:
  assumes "jacobian h p = Inr m" and "nparams h = 2"
  shows "\<forall>row \<in> set m. \<exists>u v. row = [Some u, Some v]"
proof -
  from assms obtain v w jac0 where
    a0: "assign_column (ndata h) 2 (np_empty (ndata h) 2) 0 v = Inr jac0"
    and a1: "assign_column (ndata h) 2 jac0 (Suc 0) w = Inr m"
    by (auto simp: jacobian_def split: list.splits sum.splits)
  show ?thesis
    by (rule assign1_rows[OF a1 assign0_rows[OF a0]])
qed

lemma read_cells_written:
  assumes "\<forall>row \<in> set (cells arr). \<exists>u v. row = [Some u, Some v]"
  shows "read_cells junk arr = map (map the) (cells arr)"
proof -
  have "(case e of (i, row) \<Rightarrow>
           map (\<lambda>(j, c). case c of Some v \<Rightarrow> v | None \<Rightarrow> junk i j) (enumerate 0 row))
        = map the (snd e)"
    if "e \<in> set (enumerate 0 (cells arr))" for e
  proof -
    from that have "snd e \<in> set (cells arr)"
      by (metis in_set_enumerate_eq add_0_right diff_zero nth_mem)
    with assms obtain u v where "snd e = [Some u, Some v]" by blast
    then show ?thesis by (cases e) (simp add: enumerate_eq_zip)
  qed
  then have "read_cells junk arr = map (\<lambda>e. map the (snd e)) (enumerate 0 (cells arr))"
    unfolding read_cells_def by (intro map_cong refl) 
  also have "\<dots> = map (map the \<circ> snd) (enumerate 0 (cells arr))"
    by (simp add: comp_def)
  also have "\<dots> = map (map the) (map snd (enumerate 0 (cells arr)))"
    by (simp only: map_map)
  also have "\<dots> = map (map the) (cells arr)"
    by simp
  finally show ?thesis .
qed

lemma observed_jacobian:
  assumes "nparams (inst s) = 2"
  shows "observed junk (jacobian_body a p s) = map_sum id (map (map the)) (jacobian (inst s) p)"
proof (cases "jacobian (inst s) p")
  case (Inl e)
  then show ?thesis by (simp add: observed_def jacobian_body_result)
next
  case (Inr m)
  then show ?thesis
    using read_cells_written[of "\<lparr>shape_rows = ndata (inst s), shape_cols = nparams (inst s), cells = m\<rparr>" junk]
      jacobian_cells_written[OF Inr assms]
    by (simp add: observed_def jacobian_body_result)
qed

lemma exec_call_inst: "inst (exec_call s c) = inst s"
  by (cases c) (simp_all add: predicted_body_state jacobian_body_inst)

lemma exec_calls_inst: "inst (exec_calls s cs) = inst s"
  unfolding exec_calls_def
  by (induction cs arbitrary: s) (simp_all add: exec_call_inst)

text \<open>
  C5. The body of \<open>predicted\<close> leaves the whole state as it was, and the body of
  \<open>jacobian\<close> changes nothing but the array it has allocated itself: the instance is
  the same after the call, whether the call returns or raises. After any sequence of calls
  the receivers, the observations and the two velocities are those given at construction.
\<close>

theorem methods_leave_instance_unchanged:
  "snd (predicted_body q st) = st \<and>
   inst (snd (jacobian_body a q st)) = inst st \<and>
   (heap (snd (jacobian_body a q st)))(a := heap st a) = heap st \<and>
   inst (exec_calls st cs) = inst st \<and>
   recs (inst (exec_calls \<lparr>inst = Homogeneous_init ttres rs p s, heap = hp\<rparr> cs)) = rs \<and>
   data (inst (exec_calls \<lparr>inst = Homogeneous_init ttres rs p s, heap = hp\<rparr> cs)) = ttres \<and>
   vp (inst (exec_calls \<lparr>inst = Homogeneous_init ttres rs p s, heap = hp\<rparr> cs)) = p \<and>
   vs (inst (exec_calls \<lparr>inst = Homogeneous_init ttres rs p s, heap = hp\<rparr> cs)) = s"
  by (simp add: predicted_body_state jacobian_body_inst jacobian_body_heap exec_calls_inst
      Homogeneous_init_def)

text \<open>
  C7. Two evaluations on the same parameter vector return equal results: the bodies
  return what the functions \<open>predicted\<close> and \<open>jacobian\<close> of the instance and the
  parameter vector say, every cell of the returned array being written; the result of
  \<open>predicted\<close> does not depend on the heap nor on the calls made before, and what the
  caller reads in the array that \<open>jacobian\<close> returns depends neither on the reference
  the allocator chose, nor on what the memory held, nor on the heap, nor on the calls made
  before.
\<close>

theorem evaluations_agree:
  "fst (predicted_body q \<lparr>inst = h, heap = hp\<rparr>) = predicted h q \<and>
   observed junk (jacobian_body a q \<lparr>inst = Homogeneous_init ttres rs p s, heap = hp\<rparr>)
     = map_sum id (map (map the)) (jacobian (Homogeneous_init ttres rs p s) q) \<and>
   fst (predicted_body q \<lparr>inst = h, heap = hp\<rparr>) = fst (predicted_body q \<lparr>inst = h, heap = hp'\<rparr>) \<and>
   fst (predicted_body q (exec_calls st cs)) = fst (predicted_body q st) \<and>
   observed junk (jacobian_body a q \<lparr>inst = Homogeneous_init ttres rs p s, heap = hp\<rparr>)
     = observed junk' (jacobian_body a' q \<lparr>inst = Homogeneous_init ttres rs p s, heap = hp'\<rparr>) \<and>
   observed junk' (jacobian_body a' q
       (exec_calls \<lparr>inst = Homogeneous_init ttres rs p s, heap = hp\<rparr> cs))
     = observed junk (jacobian_body a q \<lparr>inst = Homogeneous_init ttres rs p s, heap = hp\<rparr>)"
proof -
  let ?h = "Homogeneous_init ttres rs p s"
  have n: "nparams ?h = 2" by (simp add: Homogeneous_init_def)
  have o: "observed j (jacobian_body b q st') = map_sum id (map (map the)) (jacobian ?h q)"
    if "inst st' = ?h" for j b st'
    using observed_jacobian[of st' j b q] that n by simp
  show ?thesis
    by (simp add: predicted_body_result exec_calls_inst o)
qed

text \<open>
  An array that \<open>np.empty\<close> returned and nothing has written shows the memory's content.
\<close>

lemma unwritten_array_shows_junk:
  "observed (\<lambda>i j. NaN) (np_empty_at a 1 2 st) = Inr [[NaN, NaN]] \<and>
   observed (\<lambda>i j. Fin 0) (np_empty_at a 1 2 st) = Inr [[Fin 0, Fin 0]]"
  by (simp add: observed_def returned_array_def read_cells_def np_empty_at_def np_empty_def
      enumerate_eq_zip numeral_2_eq_2)

text \<open>The functions of the instance agree with the bodies.\<close>

lemma call_predicted_body:
  "call_predicted (inst st) q = (fst (predicted_body q st), inst (snd (predicted_body q st)))"
  by (simp add: call_predicted_def predicted_body_result predicted_body_state)

lemma call_jacobian_body:
  "nparams (inst st) = 2 \<Longrightarrow>
   map_prod (map_sum id (map (map the))) id (call_jacobian (inst st) q)
     = (observed junk (jacobian_body a q st), inst (snd (jacobian_body a q st)))"
  by (simp add: call_jacobian_def observed_jacobian jacobian_body_inst)


subsection \<open>Shapes\<close>

text \<open>
  An instance built from three observations and one receiver: the two lengths differ, and
  \<open>jacobian\<close> broadcasts the single receiver over three rows.
\<close>

theorem jacobian_lengths_counterexample:
  "length (recs (Homogeneous_init [1, 2, 3] [(0, 0)] 2 1)) = 1 \<and>
   length (data (Homogeneous_init [1, 2, 3] [(0, 0)] 2 1)) = 3 \<and>
   jacobian (Homogeneous_init [1, 2, 3] [(0, 0)] 2 1) [3, 4] =
     Inr [[Some (Fin (3 / 10)), Some (Fin (2 / 5))],
          [Some (Fin (3 / 10)), Some (Fin (2 / 5))],
          [Some (Fin (3 / 10)), Some (Fin (2 / 5))]]"
  by (simp add: jacobian_def Homogeneous_init_def alpha_of_def py_truediv_def sqrt_term_def
      column_def assign_column_def np_empty_def jac_column_def np_div_def numeral_2_eq_2
      numeral_3_eq_3 sqrt_25)

text \<open>
  C6 (amended). For every constructed instance \<open>nparams\<close> is 2 and stays 2, and every
  matrix that \<open>jacobian\<close> returns has one row per observation, each of two entries. The
  constructor does not compare the number of receivers with the number of observations;
  when the two are equal and not zero, and the velocities are nonzero, \<open>jacobian\<close> returns
  for every (x, y) a matrix with that many rows.
\<close>

theorem jacobian_rows_and_nparams:
  "nparams (Homogeneous_init ttres rs p s) = 2 \<and>
   nparams (run_calls (Homogeneous_init ttres rs p s) cs) = 2 \<and>
   (\<forall>q jac. jacobian (Homogeneous_init ttres rs p s) q = Inr jac \<longrightarrow>
      length jac = length ttres \<and> (\<forall>row \<in> set jac. length row = 2)) \<and>
   (length rs = length ttres \<and> rs \<noteq> [] \<and> p \<noteq> 0 \<and> s \<noteq> 0 \<longrightarrow>
      (\<exists>jac. jacobian (Homogeneous_init ttres rs p s) [x, y] = Inr jac \<and>
         length jac = length rs))"
proof -
  let ?h = "Homogeneous_init ttres rs p s"
  have f: "nparams ?h = 2" "ndata ?h = length ttres" "recs ?h = rs" "vp ?h = p" "vs ?h = s"
    by (simp_all add: Homogeneous_init_def)
  have shape: "length jac = length ttres \<and> (\<forall>row \<in> set jac. length row = 2)"
    if "jacobian ?h q = Inr jac" for q jac
    using jacobian_shape[OF that] f by simp
  have ret: "\<exists>jac. jacobian ?h [x, y] = Inr jac \<and> length jac = length rs"
    if "length rs = length ttres \<and> rs \<noteq> [] \<and> p \<noteq> 0 \<and> s \<noteq> 0"
    using that f by (simp add: jacobian_ok)
  show ?thesis
    using f(1) shape ret by (simp add: run_calls_id)
qed

text \<open>
  Three receivers and three observations, evaluated at (1, 1).
\<close>

theorem jacobian_rows_and_nparams_witness:
  "length [(5, 0), (5, 10), (10, 0 :: real)] = length [5 / 2, 5 / 2, 3 :: real] \<and>
   jacobian (Homogeneous_init [5 / 2, 5 / 2, 3] [(5, 0), (5, 10), (10, 0)] 2 1) [1, 1]
     = Inr (map (jac_row (1 / 2) 1 1) [(5, 0), (5, 10), (10, 0)]) \<and>
   length (projr (jacobian (Homogeneous_init [5 / 2, 5 / 2, 3] [(5, 0), (5, 10), (10, 0)] 2 1)
             [1, 1])) = 3 \<and>
   map length (projr (jacobian (Homogeneous_init [5 / 2, 5 / 2, 3]
                                  [(5, 0), (5, 10), (10, 0)] 2 1) [1, 1])) = [2, 2, 2]"
proof -
  let ?h = "Homogeneous_init [5 / 2, 5 / 2, 3] [(5, 0), (5, 10), (10, 0)] 2 1"
  have j: "jacobian ?h [1, 1] = Inr (map (jac_row (1 / 2) 1 1) [(5, 0), (5, 10), (10, 0)])"
    by (simp add: jacobian_ok Homogeneous_init_def)
  from jacobian_rows_and_nparams[of "[5 / 2, 5 / 2, 3]" "[(5, 0), (5, 10), (10, 0)]" 2 1 "[]" 1 1]
  have "\<forall>q jac. jacobian ?h q = Inr jac \<longrightarrow>
          length jac = length [5 / 2, 5 / 2, 3 :: real] \<and> (\<forall>row \<in> set jac. length row = 2)"
    by blast
  from this[rule_format, OF j] j show ?thesis
    by (simp add: jac_row_def)
qed

section \<open>The Gauss-Newton loop recovers the epicenter of the example\<close>

subsection \<open>Enclosures of products, quotients and square roots\<close>

lemma lin_encl:
  fixes a c :: real
  assumes "l \<le> a" "a \<le> u" "L \<le> l * c" "L \<le> u * c"
  shows "L \<le> a * c"
proof (cases "0 \<le> c")
  case True
  then have "l * c \<le> a * c" using assms(1) by (simp add: mult_right_mono)
  then show ?thesis using assms(3) by linarith
next
  case False
  then have "u * c \<le> a * c" using assms(2) by (simp add: mult_right_mono_neg)
  then show ?thesis using assms(4) by linarith
qed

lemma mult_lo:
  fixes a b :: real
  assumes a: "l1 \<le> a" "a \<le> u1" and b: "l2 \<le> b" "b \<le> u2"
    and L: "L \<le> l1 * l2" "L \<le> l1 * u2" "L \<le> u1 * l2" "L \<le> u1 * u2"
  shows "L \<le> a * b"
proof -
  have 1: "L \<le> l1 * b" using lin_encl[OF b, of L l1] L by (simp add: mult.commute)
  have 2: "L \<le> u1 * b" using lin_encl[OF b, of L u1] L by (simp add: mult.commute)
  show "L \<le> a * b" by (rule lin_encl[OF a 1 2])
qed

lemma mult_hi:
  fixes a b :: real
  assumes a: "l1 \<le> a" "a \<le> u1" and b: "l2 \<le> b" "b \<le> u2"
    and U: "l1 * l2 \<le> U" "l1 * u2 \<le> U" "u1 * l2 \<le> U" "u1 * u2 \<le> U"
  shows "a * b \<le> U"
proof -
  have "- U \<le> a * (- b)"
    by (rule mult_lo[OF a, of "- u2" "- b" "- l2"]) (use b U in simp_all)
  then show ?thesis by simp
qed

lemma div_lo:
  fixes a b :: real
  assumes a: "l1 \<le> a" "a \<le> u1" and b: "l2 \<le> b" "b \<le> u2" and pos: "0 < l2"
    and L: "L \<le> l1 / u2" "L \<le> l1 / l2" "L \<le> u1 / u2" "L \<le> u1 / l2"
  shows "L \<le> a / b"
proof -
  have bp: "0 < b" "0 < u2" using b pos by linarith+
  have ib: "1 / u2 \<le> 1 / b" "1 / b \<le> 1 / l2"
    using b pos bp by (simp_all add: frac_le)
  have "L \<le> a * (1 / b)"
    by (rule mult_lo[OF a ib]) (use L in simp_all)
  then show ?thesis by simp
qed

lemma div_hi:
  fixes a b :: real
  assumes a: "l1 \<le> a" "a \<le> u1" and b: "l2 \<le> b" "b \<le> u2" and pos: "0 < l2"
    and U: "l1 / u2 \<le> U" "l1 / l2 \<le> U" "u1 / u2 \<le> U" "u1 / l2 \<le> U"
  shows "a / b \<le> U"
proof -
  have bp: "0 < b" "0 < u2" using b pos by linarith+
  have ib: "1 / u2 \<le> 1 / b" "1 / b \<le> 1 / l2"
    using b pos bp by (simp_all add: frac_le)
  have "a * (1 / b) \<le> U"
    by (rule mult_hi[OF a ib]) (use U in simp_all)
  then show ?thesis by simp
qed

lemma sqrt_lo:
  fixes t :: real
  assumes "l \<le> t" "0 \<le> L" "L * L \<le> l"
  shows "L \<le> sqrt t"
proof -
  have "L\<^sup>2 \<le> t" using assms by (simp add: power2_eq_square)
  then show ?thesis using assms(2) real_le_rsqrt by blast
qed

lemma sqrt_hi:
  fixes t :: real
  assumes "0 \<le> t" "t \<le> u" "0 \<le> U" "u \<le> U * U"
  shows "sqrt t \<le> U"
proof -
  have "t \<le> U\<^sup>2" using assms by (simp add: power2_eq_square)
  then show ?thesis using assms(1,3) real_le_lsqrt by blast
qed

subsection \<open>The step on the example\<close>

lemma example_fields:
  "recs example_solver = [(5, 0), (5, 10), (10, 0)]"
  "data example_solver = [5 / 2, 5 / 2, sqrt 50 / 2]"
  "ndata example_solver = 3" "nparams example_solver = 2"
  "vp example_solver = 2" "vs example_solver = 1"
  by (simp_all add: example_solver_def Homogeneous_init_def synthetic_data_def distance_def sqrt_25)

lemma dist_s:
  "distance (5, 0) (x, y) = receiver_dist1 x y" "distance (5, 10) (x, y) = receiver_dist2 x y"
  "distance (10, 0) (x, y) = receiver_dist3 x y"
  by (simp_all add: distance_def receiver_dist1_def receiver_dist2_def receiver_dist3_def power2_commute)

lemma s_pos:
  assumes "0 < y" "y < 10"
  shows "0 < receiver_dist1 x y" "0 < receiver_dist2 x y" "0 < receiver_dist3 x y"
  using assms by (simp_all add: receiver_dist1_def receiver_dist2_def receiver_dist3_def sum_power2_gt_zero_iff)

lemma s_sq:
  "(receiver_dist1 x y)\<^sup>2 = (x - 5)\<^sup>2 + y\<^sup>2" "(receiver_dist2 x y)\<^sup>2 = (x - 5)\<^sup>2 + (y - 10)\<^sup>2"
  "(receiver_dist3 x y)\<^sup>2 = (x - 10)\<^sup>2 + y\<^sup>2"
  by (simp_all add: receiver_dist1_def receiver_dist2_def receiver_dist3_def)

lemma s_mult:
  "receiver_dist1 x y * receiver_dist1 x y = (x - 5) * (x - 5) + y * y"
  "receiver_dist2 x y * receiver_dist2 x y = (x - 5) * (x - 5) + (y - 10) * (y - 10)"
  "receiver_dist3 x y * receiver_dist3 x y = (x - 10) * (x - 10) + y * y"
  using s_sq[of x y] by (simp_all add: power2_eq_square)

lemma step_explicit:
  assumes y: "0 < y" "y < 10" and det: "gn_det x y \<noteq> 0"
  shows "gauss_newton_step example_solver [x, y] = Inr [gn_x x y, gn_y x y]"
proof -
  note sp = s_pos[OF y, of x]
  have ne: "receiver_dist1 x y \<noteq> 0" "receiver_dist2 x y \<noteq> 0" "receiver_dist3 x y \<noteq> 0" using sp by simp_all
  have pr: "predicted example_solver [x, y] = Inr [receiver_dist1 x y / 2, receiver_dist2 x y / 2, receiver_dist3 x y / 2]"
    by (simp add: predicted_ok example_fields dist_s)
  let ?g = "[((x - 5) / receiver_dist1 x y / 2, y / receiver_dist1 x y / 2), ((x - 5) / receiver_dist2 x y / 2, (y - 10) / receiver_dist2 x y / 2),
             ((x - 10) / receiver_dist3 x y / 2, y / receiver_dist3 x y / 2)]"
  have jc: "jacobian example_solver [x, y] = Inr (map (\<lambda>(a, b). [Some (Fin a), Some (Fin b)]) ?g)"
    using ne by (simp add: jacobian_ok example_fields jac_row_def dist_s np_div_def)
       (simp add: field_simps)
  have fr: "finite_rows (map (\<lambda>(a, b). [Some (Fin a), Some (Fin b)]) ?g) = Some ?g"
    by simp
  define A where "A = gn_A x y"
  define B where "B = gn_B x y"
  define C where "C = gn_C x y"
  define u where "u = gn_u x y"
  define v where "v = gn_v x y"
  have A': "A = (x - 5) * (x - 5) / (receiver_dist1 x y * receiver_dist1 x y) + (x - 5) * (x - 5) / (receiver_dist2 x y * receiver_dist2 x y)
             + (x - 10) * (x - 10) / (receiver_dist3 x y * receiver_dist3 x y)"
    by (simp only: A_def gn_A_def power2_eq_square s_mult)
  have A4: "sum_list (map (\<lambda>(gx, gy). gx * gx) ?g) = A / 4"
    unfolding A' using ne by (simp add: field_simps)
  have B': "B = (x - 5) * y / (receiver_dist1 x y * receiver_dist1 x y) + (x - 5) * (y - 10) / (receiver_dist2 x y * receiver_dist2 x y)
             + (x - 10) * y / (receiver_dist3 x y * receiver_dist3 x y)"
    by (simp only: B_def gn_B_def power2_eq_square s_mult)
  have B4: "sum_list (map (\<lambda>(gx, gy). gx * gy) ?g) = B / 4"
    unfolding B' using ne by (simp add: field_simps)
  have C': "C = y * y / (receiver_dist1 x y * receiver_dist1 x y) + (y - 10) * (y - 10) / (receiver_dist2 x y * receiver_dist2 x y)
             + y * y / (receiver_dist3 x y * receiver_dist3 x y)"
    by (simp only: C_def gn_C_def power2_eq_square s_mult)
  have C4: "sum_list (map (\<lambda>(gx, gy). gy * gy) ?g) = C / 4"
    unfolding C' using ne by (simp add: field_simps)
  have u4: "sum_list (map2 (\<lambda>(gx, gy) ri. gx * ri) ?g
              (map2 (\<lambda>d fi. d - fi) [5 / 2, 5 / 2, sqrt 50 / 2] [receiver_dist1 x y / 2, receiver_dist2 x y / 2, receiver_dist3 x y / 2])) = u / 4"
    using ne by (simp add: u_def gn_u_def field_simps)
  have v4: "sum_list (map2 (\<lambda>(gx, gy) ri. gy * ri) ?g
              (map2 (\<lambda>d fi. d - fi) [5 / 2, 5 / 2, sqrt 50 / 2] [receiver_dist1 x y / 2, receiver_dist2 x y / 2, receiver_dist3 x y / 2])) = v / 4"
    using ne by (simp add: v_def gn_v_def field_simps)
  have d: "A * C - B * B \<noteq> 0" using det by (simp add: gn_det_def A_def B_def C_def)
  then have d16: "A / 4 * (C / 4) - B / 4 * (B / 4) \<noteq> 0" by (simp add: field_simps)
  have qx: "(C / 4 * (u / 4) - B / 4 * (v / 4)) / (A / 4 * (C / 4) - B / 4 * (B / 4))
            = (C * u - B * v) / (A * C - B * B)"
    using d by (simp add: field_simps)
  have qy: "(A / 4 * (v / 4) - B / 4 * (u / 4)) / (A / 4 * (C / 4) - B / 4 * (B / 4))
            = (A * v - B * u) / (A * C - B * B)"
    using d by (simp add: field_simps)
  have sne: "solve_normal_equations ?g
              (map2 (\<lambda>d fi. d - fi) [5 / 2, 5 / 2, sqrt 50 / 2] [receiver_dist1 x y / 2, receiver_dist2 x y / 2, receiver_dist3 x y / 2])
            = Some ((C * u - B * v) / (A * C - B * B), (A * v - B * u) / (A * C - B * B))"
    unfolding solve_normal_equations_def Let_def A4 B4 C4 u4 v4
    using d16 qx qy by simp
  have "gauss_newton_step example_solver [x, y]
          = Inr [x + (C * u - B * v) / (A * C - B * B), y + (A * v - B * u) / (A * C - B * B)]"
    unfolding gauss_newton_step_def
    by (simp only: list.case pr jc fr sum.case option.case example_fields(2) sne prod.case)
       simp
  then show ?thesis
    by (simp add: gn_x_def gn_y_def gn_det_def A_def B_def C_def u_def v_def)
qed

subsection \<open>Near the true epicenter the error is squared\<close>

text \<open>
  The error of the next point solves the normal equations with right-hand side eps, where
  eps i, the defect of the linearised distance to receiver i, is between 0 and a multiple
  of the squared error of the point; the determinant of the normal equations is bounded
  below by Lagrange's identity.
\<close>

lemma lagrange3:
  fixes a1 a2 a3 b1 b2 b3 :: real
  shows "(a1\<^sup>2 + a2\<^sup>2 + a3\<^sup>2) * (b1\<^sup>2 + b2\<^sup>2 + b3\<^sup>2) - (a1 * b1 + a2 * b2 + a3 * b3) * (a1 * b1 + a2 * b2 + a3 * b3)
         = (a1 * b2 - a2 * b1)\<^sup>2 + (a1 * b3 - a3 * b1)\<^sup>2 + (a2 * b3 - a3 * b2)\<^sup>2"
  by (simp add: power2_eq_square algebra_simps)

lemma unit_abs_le1:
  fixes a b :: real
  assumes "a\<^sup>2 + b\<^sup>2 = 1"
  shows "\<bar>a\<bar> \<le> 1" "\<bar>b\<bar> \<le> 1" "a\<^sup>2 \<le> 1" "b\<^sup>2 \<le> 1" "\<bar>a * b\<bar> \<le> 1"
proof -
  have a2: "a\<^sup>2 \<le> 1" and b2: "b\<^sup>2 \<le> 1"
    using assms zero_le_power2[of a] zero_le_power2[of b] by linarith+
  show "a\<^sup>2 \<le> 1" "b\<^sup>2 \<le> 1" by fact+
  show a: "\<bar>a\<bar> \<le> 1" using a2 by (simp add: abs_le_square_iff[of a 1, simplified])
  show b: "\<bar>b\<bar> \<le> 1" using b2 by (simp add: abs_le_square_iff[of b 1, simplified])
  have "\<bar>a * b\<bar> = \<bar>a\<bar> * \<bar>b\<bar>" by (simp add: abs_mult)
  also have "\<dots> \<le> 1 * 1" by (rule mult_mono[OF a b]) simp_all
  finally show "\<bar>a * b\<bar> \<le> 1" by simp
qed

lemma gn_core:
  fixes a1 a2 a3 b1 b2 b3 e1 e2 e3 K d :: real
  assumes u1: "a1\<^sup>2 + b1\<^sup>2 = 1" and u2: "a2\<^sup>2 + b2\<^sup>2 = 1" and u3: "a3\<^sup>2 + b3\<^sup>2 = 1"
    and e: "0 \<le> e1" "0 \<le> e2" "0 \<le> e3" and eK: "e1 + e2 + e3 \<le> K"
    and d: "0 < d" "d \<le> (a1 * b3 - a3 * b1)\<^sup>2"
  defines "A \<equiv> a1\<^sup>2 + a2\<^sup>2 + a3\<^sup>2" and "B \<equiv> a1 * b1 + a2 * b2 + a3 * b3"
    and "C \<equiv> b1\<^sup>2 + b2\<^sup>2 + b3\<^sup>2"
    and "hx \<equiv> a1 * e1 + a2 * e2 + a3 * e3" and "hy \<equiv> b1 * e1 + b2 * e2 + b3 * e3"
  shows "d \<le> A * C - B * B"
    and "\<bar>(C * hx - B * hy) / (A * C - B * B)\<bar> \<le> 6 * K / d"
    and "\<bar>(A * hy - B * hx) / (A * C - B * B)\<bar> \<le> 6 * K / d"
proof -
  have det: "A * C - B * B = (a1 * b2 - a2 * b1)\<^sup>2 + (a1 * b3 - a3 * b1)\<^sup>2 + (a2 * b3 - a3 * b2)\<^sup>2"
    unfolding A_def B_def C_def by (rule lagrange3)
  show dle: "d \<le> A * C - B * B"
    unfolding det using d(2) zero_le_power2[of "a1 * b2 - a2 * b1"] zero_le_power2[of "a2 * b3 - a3 * b2"]
    by linarith
  have K0: "0 \<le> K" using e eK by linarith
  have absA: "\<bar>A\<bar> \<le> 3" 
    using unit_abs_le1(3)[OF u1] unit_abs_le1(3)[OF u2] unit_abs_le1(3)[OF u3]
      zero_le_power2[of a1] zero_le_power2[of a2] zero_le_power2[of a3]
    unfolding A_def by linarith
  have absC: "\<bar>C\<bar> \<le> 3" 
    using unit_abs_le1(4)[OF u1] unit_abs_le1(4)[OF u2] unit_abs_le1(4)[OF u3]
      zero_le_power2[of b1] zero_le_power2[of b2] zero_le_power2[of b3]
    unfolding C_def by linarith
  have absB: "\<bar>B\<bar> \<le> 3"
    using unit_abs_le1(5)[OF u1] unit_abs_le1(5)[OF u2] unit_abs_le1(5)[OF u3]
    unfolding B_def by linarith
  have t: "\<bar>a * ee\<bar> \<le> ee" if "\<bar>a\<bar> \<le> 1" "0 \<le> ee" for a ee :: real
  proof -
    have "\<bar>a * ee\<bar> = \<bar>a\<bar> * ee" using that by (simp add: abs_mult)
    also have "\<dots> \<le> 1 * ee" by (rule mult_right_mono) (use that in simp_all)
    finally show ?thesis by simp
  qed
  have hx: "\<bar>hx\<bar> \<le> K"
    using t[OF unit_abs_le1(1)[OF u1] e(1)] t[OF unit_abs_le1(1)[OF u2] e(2)]
      t[OF unit_abs_le1(1)[OF u3] e(3)] eK
    unfolding hx_def by linarith
  have hy: "\<bar>hy\<bar> \<le> K"
    using t[OF unit_abs_le1(2)[OF u1] e(1)] t[OF unit_abs_le1(2)[OF u2] e(2)]
      t[OF unit_abs_le1(2)[OF u3] e(3)] eK
    unfolding hy_def by linarith
  have prod: "\<bar>P * h\<bar> \<le> 3 * K" if "\<bar>P\<bar> \<le> 3" "\<bar>h\<bar> \<le> K" for P h :: real
  proof -
    have "\<bar>P * h\<bar> = \<bar>P\<bar> * \<bar>h\<bar>" by (simp add: abs_mult)
    also have "\<dots> \<le> 3 * K" by (rule mult_mono) (use that K0 in simp_all)
    finally show ?thesis .
  qed
  have dpos: "0 < A * C - B * B" using d(1) dle by linarith
  have quot: "\<bar>n / (A * C - B * B)\<bar> \<le> 6 * K / d" if "\<bar>n\<bar> \<le> 6 * K" for n
  proof -
    have "\<bar>n / (A * C - B * B)\<bar> = \<bar>n\<bar> / (A * C - B * B)"
      using dpos by simp
    also have "\<dots> \<le> 6 * K / d"
      by (rule frac_le) (use that K0 d(1) dle in simp_all)
    finally show ?thesis .
  qed
  show "\<bar>(C * hx - B * hy) / (A * C - B * B)\<bar> \<le> 6 * K / d"
    using prod[OF absC hx] prod[OF absB hy] by (intro quot) linarith
  show "\<bar>(A * hy - B * hx) / (A * C - B * B)\<bar> \<le> 6 * K / d"
    using prod[OF absA hy] prod[OF absB hx] by (intro quot) linarith
qed

lemma eps_bound:
  fixes s t D w W m :: real
  assumes "0 < s" "0 < t" "0 \<le> D" and id: "(D * s - t) * (D * s + t) = w"
    and "0 \<le> w" "w \<le> W" "0 < m" "m \<le> s * (D * s + t)"
  shows "0 \<le> D - t / s" and "D - t / s \<le> W / m"
proof -
  have p: "0 < D * s + t" using assms by (simp add: add_nonneg_pos)
  have "D * s - t = w / (D * s + t)"
    using p id by (simp add: nonzero_eq_divide_eq)
  moreover have "D - t / s = (D * s - t) / s"
    using assms(1) by (simp add: diff_divide_distrib)
  ultimately have eq: "D - t / s = w / (s * (D * s + t))"
    by (simp add: mult.commute)
  show "0 \<le> D - t / s"
    unfolding eq using assms p by simp
  show "D - t / s \<le> W / m"
    unfolding eq by (rule frac_le) (use assms in simp_all)
qed

lemma sq_le_of_abs: "\<bar>a\<bar> \<le> c \<Longrightarrow> a\<^sup>2 \<le> c\<^sup>2" for a c :: real
  using abs_le_square_iff[of a c] by simp

lemma sq_bounds:
  fixes a l u :: real
  assumes "0 \<le> l" "l \<le> a" "a \<le> u"
  shows "l\<^sup>2 \<le> a\<^sup>2" "a\<^sup>2 \<le> u\<^sup>2"
  using assms by (simp_all add: power_mono)

lemma sqrt_ge_of_sq:
  fixes a q :: real
  assumes "0 \<le> a" "a\<^sup>2 \<le> q"
  shows "a \<le> sqrt q"
  using assms real_le_rsqrt by blast

lemma sqrt50: "7 \<le> sqrt 50" "(sqrt 50)\<^sup>2 = 50" "0 \<le> sqrt 50"
  by (simp_all add: real_le_rsqrt)

lemma gn_local:
  assumes ex: "\<bar>x - 5\<bar> \<le> r" and ey: "\<bar>y - 5\<bar> \<le> r" and r: "r \<le> 3 / 50"
  shows "9 / 20 \<le> gn_det x y" and "\<bar>gn_x x y - 5\<bar> \<le> 10 * r\<^sup>2"
    and "\<bar>gn_y x y - 5\<bar> \<le> 10 * r\<^sup>2"
proof -
  have r0: "0 \<le> r" using ex by linarith
  have xb: "247 / 50 \<le> x" "x \<le> 253 / 50" and yb: "247 / 50 \<le> y" "y \<le> 253 / 50"
    using ex ey r by linarith+
  have y0: "0 < y" "y < 10" using yb by linarith+
  note sp = s_pos[OF y0, of x]
  note sq = s_sq[of x y]
  define S1 where "S1 = receiver_dist1 x y"
  define S2 where "S2 = receiver_dist2 x y"
  define S3 where "S3 = receiver_dist3 x y"
  have Sp: "0 < S1" "0 < S2" "0 < S3" using sp by (simp_all add: S1_def S2_def S3_def)
  have Sq: "S1\<^sup>2 = (x - 5)\<^sup>2 + y\<^sup>2" "S2\<^sup>2 = (x - 5)\<^sup>2 + (y - 10)\<^sup>2"
    "S3\<^sup>2 = (x - 10)\<^sup>2 + y\<^sup>2"
    using sq by (simp_all add: S1_def S2_def S3_def)
  have Sm: "S1 * S1 = (x - 5) * (x - 5) + y * y" "S2 * S2 = (x - 5) * (x - 5) + (y - 10) * (y - 10)"
    "S3 * S3 = (x - 10) * (x - 10) + y * y"
    using Sq by (simp_all add: power2_eq_square)
  define a1 where "a1 = (x - 5) / S1"
  define b1 where "b1 = y / S1"
  define a2 where "a2 = (x - 5) / S2"
  define b2 where "b2 = (y - 10) / S2"
  define a3 where "a3 = (x - 10) / S3"
  define b3 where "b3 = y / S3"
  have u1: "a1\<^sup>2 + b1\<^sup>2 = 1"
    using Sp(1) by (simp add: a1_def b1_def power_divide add_divide_distrib[symmetric] Sq[symmetric])
  have u2: "a2\<^sup>2 + b2\<^sup>2 = 1"
    using Sp(2) by (simp add: a2_def b2_def power_divide add_divide_distrib[symmetric] Sq[symmetric])
  have u3: "a3\<^sup>2 + b3\<^sup>2 = 1"
    using Sp(3) by (simp add: a3_def b3_def power_divide add_divide_distrib[symmetric] Sq[symmetric])
  have A: "gn_A x y = a1\<^sup>2 + a2\<^sup>2 + a3\<^sup>2"
    by (simp add: gn_A_def a1_def a2_def a3_def power_divide power2_eq_square Sm)
  have B: "gn_B x y = a1 * b1 + a2 * b2 + a3 * b3"
    by (simp add: gn_B_def a1_def a2_def a3_def b1_def b2_def b3_def power2_eq_square Sm)
  have C: "gn_C x y = b1\<^sup>2 + b2\<^sup>2 + b3\<^sup>2"
    by (simp add: gn_C_def b1_def b2_def b3_def power_divide power2_eq_square Sm)
  have U: "gn_u x y = a1 * (5 - S1) + a2 * (5 - S2) + a3 * (sqrt 50 - S3)"
    by (simp add: gn_u_def a1_def a2_def a3_def S1_def S2_def S3_def)
  have V: "gn_v x y = b1 * (5 - S1) + b2 * (5 - S2) + b3 * (sqrt 50 - S3)"
    by (simp add: gn_v_def b1_def b2_def b3_def S1_def S2_def S3_def)
  define e1 where "e1 = 5 - 5 * y / S1"
  define e2 where "e2 = 5 - 5 * (10 - y) / S2"
  define e3 where "e3 = sqrt 50 - 5 * (10 - x + y) / S3"
  have k1: "a1 * (x - 5) + b1 * (y - 5) + 5 - S1 = e1"
  proof -
    have "a1 * (x - 5) + b1 * (y - 5) = (S1\<^sup>2 - 5 * y) / S1"
      unfolding Sq by (simp add: a1_def b1_def power2_eq_square algebra_simps add_divide_distrib diff_divide_distrib)
    also have "\<dots> = S1 - 5 * y / S1"
      using Sp(1) by (simp add: power2_eq_square diff_divide_distrib)
    finally show ?thesis by (simp add: e1_def)
  qed
  have k2: "a2 * (x - 5) + b2 * (y - 5) + 5 - S2 = e2"
  proof -
    have "a2 * (x - 5) + b2 * (y - 5) = (S2\<^sup>2 - 5 * (10 - y)) / S2"
      unfolding Sq by (simp add: a2_def b2_def power2_eq_square algebra_simps add_divide_distrib diff_divide_distrib)
    also have "\<dots> = S2 - 5 * (10 - y) / S2"
      using Sp(2) by (simp add: power2_eq_square diff_divide_distrib)
    finally show ?thesis by (simp add: e2_def)
  qed
  have k3: "a3 * (x - 5) + b3 * (y - 5) + sqrt 50 - S3 = e3"
  proof -
    have "a3 * (x - 5) + b3 * (y - 5) = (S3\<^sup>2 - 5 * (10 - x + y)) / S3"
      unfolding Sq by (simp add: a3_def b3_def power2_eq_square algebra_simps add_divide_distrib diff_divide_distrib)
    also have "\<dots> = S3 - 5 * (10 - x + y) / S3"
      using Sp(3) by (simp add: power2_eq_square diff_divide_distrib)
    finally show ?thesis by (simp add: e3_def)
  qed
  define hx where "hx = a1 * e1 + a2 * e2 + a3 * e3"
  define hy where "hy = b1 * e1 + b2 * e2 + b3 * e3"
  have hxe: "gn_A x y * (x - 5) + gn_B x y * (y - 5) + gn_u x y = hx"
    unfolding A B U hx_def k1[symmetric] k2[symmetric] k3[symmetric]
    by (simp add: algebra_simps power2_eq_square)
  have hye: "gn_B x y * (x - 5) + gn_C x y * (y - 5) + gn_v x y = hy"
    unfolding B C V hy_def k1[symmetric] k2[symmetric] k3[symmetric]
    by (simp add: algebra_simps power2_eq_square)
  have y2: "(247 / 50)\<^sup>2 \<le> y\<^sup>2" "y\<^sup>2 \<le> (253 / 50)\<^sup>2"
    using sq_bounds[OF _ yb] by simp_all
  have ex2: "(x - 5)\<^sup>2 \<le> r\<^sup>2" using sq_le_of_abs[OF ex] .
  have r2: "r\<^sup>2 \<le> (3 / 50)\<^sup>2" using sq_bounds(2)[OF r0 order_refl r] .
  have ty2: "(247 / 50)\<^sup>2 \<le> (10 - y)\<^sup>2" "(10 - y)\<^sup>2 \<le> (253 / 50)\<^sup>2"
    using sq_bounds[of "247 / 50" "10 - y" "253 / 50"] yb by simp_all
  have tx2: "(247 / 50)\<^sup>2 \<le> (10 - x)\<^sup>2" "(10 - x)\<^sup>2 \<le> (253 / 50)\<^sup>2"
    using sq_bounds[of "247 / 50" "10 - x" "253 / 50"] xb by simp_all
  have S1y: "y \<le> S1"
    unfolding S1_def receiver_dist1_def by (rule sqrt_ge_of_sq) (use y0 in simp_all)
  have S2y: "10 - y \<le> S2"
    unfolding S2_def receiver_dist2_def by (rule sqrt_ge_of_sq) (use y0 in \<open>simp_all add: power2_commute[of y 10]\<close>)
  have q3lo: "2 * (247 / 50)\<^sup>2 \<le> S3\<^sup>2"
    unfolding Sq using tx2(1) y2(1) by (simp add: power2_commute[of x 10])
  have b1: "0 \<le> e1" "e1 \<le> 25 * r\<^sup>2 / 244"
  proof -
    have id: "(5 * S1 - 5 * y) * (5 * S1 + 5 * y) = 25 * (x - 5)\<^sup>2"
      using Sq(1) by (simp add: algebra_simps power2_eq_square)
    have "y * (10 * y) \<le> S1 * (5 * S1 + 5 * y)"
      by (rule mult_mono) (use S1y y0 in simp_all)
    moreover have "244 \<le> y * (10 * y)"
    proof -
      have "y * (10 * y) = 10 * y\<^sup>2" by (simp add: power2_eq_square)
      moreover have "(244::real) \<le> 10 * (247 / 50)\<^sup>2" by (simp add: power2_eq_square)
      ultimately show ?thesis using y2(1) by linarith
    qed
    ultimately have m: "244 \<le> S1 * (5 * S1 + 5 * y)" by linarith
    have w: "25 * (x - 5)\<^sup>2 \<le> 25 * r\<^sup>2" using ex2 by simp
    show "0 \<le> e1" "e1 \<le> 25 * r\<^sup>2 / 244"
      unfolding e1_def
      using eps_bound[of S1 "5 * y" 5 "25 * (x - 5)\<^sup>2" "25 * r\<^sup>2" 244, OF Sp(1) _ _ id _ w _ m] y0
      by simp_all
  qed
  have b2: "0 \<le> e2" "e2 \<le> 25 * r\<^sup>2 / 244"
  proof -
    have id: "(5 * S2 - 5 * (10 - y)) * (5 * S2 + 5 * (10 - y)) = 25 * (x - 5)\<^sup>2"
      using Sq(2) by (simp add: algebra_simps power2_eq_square)
    have "(10 - y) * (10 * (10 - y)) \<le> S2 * (5 * S2 + 5 * (10 - y))"
      by (rule mult_mono) (use S2y y0 in simp_all)
    moreover have "244 \<le> (10 - y) * (10 * (10 - y))"
    proof -
      have "(10 - y) * (10 * (10 - y)) = 10 * (10 - y)\<^sup>2" by (simp add: power2_eq_square)
      moreover have "(244::real) \<le> 10 * (247 / 50)\<^sup>2" by (simp add: power2_eq_square)
      ultimately show ?thesis using ty2(1) by linarith
    qed
    ultimately have m: "244 \<le> S2 * (5 * S2 + 5 * (10 - y))" by linarith
    have w: "25 * (x - 5)\<^sup>2 \<le> 25 * r\<^sup>2" using ex2 by simp
    show "0 \<le> e2" "e2 \<le> 25 * r\<^sup>2 / 244"
      unfolding e2_def
      using eps_bound[of S2 "5 * (10 - y)" 5 "25 * (x - 5)\<^sup>2" "25 * r\<^sup>2" 244, OF Sp(2) _ _ id _ w _ m] y0
      by simp_all
  qed
  have b3: "0 \<le> e3" "e3 \<le> 100 * r\<^sup>2 / 341"
  proof -
    have id: "(sqrt 50 * S3 - 5 * (10 - x + y)) * (sqrt 50 * S3 + 5 * (10 - x + y)) = 25 * (x + y - 10)\<^sup>2"
    proof -
      have "(sqrt 50 * S3 - 5 * (10 - x + y)) * (sqrt 50 * S3 + 5 * (10 - x + y))
            = (sqrt 50)\<^sup>2 * S3\<^sup>2 - 25 * (10 - x + y)\<^sup>2"
        by (simp add: algebra_simps power2_eq_square)
      also have "\<dots> = 25 * (x + y - 10)\<^sup>2"
        unfolding sqrt50(2) Sq by (simp add: algebra_simps power2_eq_square)
      finally show ?thesis .
    qed
    have "0 < 10 - x + y" using xb yb by simp
    then have t0: "0 < 5 * (10 - x + y)" by simp
    have "\<bar>x + y - 10\<bar> \<le> 2 * r" using ex ey by linarith
    from sq_le_of_abs[OF this] have w: "25 * (x + y - 10)\<^sup>2 \<le> 100 * r\<^sup>2"
      by (simp add: power_mult_distrib)
    have "7 * S3\<^sup>2 \<le> sqrt 50 * S3\<^sup>2"
      by (rule mult_right_mono) (use sqrt50(1) in simp_all)
    moreover have "341 \<le> 7 * S3\<^sup>2"
    proof -
      have "(341::real) \<le> 7 * (2 * (247 / 50)\<^sup>2)" by (simp add: power2_eq_square)
      then show ?thesis using q3lo by linarith
    qed
    moreover have "sqrt 50 * S3\<^sup>2 \<le> S3 * (sqrt 50 * S3 + 5 * (10 - x + y))"
    proof -
      have "0 \<le> S3 * (5 * (10 - x + y))" using Sp(3) t0 by simp
      then show ?thesis by (simp add: algebra_simps power2_eq_square)
    qed
    ultimately have m: "341 \<le> S3 * (sqrt 50 * S3 + 5 * (10 - x + y))" by linarith
    show "0 \<le> e3" "e3 \<le> 100 * r\<^sup>2 / 341"
      unfolding e3_def
      using eps_bound[of S3 "5 * (10 - x + y)" "sqrt 50" "25 * (x + y - 10)\<^sup>2" "100 * r\<^sup>2" 341,
          OF Sp(3) t0 sqrt50(3) id _ w _ m]
      by simp_all
  qed
  define K where "K = 25 * r\<^sup>2 / 244 + 25 * r\<^sup>2 / 244 + 100 * r\<^sup>2 / 341"
  have eK: "e1 + e2 + e3 \<le> K" unfolding K_def using b1(2) b2(2) b3(2) by linarith
  have d: "9 / 20 \<le> (a1 * b3 - a3 * b1)\<^sup>2"
  proof -
    have "a1 * b3 - a3 * b1 = 5 * y / (S1 * S3)"
      using Sp by (simp add: a1_def b3_def a3_def b1_def field_simps)
    then have eq: "(a1 * b3 - a3 * b1)\<^sup>2 = 25 * y\<^sup>2 / (S1\<^sup>2 * S3\<^sup>2)"
      by (simp add: power_divide power_mult_distrib)
    have q1hi: "S1\<^sup>2 \<le> (3 / 50)\<^sup>2 + (253 / 50)\<^sup>2"
      unfolding Sq using ex2 r2 y2(2) by linarith
    have q3hi: "S3\<^sup>2 \<le> 2 * (253 / 50)\<^sup>2"
      unfolding Sq using tx2(2) y2(2) by (simp add: power2_commute[of x 10])
    have "S1\<^sup>2 * S3\<^sup>2 \<le> ((3 / 50)\<^sup>2 + (253 / 50)\<^sup>2) * (2 * (253 / 50)\<^sup>2)"
      by (rule mult_mono[OF q1hi q3hi]) simp_all
    moreover have "((3 / 50)\<^sup>2 + (253 / 50)\<^sup>2) * (2 * (253 / 50)\<^sup>2) \<le> (1312::real)"
      by (simp add: power2_eq_square)
    ultimately have den: "S1\<^sup>2 * S3\<^sup>2 \<le> 1312" by linarith
    have "(610::real) \<le> 25 * (247 / 50)\<^sup>2" by (simp add: power2_eq_square)
    then have num: "610 \<le> 25 * y\<^sup>2" using y2(1) by linarith
    have dpos: "0 < S1\<^sup>2 * S3\<^sup>2" using Sp by simp
    have "9 / 20 \<le> (610 :: real) / 1312" by simp
    also have "\<dots> \<le> 25 * y\<^sup>2 / (S1\<^sup>2 * S3\<^sup>2)"
      by (rule frac_le) (use num den dpos in simp_all)
    finally show ?thesis unfolding eq .
  qed
  note core = gn_core[OF u1 u2 u3 b1(1) b2(1) b3(1) eK _ d, simplified]
  have det: "9 / 20 \<le> gn_det x y"
    using core(1) by (simp add: gn_det_def A B C)
  show "9 / 20 \<le> gn_det x y" by fact
  have dne: "gn_det x y \<noteq> 0" using det by linarith
  have gx: "gn_x x y - 5 = (gn_C x y * hx - gn_B x y * hy) / gn_det x y"
  proof -
    have "gn_C x y * hx - gn_B x y * hy
          = gn_det x y * (x - 5) + (gn_C x y * gn_u x y - gn_B x y * gn_v x y)"
      unfolding hxe[symmetric] hye[symmetric] gn_det_def by (simp add: algebra_simps)
    then show ?thesis
      using dne by (simp add: gn_x_def field_simps)
  qed
  have gy: "gn_y x y - 5 = (gn_A x y * hy - gn_B x y * hx) / gn_det x y"
  proof -
    have "gn_A x y * hy - gn_B x y * hx
          = gn_det x y * (y - 5) + (gn_A x y * gn_v x y - gn_B x y * gn_u x y)"
      unfolding hxe[symmetric] hye[symmetric] gn_det_def by (simp add: algebra_simps)
    then show ?thesis
      using dne by (simp add: gn_y_def field_simps)
  qed
  have fin: "6 * K / (9 / 20) \<le> 10 * r\<^sup>2"
    unfolding K_def using zero_le_power2[of r] by (simp add: field_simps)
  have "\<bar>gn_x x y - 5\<bar> \<le> 6 * K / (9 / 20)"
    unfolding gx gn_det_def A B C hx_def hy_def using core(2) by simp
  then show "\<bar>gn_x x y - 5\<bar> \<le> 10 * r\<^sup>2" using fin by linarith
  have "\<bar>gn_y x y - 5\<bar> \<le> 6 * K / (9 / 20)"
    unfolding gy gn_det_def A B C hx_def hy_def using core(3) by simp
  then show "\<bar>gn_y x y - 5\<bar> \<le> 10 * r\<^sup>2" using fin by linarith
qed

subsection \<open>The first four steps from (1, 1)\<close>

text \<open>
  Each step is enclosed by interval arithmetic on decimal fractions: every subterm of the
  step gets a lower and an upper bound from the bounds of its arguments.
\<close>

lemma gn_encl_1:
  fixes x y :: real
  assumes x_lo: "1 \<le> x" and x_hi: "x \<le> 1" and y_lo: "1 \<le> y" and y_hi: "y \<le> 1"
  shows "1896567025 / 1000000000 \<le> gn_det x y"
    and "24157434805 / 10000000000 \<le> gn_x x y" and "gn_x x y \<le> 24157434807 / 10000000000"
    and "58424076025 / 10000000000 \<le> gn_y x y" and "gn_y x y \<le> 58424076026 / 10000000000"
proof -
  have X5_lo: "- 4 \<le> x - 5"
    using x_lo x_hi by linarith
  have X5_hi: "x - 5 \<le> - 4"
    using x_lo x_hi by linarith
  have X10_lo: "- 9 \<le> x - 10"
    using x_lo x_hi by linarith
  have X10_hi: "x - 10 \<le> - 9"
    using x_lo x_hi by linarith
  have Y10_lo: "- 9 \<le> y - 10"
    using y_lo y_hi by linarith
  have Y10_hi: "y - 10 \<le> - 9"
    using y_lo y_hi by linarith
  have naa_lo: "16 \<le> (x - 5) * (x - 5)"
    by (rule mult_lo[OF X5_lo X5_hi X5_lo X5_hi]) simp_all
  have naa_hi: "(x - 5) * (x - 5) \<le> 16"
    by (rule mult_hi[OF X5_lo X5_hi X5_lo X5_hi]) simp_all
  have ncc_lo: "81 \<le> (x - 10) * (x - 10)"
    by (rule mult_lo[OF X10_lo X10_hi X10_lo X10_hi]) simp_all
  have ncc_hi: "(x - 10) * (x - 10) \<le> 81"
    by (rule mult_hi[OF X10_lo X10_hi X10_lo X10_hi]) simp_all
  have nyy_lo: "1 \<le> y * y"
    by (rule mult_lo[OF y_lo y_hi y_lo y_hi]) simp_all
  have nyy_hi: "y * y \<le> 1"
    by (rule mult_hi[OF y_lo y_hi y_lo y_hi]) simp_all
  have nbb_lo: "81 \<le> (y - 10) * (y - 10)"
    by (rule mult_lo[OF Y10_lo Y10_hi Y10_lo Y10_hi]) simp_all
  have nbb_hi: "(y - 10) * (y - 10) \<le> 81"
    by (rule mult_hi[OF Y10_lo Y10_hi Y10_lo Y10_hi]) simp_all
  have nay_lo: "- 4 \<le> (x - 5) * y"
    by (rule mult_lo[OF X5_lo X5_hi y_lo y_hi]) simp_all
  have nay_hi: "(x - 5) * y \<le> - 4"
    by (rule mult_hi[OF X5_lo X5_hi y_lo y_hi]) simp_all
  have nab_lo: "36 \<le> (x - 5) * (y - 10)"
    by (rule mult_lo[OF X5_lo X5_hi Y10_lo Y10_hi]) simp_all
  have nab_hi: "(x - 5) * (y - 10) \<le> 36"
    by (rule mult_hi[OF X5_lo X5_hi Y10_lo Y10_hi]) simp_all
  have ncy_lo: "- 9 \<le> (x - 10) * y"
    by (rule mult_lo[OF X10_lo X10_hi y_lo y_hi]) simp_all
  have ncy_hi: "(x - 10) * y \<le> - 9"
    by (rule mult_hi[OF X10_lo X10_hi y_lo y_hi]) simp_all
  have saa_lo: "16 \<le> (x - 5)\<^sup>2"
    unfolding power2_eq_square by (rule naa_lo)
  have saa_hi: "(x - 5)\<^sup>2 \<le> 16"
    unfolding power2_eq_square by (rule naa_hi)
  have scc_lo: "81 \<le> (x - 10)\<^sup>2"
    unfolding power2_eq_square by (rule ncc_lo)
  have scc_hi: "(x - 10)\<^sup>2 \<le> 81"
    unfolding power2_eq_square by (rule ncc_hi)
  have syy_lo: "1 \<le> y\<^sup>2"
    unfolding power2_eq_square by (rule nyy_lo)
  have syy_hi: "y\<^sup>2 \<le> 1"
    unfolding power2_eq_square by (rule nyy_hi)
  have sbb_lo: "81 \<le> (y - 10)\<^sup>2"
    unfolding power2_eq_square by (rule nbb_lo)
  have sbb_hi: "(y - 10)\<^sup>2 \<le> 81"
    unfolding power2_eq_square by (rule nbb_hi)
  have q1_lo: "17 \<le> (x - 5)\<^sup>2 + y\<^sup>2"
    using saa_lo saa_hi syy_lo syy_hi by linarith
  have q1_hi: "(x - 5)\<^sup>2 + y\<^sup>2 \<le> 17"
    using saa_lo saa_hi syy_lo syy_hi by linarith
  have q2_lo: "97 \<le> (x - 5)\<^sup>2 + (y - 10)\<^sup>2"
    using saa_lo saa_hi sbb_lo sbb_hi by linarith
  have q2_hi: "(x - 5)\<^sup>2 + (y - 10)\<^sup>2 \<le> 97"
    using saa_lo saa_hi sbb_lo sbb_hi by linarith
  have q3_lo: "82 \<le> (x - 10)\<^sup>2 + y\<^sup>2"
    using scc_lo scc_hi syy_lo syy_hi by linarith
  have q3_hi: "(x - 10)\<^sup>2 + y\<^sup>2 \<le> 82"
    using scc_lo scc_hi syy_lo syy_hi by linarith
  have S1_lo: "4123105625617 / 1000000000000 \<le> receiver_dist1 x y"
    unfolding receiver_dist1_def by (rule sqrt_lo[OF q1_lo]) simp_all
  have S1_hi: "receiver_dist1 x y \<le> 4123105625618 / 1000000000000"
    unfolding receiver_dist1_def by (rule sqrt_hi[OF _ q1_hi]) simp_all
  have S2_lo: "9848857801796 / 1000000000000 \<le> receiver_dist2 x y"
    unfolding receiver_dist2_def by (rule sqrt_lo[OF q2_lo]) simp_all
  have S2_hi: "receiver_dist2 x y \<le> 9848857801797 / 1000000000000"
    unfolding receiver_dist2_def by (rule sqrt_hi[OF _ q2_hi]) simp_all
  have S3_lo: "9055385138137 / 1000000000000 \<le> receiver_dist3 x y"
    unfolding receiver_dist3_def by (rule sqrt_lo[OF q3_lo]) simp_all
  have S3_hi: "receiver_dist3 x y \<le> 9055385138138 / 1000000000000"
    unfolding receiver_dist3_def by (rule sqrt_hi[OF _ q3_hi]) simp_all
  have c50_lo: "(50::real) \<le> 50" and c50_hi: "(50::real) \<le> 50" by simp_all
  have R50_lo: "7071067811865 / 1000000000000 \<le> sqrt 50"
    by (rule sqrt_lo[OF c50_lo]) simp_all
  have R50_hi: "sqrt 50 \<le> 7071067811866 / 1000000000000"
    by (rule sqrt_hi[OF _ c50_hi]) simp_all
  have tA1_lo: "941176470588 / 1000000000000 \<le> ((x - 5) * (x - 5)) / ((x - 5)\<^sup>2 + y\<^sup>2)"
    by (rule div_lo[OF naa_lo naa_hi q1_lo q1_hi]) simp_all
  have tA1_hi: "((x - 5) * (x - 5)) / ((x - 5)\<^sup>2 + y\<^sup>2) \<le> 941176470589 / 1000000000000"
    by (rule div_hi[OF naa_lo naa_hi q1_lo q1_hi]) simp_all
  have tA2_lo: "164948453608 / 1000000000000 \<le> ((x - 5) * (x - 5)) / ((x - 5)\<^sup>2 + (y - 10)\<^sup>2)"
    by (rule div_lo[OF naa_lo naa_hi q2_lo q2_hi]) simp_all
  have tA2_hi: "((x - 5) * (x - 5)) / ((x - 5)\<^sup>2 + (y - 10)\<^sup>2) \<le> 164948453609 / 1000000000000"
    by (rule div_hi[OF naa_lo naa_hi q2_lo q2_hi]) simp_all
  have tA3_lo: "987804878048 / 1000000000000 \<le> ((x - 10) * (x - 10)) / ((x - 10)\<^sup>2 + y\<^sup>2)"
    by (rule div_lo[OF ncc_lo ncc_hi q3_lo q3_hi]) simp_all
  have tA3_hi: "((x - 10) * (x - 10)) / ((x - 10)\<^sup>2 + y\<^sup>2) \<le> 987804878049 / 1000000000000"
    by (rule div_hi[OF ncc_lo ncc_hi q3_lo q3_hi]) simp_all
  have A_lo: "2093929802244 / 1000000000000 \<le> gn_A x y"
    unfolding gn_A_def using tA1_lo tA1_hi tA2_lo tA2_hi tA3_lo tA3_hi by linarith
  have A_hi: "gn_A x y \<le> 2093929802247 / 1000000000000"
    unfolding gn_A_def using tA1_lo tA1_hi tA2_lo tA2_hi tA3_lo tA3_hi by linarith
  have tB1_lo: "- 235294117648 / 1000000000000 \<le> ((x - 5) * y) / ((x - 5)\<^sup>2 + y\<^sup>2)"
    by (rule div_lo[OF nay_lo nay_hi q1_lo q1_hi]) simp_all
  have tB1_hi: "((x - 5) * y) / ((x - 5)\<^sup>2 + y\<^sup>2) \<le> - 235294117647 / 1000000000000"
    by (rule div_hi[OF nay_lo nay_hi q1_lo q1_hi]) simp_all
  have tB2_lo: "371134020618 / 1000000000000 \<le> ((x - 5) * (y - 10)) / ((x - 5)\<^sup>2 + (y - 10)\<^sup>2)"
    by (rule div_lo[OF nab_lo nab_hi q2_lo q2_hi]) simp_all
  have tB2_hi: "((x - 5) * (y - 10)) / ((x - 5)\<^sup>2 + (y - 10)\<^sup>2) \<le> 371134020619 / 1000000000000"
    by (rule div_hi[OF nab_lo nab_hi q2_lo q2_hi]) simp_all
  have tB3_lo: "- 109756097561 / 1000000000000 \<le> ((x - 10) * y) / ((x - 10)\<^sup>2 + y\<^sup>2)"
    by (rule div_lo[OF ncy_lo ncy_hi q3_lo q3_hi]) simp_all
  have tB3_hi: "((x - 10) * y) / ((x - 10)\<^sup>2 + y\<^sup>2) \<le> - 10975609756 / 100000000000"
    by (rule div_hi[OF ncy_lo ncy_hi q3_lo q3_hi]) simp_all
  have B_lo: "26083805409 / 1000000000000 \<le> gn_B x y"
    unfolding gn_B_def using tB1_lo tB1_hi tB2_lo tB2_hi tB3_lo tB3_hi by linarith
  have B_hi: "gn_B x y \<le> 26083805412 / 1000000000000"
    unfolding gn_B_def using tB1_lo tB1_hi tB2_lo tB2_hi tB3_lo tB3_hi by linarith
  have tC1_lo: "58823529411 / 1000000000000 \<le> (y * y) / ((x - 5)\<^sup>2 + y\<^sup>2)"
    by (rule div_lo[OF nyy_lo nyy_hi q1_lo q1_hi]) simp_all
  have tC1_hi: "(y * y) / ((x - 5)\<^sup>2 + y\<^sup>2) \<le> 58823529412 / 1000000000000"
    by (rule div_hi[OF nyy_lo nyy_hi q1_lo q1_hi]) simp_all
  have tC2_lo: "835051546391 / 1000000000000 \<le> ((y - 10) * (y - 10)) / ((x - 5)\<^sup>2 + (y - 10)\<^sup>2)"
    by (rule div_lo[OF nbb_lo nbb_hi q2_lo q2_hi]) simp_all
  have tC2_hi: "((y - 10) * (y - 10)) / ((x - 5)\<^sup>2 + (y - 10)\<^sup>2) \<le> 835051546392 / 1000000000000"
    by (rule div_hi[OF nbb_lo nbb_hi q2_lo q2_hi]) simp_all
  have tC3_lo: "12195121951 / 1000000000000 \<le> (y * y) / ((x - 10)\<^sup>2 + y\<^sup>2)"
    by (rule div_lo[OF nyy_lo nyy_hi q3_lo q3_hi]) simp_all
  have tC3_hi: "(y * y) / ((x - 10)\<^sup>2 + y\<^sup>2) \<le> 12195121952 / 1000000000000"
    by (rule div_hi[OF nyy_lo nyy_hi q3_lo q3_hi]) simp_all
  have C_lo: "906070197753 / 1000000000000 \<le> gn_C x y"
    unfolding gn_C_def using tC1_lo tC1_hi tC2_lo tC2_hi tC3_lo tC3_hi by linarith
  have C_hi: "gn_C x y \<le> 906070197756 / 1000000000000"
    unfolding gn_C_def using tC1_lo tC1_hi tC2_lo tC2_hi tC3_lo tC3_hi by linarith
  have d1_lo: "876894374382 / 1000000000000 \<le> 5 - receiver_dist1 x y"
    using S1_lo S1_hi by linarith
  have d1_hi: "5 - receiver_dist1 x y \<le> 876894374383 / 1000000000000"
    using S1_lo S1_hi by linarith
  have d2_lo: "- 4848857801797 / 1000000000000 \<le> 5 - receiver_dist2 x y"
    using S2_lo S2_hi by linarith
  have d2_hi: "5 - receiver_dist2 x y \<le> - 4848857801796 / 1000000000000"
    using S2_lo S2_hi by linarith
  have d3_lo: "- 1984317326273 / 1000000000000 \<le> sqrt 50 - receiver_dist3 x y"
    using R50_lo R50_hi S3_lo S3_hi by linarith
  have d3_hi: "sqrt 50 - receiver_dist3 x y \<le> - 1984317326271 / 1000000000000"
    using R50_lo R50_hi S3_lo S3_hi by linarith
  have m1_lo: "212678125181 / 1000000000000 \<le> (5 - receiver_dist1 x y) / (receiver_dist1 x y)"
    by (rule div_lo[OF d1_lo d1_hi S1_lo S1_hi]) simp_all
  have m1_hi: "(5 - receiver_dist1 x y) / (receiver_dist1 x y) \<le> 212678125182 / 1000000000000"
    by (rule div_hi[OF d1_lo d1_hi S1_lo S1_hi]) simp_all
  have m2_lo: "- 492326917434 / 1000000000000 \<le> (5 - receiver_dist2 x y) / (receiver_dist2 x y)"
    by (rule div_lo[OF d2_lo d2_hi S2_lo S2_hi]) simp_all
  have m2_hi: "(5 - receiver_dist2 x y) / (receiver_dist2 x y) \<le> - 492326917433 / 1000000000000"
    by (rule div_hi[OF d2_lo d2_hi S2_lo S2_hi]) simp_all
  have m3_lo: "- 219131190558 / 1000000000000 \<le> (sqrt 50 - receiver_dist3 x y) / (receiver_dist3 x y)"
    by (rule div_lo[OF d3_lo d3_hi S3_lo S3_hi]) simp_all
  have m3_hi: "(sqrt 50 - receiver_dist3 x y) / (receiver_dist3 x y) \<le> - 219131190556 / 1000000000000"
    by (rule div_hi[OF d3_lo d3_hi S3_lo S3_hi]) simp_all
  have tu1_lo: "- 850712500728 / 1000000000000 \<le> (x - 5) * ((5 - receiver_dist1 x y) / (receiver_dist1 x y))"
    by (rule mult_lo[OF X5_lo X5_hi m1_lo m1_hi]) simp_all
  have tu1_hi: "(x - 5) * ((5 - receiver_dist1 x y) / (receiver_dist1 x y)) \<le> - 850712500724 / 1000000000000"
    by (rule mult_hi[OF X5_lo X5_hi m1_lo m1_hi]) simp_all
  have tu2_lo: "1969307669732 / 1000000000000 \<le> (x - 5) * ((5 - receiver_dist2 x y) / (receiver_dist2 x y))"
    by (rule mult_lo[OF X5_lo X5_hi m2_lo m2_hi]) simp_all
  have tu2_hi: "(x - 5) * ((5 - receiver_dist2 x y) / (receiver_dist2 x y)) \<le> 1969307669736 / 1000000000000"
    by (rule mult_hi[OF X5_lo X5_hi m2_lo m2_hi]) simp_all
  have tu3_lo: "1972180715004 / 1000000000000 \<le> (x - 10) * ((sqrt 50 - receiver_dist3 x y) / (receiver_dist3 x y))"
    by (rule mult_lo[OF X10_lo X10_hi m3_lo m3_hi]) simp_all
  have tu3_hi: "(x - 10) * ((sqrt 50 - receiver_dist3 x y) / (receiver_dist3 x y)) \<le> 1972180715022 / 1000000000000"
    by (rule mult_hi[OF X10_lo X10_hi m3_lo m3_hi]) simp_all
  have u_lo: "3090775884008 / 1000000000000 \<le> gn_u x y"
    unfolding gn_u_def using tu1_lo tu1_hi tu2_lo tu2_hi tu3_lo tu3_hi by linarith
  have u_hi: "gn_u x y \<le> 3090775884034 / 1000000000000"
    unfolding gn_u_def using tu1_lo tu1_hi tu2_lo tu2_hi tu3_lo tu3_hi by linarith
  have tv1_lo: "212678125181 / 1000000000000 \<le> y * ((5 - receiver_dist1 x y) / (receiver_dist1 x y))"
    by (rule mult_lo[OF y_lo y_hi m1_lo m1_hi]) simp_all
  have tv1_hi: "y * ((5 - receiver_dist1 x y) / (receiver_dist1 x y)) \<le> 212678125182 / 1000000000000"
    by (rule mult_hi[OF y_lo y_hi m1_lo m1_hi]) simp_all
  have tv2_lo: "4430942256897 / 1000000000000 \<le> (y - 10) * ((5 - receiver_dist2 x y) / (receiver_dist2 x y))"
    by (rule mult_lo[OF Y10_lo Y10_hi m2_lo m2_hi]) simp_all
  have tv2_hi: "(y - 10) * ((5 - receiver_dist2 x y) / (receiver_dist2 x y)) \<le> 4430942256906 / 1000000000000"
    by (rule mult_hi[OF Y10_lo Y10_hi m2_lo m2_hi]) simp_all
  have tv3_lo: "- 219131190558 / 1000000000000 \<le> y * ((sqrt 50 - receiver_dist3 x y) / (receiver_dist3 x y))"
    by (rule mult_lo[OF y_lo y_hi m3_lo m3_hi]) simp_all
  have tv3_hi: "y * ((sqrt 50 - receiver_dist3 x y) / (receiver_dist3 x y)) \<le> - 219131190556 / 1000000000000"
    by (rule mult_hi[OF y_lo y_hi m3_lo m3_hi]) simp_all
  have v_lo: "442448919152 / 100000000000 \<le> gn_v x y"
    unfolding gn_v_def using tv1_lo tv1_hi tv2_lo tv2_hi tv3_lo tv3_hi by linarith
  have v_hi: "gn_v x y \<le> 4424489191532 / 1000000000000"
    unfolding gn_v_def using tv1_lo tv1_hi tv2_lo tv2_hi tv3_lo tv3_hi by linarith
  have AC_lo: "189724739 / 100000000 \<le> (gn_A x y) * (gn_C x y)"
    by (rule mult_lo[OF A_lo A_hi C_lo C_hi]) simp_all
  have AC_hi: "(gn_A x y) * (gn_C x y) \<le> 189724739001 / 100000000000"
    by (rule mult_hi[OF A_lo A_hi C_lo C_hi]) simp_all
  have BB_lo: "680364904 / 1000000000000 \<le> (gn_B x y) * (gn_B x y)"
    by (rule mult_lo[OF B_lo B_hi B_lo B_hi]) simp_all
  have BB_hi: "(gn_B x y) * (gn_B x y) \<le> 680364905 / 1000000000000"
    by (rule mult_hi[OF B_lo B_hi B_lo B_hi]) simp_all
  have det_lo: "1896567025095 / 1000000000000 \<le> gn_det x y"
    unfolding gn_det_def using AC_lo AC_hi BB_lo BB_hi by linarith
  have det_hi: "gn_det x y \<le> 1896567025106 / 1000000000000"
    unfolding gn_det_def using AC_lo AC_hi BB_lo BB_hi by linarith
  have Cu_lo: "2800459916433 / 1000000000000 \<le> (gn_C x y) * (gn_u x y)"
    by (rule mult_lo[OF C_lo C_hi u_lo u_hi]) simp_all
  have Cu_hi: "(gn_C x y) * (gn_u x y) \<le> 2800459916467 / 1000000000000"
    by (rule mult_hi[OF C_lo C_hi u_lo u_hi]) simp_all
  have Bv_lo: "115407515105 / 1000000000000 \<le> (gn_B x y) * (gn_v x y)"
    by (rule mult_lo[OF B_lo B_hi v_lo v_hi]) simp_all
  have Bv_hi: "(gn_B x y) * (gn_v x y) \<le> 11540751512 / 100000000000"
    by (rule mult_hi[OF B_lo B_hi v_lo v_hi]) simp_all
  have Av_lo: "926456977783 / 100000000000 \<le> (gn_A x y) * (gn_v x y)"
    by (rule mult_lo[OF A_lo A_hi v_lo v_hi]) simp_all
  have Av_hi: "(gn_A x y) * (gn_v x y) \<le> 9264569777869 / 1000000000000"
    by (rule mult_hi[OF A_lo A_hi v_lo v_hi]) simp_all
  have Bu_lo: "80619196721 / 1000000000000 \<le> (gn_B x y) * (gn_u x y)"
    by (rule mult_lo[OF B_lo B_hi u_lo u_hi]) simp_all
  have Bu_hi: "(gn_B x y) * (gn_u x y) \<le> 80619196732 / 1000000000000"
    by (rule mult_hi[OF B_lo B_hi u_lo u_hi]) simp_all
  have nx_lo: "2685052401313 / 1000000000000 \<le> gn_C x y * gn_u x y - gn_B x y * gn_v x y"
    using Cu_lo Cu_hi Bv_lo Bv_hi by linarith
  have nx_hi: "gn_C x y * gn_u x y - gn_B x y * gn_v x y \<le> 2685052401362 / 1000000000000"
    using Cu_lo Cu_hi Bv_lo Bv_hi by linarith
  have ny_lo: "9183950581098 / 1000000000000 \<le> gn_A x y * gn_v x y - gn_B x y * gn_u x y"
    using Av_lo Av_hi Bu_lo Bu_hi by linarith
  have ny_hi: "gn_A x y * gn_v x y - gn_B x y * gn_u x y \<le> 9183950581148 / 1000000000000"
    using Av_lo Av_hi Bu_lo Bu_hi by linarith
  have dx_lo: "1415743480599 / 1000000000000 \<le> (gn_C x y * gn_u x y - gn_B x y * gn_v x y) / (gn_det x y)"
    by (rule div_lo[OF nx_lo nx_hi det_lo det_hi]) simp_all
  have dx_hi: "(gn_C x y * gn_u x y - gn_B x y * gn_v x y) / (gn_det x y) \<le> 1415743480634 / 1000000000000"
    by (rule div_hi[OF nx_lo nx_hi det_lo det_hi]) simp_all
  have dy_lo: "4842407602538 / 1000000000000 \<le> (gn_A x y * gn_v x y - gn_B x y * gn_u x y) / (gn_det x y)"
    by (rule div_lo[OF ny_lo ny_hi det_lo det_hi]) simp_all
  have dy_hi: "(gn_A x y * gn_v x y - gn_B x y * gn_u x y) / (gn_det x y) \<le> 4842407602594 / 1000000000000"
    by (rule div_hi[OF ny_lo ny_hi det_lo det_hi]) simp_all
  have gx_lo: "2415743480599 / 1000000000000 \<le> gn_x x y"
    unfolding gn_x_def using x_lo x_hi dx_lo dx_hi by linarith
  have gx_hi: "gn_x x y \<le> 2415743480634 / 1000000000000"
    unfolding gn_x_def using x_lo x_hi dx_lo dx_hi by linarith
  have gy_lo: "5842407602538 / 1000000000000 \<le> gn_y x y"
    unfolding gn_y_def using y_lo y_hi dy_lo dy_hi by linarith
  have gy_hi: "gn_y x y \<le> 5842407602594 / 1000000000000"
    unfolding gn_y_def using y_lo y_hi dy_lo dy_hi by linarith
  show "1896567025 / 1000000000 \<le> gn_det x y" using det_lo by linarith
  show "24157434805 / 10000000000 \<le> gn_x x y" using gx_lo by linarith
  show "gn_x x y \<le> 24157434807 / 10000000000" using gx_hi by linarith
  show "58424076025 / 10000000000 \<le> gn_y x y" using gy_lo by linarith
  show "gn_y x y \<le> 58424076026 / 10000000000" using gy_hi by linarith
qed

lemma gn_encl_2:
  fixes x y :: real
  assumes x_lo: "24157434805 / 10000000000 \<le> x" and x_hi: "x \<le> 24157434807 / 10000000000" and y_lo: "58424076025 / 10000000000 \<le> y" and y_hi: "y \<le> 58424076026 / 10000000000"
  shows "19009587218 / 10000000000 \<le> gn_det x y"
    and "43279075606 / 10000000000 \<le> gn_x x y" and "gn_x x y \<le> 43279075628 / 10000000000"
    and "47484718772 / 10000000000 \<le> gn_y x y" and "gn_y x y \<le> 47484718787 / 10000000000"
proof -
  have X5_lo: "- 25842565195 / 10000000000 \<le> x - 5"
    using x_lo x_hi by linarith
  have X5_hi: "x - 5 \<le> - 25842565193 / 10000000000"
    using x_lo x_hi by linarith
  have X10_lo: "- 75842565195 / 10000000000 \<le> x - 10"
    using x_lo x_hi by linarith
  have X10_hi: "x - 10 \<le> - 75842565193 / 10000000000"
    using x_lo x_hi by linarith
  have Y10_lo: "- 41575923975 / 10000000000 \<le> y - 10"
    using y_lo y_hi by linarith
  have Y10_hi: "y - 10 \<le> - 41575923974 / 10000000000"
    using y_lo y_hi by linarith
  have naa_lo: "6678381757544 / 1000000000000 \<le> (x - 5) * (x - 5)"
    by (rule mult_lo[OF X5_lo X5_hi X5_lo X5_hi]) simp_all
  have naa_hi: "(x - 5) * (x - 5) \<le> 6678381758579 / 1000000000000"
    by (rule mult_hi[OF X5_lo X5_hi X5_lo X5_hi]) simp_all
  have ncc_lo: "57520946950544 / 1000000000000 \<le> (x - 10) * (x - 10)"
    by (rule mult_lo[OF X10_lo X10_hi X10_lo X10_hi]) simp_all
  have ncc_hi: "(x - 10) * (x - 10) \<le> 57520946953579 / 1000000000000"
    by (rule mult_hi[OF X10_lo X10_hi X10_lo X10_hi]) simp_all
  have nyy_lo: "34133726593749 / 1000000000000 \<le> y * y"
    by (rule mult_lo[OF y_lo y_hi y_lo y_hi]) simp_all
  have nyy_hi: "y * y \<le> 34133726594919 / 1000000000000"
    by (rule mult_hi[OF y_lo y_hi y_lo y_hi]) simp_all
  have nbb_lo: "17285574542918 / 1000000000000 \<le> (y - 10) * (y - 10)"
    by (rule mult_lo[OF Y10_lo Y10_hi Y10_lo Y10_hi]) simp_all
  have nbb_hi: "(y - 10) * (y - 10) \<le> 1728557454375 / 100000000000"
    by (rule mult_hi[OF Y10_lo Y10_hi Y10_lo Y10_hi]) simp_all
  have nay_lo: "- 15098279936596 / 1000000000000 \<le> (x - 5) * y"
    by (rule mult_lo[OF X5_lo X5_hi y_lo y_hi]) simp_all
  have nay_hi: "(x - 5) * y \<le> - 15098279935168 / 1000000000000"
    by (rule mult_hi[OF X5_lo X5_hi y_lo y_hi]) simp_all
  have nab_lo: "10744285257573 / 1000000000000 \<le> (x - 5) * (y - 10)"
    by (rule mult_lo[OF X5_lo X5_hi Y10_lo Y10_hi]) simp_all
  have nab_hi: "(x - 5) * (y - 10) \<le> 10744285258664 / 1000000000000"
    by (rule mult_hi[OF X5_lo X5_hi Y10_lo Y10_hi]) simp_all
  have ncy_lo: "- 44310317949596 / 1000000000000 \<le> (x - 10) * y"
    by (rule mult_lo[OF X10_lo X10_hi y_lo y_hi]) simp_all
  have ncy_hi: "(x - 10) * y \<le> - 44310317947668 / 1000000000000"
    by (rule mult_hi[OF X10_lo X10_hi y_lo y_hi]) simp_all
  have saa_lo: "6678381757544 / 1000000000000 \<le> (x - 5)\<^sup>2"
    unfolding power2_eq_square by (rule naa_lo)
  have saa_hi: "(x - 5)\<^sup>2 \<le> 6678381758579 / 1000000000000"
    unfolding power2_eq_square by (rule naa_hi)
  have scc_lo: "57520946950544 / 1000000000000 \<le> (x - 10)\<^sup>2"
    unfolding power2_eq_square by (rule ncc_lo)
  have scc_hi: "(x - 10)\<^sup>2 \<le> 57520946953579 / 1000000000000"
    unfolding power2_eq_square by (rule ncc_hi)
  have syy_lo: "34133726593749 / 1000000000000 \<le> y\<^sup>2"
    unfolding power2_eq_square by (rule nyy_lo)
  have syy_hi: "y\<^sup>2 \<le> 34133726594919 / 1000000000000"
    unfolding power2_eq_square by (rule nyy_hi)
  have sbb_lo: "17285574542918 / 1000000000000 \<le> (y - 10)\<^sup>2"
    unfolding power2_eq_square by (rule nbb_lo)
  have sbb_hi: "(y - 10)\<^sup>2 \<le> 1728557454375 / 100000000000"
    unfolding power2_eq_square by (rule nbb_hi)
  have q1_lo: "40812108351293 / 1000000000000 \<le> (x - 5)\<^sup>2 + y\<^sup>2"
    using saa_lo saa_hi syy_lo syy_hi by linarith
  have q1_hi: "(x - 5)\<^sup>2 + y\<^sup>2 \<le> 40812108353498 / 1000000000000"
    using saa_lo saa_hi syy_lo syy_hi by linarith
  have q2_lo: "23963956300462 / 1000000000000 \<le> (x - 5)\<^sup>2 + (y - 10)\<^sup>2"
    using saa_lo saa_hi sbb_lo sbb_hi by linarith
  have q2_hi: "(x - 5)\<^sup>2 + (y - 10)\<^sup>2 \<le> 23963956302329 / 1000000000000"
    using saa_lo saa_hi sbb_lo sbb_hi by linarith
  have q3_lo: "91654673544293 / 1000000000000 \<le> (x - 10)\<^sup>2 + y\<^sup>2"
    using scc_lo scc_hi syy_lo syy_hi by linarith
  have q3_hi: "(x - 10)\<^sup>2 + y\<^sup>2 \<le> 91654673548498 / 1000000000000"
    using scc_lo scc_hi syy_lo syy_hi by linarith
  have S1_lo: "638843551672 / 100000000000 \<le> receiver_dist1 x y"
    unfolding receiver_dist1_def by (rule sqrt_lo[OF q1_lo]) simp_all
  have S1_hi: "receiver_dist1 x y \<le> 6388435516893 / 1000000000000"
    unfolding receiver_dist1_def by (rule sqrt_hi[OF _ q1_hi]) simp_all
  have S2_lo: "4895299408663 / 1000000000000 \<le> receiver_dist2 x y"
    unfolding receiver_dist2_def by (rule sqrt_lo[OF q2_lo]) simp_all
  have S2_hi: "receiver_dist2 x y \<le> 4895299408855 / 1000000000000"
    unfolding receiver_dist2_def by (rule sqrt_hi[OF _ q2_hi]) simp_all
  have S3_lo: "9573644736686 / 1000000000000 \<le> receiver_dist3 x y"
    unfolding receiver_dist3_def by (rule sqrt_lo[OF q3_lo]) simp_all
  have S3_hi: "receiver_dist3 x y \<le> 9573644736907 / 1000000000000"
    unfolding receiver_dist3_def by (rule sqrt_hi[OF _ q3_hi]) simp_all
  have c50_lo: "(50::real) \<le> 50" and c50_hi: "(50::real) \<le> 50" by simp_all
  have R50_lo: "7071067811865 / 1000000000000 \<le> sqrt 50"
    by (rule sqrt_lo[OF c50_lo]) simp_all
  have R50_hi: "sqrt 50 \<le> 7071067811866 / 1000000000000"
    by (rule sqrt_hi[OF _ c50_hi]) simp_all
  have tA1_lo: "163637264208 / 1000000000000 \<le> ((x - 5) * (x - 5)) / ((x - 5)\<^sup>2 + y\<^sup>2)"
    by (rule div_lo[OF naa_lo naa_hi q1_lo q1_hi]) simp_all
  have tA1_hi: "((x - 5) * (x - 5)) / ((x - 5)\<^sup>2 + y\<^sup>2) \<le> 163637264243 / 1000000000000"
    by (rule div_hi[OF naa_lo naa_hi q1_lo q1_hi]) simp_all
  have tA2_lo: "278684440636 / 1000000000000 \<le> ((x - 5) * (x - 5)) / ((x - 5)\<^sup>2 + (y - 10)\<^sup>2)"
    by (rule div_lo[OF naa_lo naa_hi q2_lo q2_hi]) simp_all
  have tA2_hi: "((x - 5) * (x - 5)) / ((x - 5)\<^sup>2 + (y - 10)\<^sup>2) \<le> 278684440702 / 1000000000000"
    by (rule div_hi[OF naa_lo naa_hi q2_lo q2_hi]) simp_all
  have tA3_lo: "62758334871 / 100000000000 \<le> ((x - 10) * (x - 10)) / ((x - 10)\<^sup>2 + y\<^sup>2)"
    by (rule div_lo[OF ncc_lo ncc_hi q3_lo q3_hi]) simp_all
  have tA3_hi: "((x - 10) * (x - 10)) / ((x - 10)\<^sup>2 + y\<^sup>2) \<le> 627583348773 / 1000000000000"
    by (rule div_hi[OF ncc_lo ncc_hi q3_lo q3_hi]) simp_all
  have A_lo: "1069905053554 / 1000000000000 \<le> gn_A x y"
    unfolding gn_A_def using tA1_lo tA1_hi tA2_lo tA2_hi tA3_lo tA3_hi by linarith
  have A_hi: "gn_A x y \<le> 1069905053718 / 1000000000000"
    unfolding gn_A_def using tA1_lo tA1_hi tA2_lo tA2_hi tA3_lo tA3_hi by linarith
  have tB1_lo: "- 369946090671 / 1000000000000 \<le> ((x - 5) * y) / ((x - 5)\<^sup>2 + y\<^sup>2)"
    by (rule div_lo[OF nay_lo nay_hi q1_lo q1_hi]) simp_all
  have tB1_hi: "((x - 5) * y) / ((x - 5)\<^sup>2 + y\<^sup>2) \<le> - 369946090615 / 1000000000000"
    by (rule div_hi[OF nay_lo nay_hi q1_lo q1_hi]) simp_all
  have tB2_lo: "448351896574 / 1000000000000 \<le> ((x - 5) * (y - 10)) / ((x - 5)\<^sup>2 + (y - 10)\<^sup>2)"
    by (rule div_lo[OF nab_lo nab_hi q2_lo q2_hi]) simp_all
  have tB2_hi: "((x - 5) * (y - 10)) / ((x - 5)\<^sup>2 + (y - 10)\<^sup>2) \<le> 448351896655 / 1000000000000"
    by (rule div_hi[OF nab_lo nab_hi q2_lo q2_hi]) simp_all
  have tB3_lo: "- 48344853826 / 100000000000 \<le> ((x - 10) * y) / ((x - 10)\<^sup>2 + y\<^sup>2)"
    by (rule div_lo[OF ncy_lo ncy_hi q3_lo q3_hi]) simp_all
  have tB3_hi: "((x - 10) * y) / ((x - 10)\<^sup>2 + y\<^sup>2) \<le> - 483448538215 / 1000000000000"
    by (rule div_hi[OF ncy_lo ncy_hi q3_lo q3_hi]) simp_all
  have B_lo: "- 405042732357 / 1000000000000 \<le> gn_B x y"
    unfolding gn_B_def using tB1_lo tB1_hi tB2_lo tB2_hi tB3_lo tB3_hi by linarith
  have B_hi: "gn_B x y \<le> - 405042732175 / 1000000000000"
    unfolding gn_B_def using tB1_lo tB1_hi tB2_lo tB2_hi tB3_lo tB3_hi by linarith
  have tC1_lo: "836362735737 / 1000000000000 \<le> (y * y) / ((x - 5)\<^sup>2 + y\<^sup>2)"
    by (rule div_lo[OF nyy_lo nyy_hi q1_lo q1_hi]) simp_all
  have tC1_hi: "(y * y) / ((x - 5)\<^sup>2 + y\<^sup>2) \<le> 836362735812 / 1000000000000"
    by (rule div_hi[OF nyy_lo nyy_hi q1_lo q1_hi]) simp_all
  have tC2_lo: "721315559285 / 1000000000000 \<le> ((y - 10) * (y - 10)) / ((x - 5)\<^sup>2 + (y - 10)\<^sup>2)"
    by (rule div_lo[OF nbb_lo nbb_hi q2_lo q2_hi]) simp_all
  have tC2_hi: "((y - 10) * (y - 10)) / ((x - 5)\<^sup>2 + (y - 10)\<^sup>2) \<le> 721315559377 / 1000000000000"
    by (rule div_hi[OF nbb_lo nbb_hi q2_lo q2_hi]) simp_all
  have tC3_lo: "372416651243 / 1000000000000 \<le> (y * y) / ((x - 10)\<^sup>2 + y\<^sup>2)"
    by (rule div_lo[OF nyy_lo nyy_hi q3_lo q3_hi]) simp_all
  have tC3_hi: "(y * y) / ((x - 10)\<^sup>2 + y\<^sup>2) \<le> 372416651274 / 1000000000000"
    by (rule div_hi[OF nyy_lo nyy_hi q3_lo q3_hi]) simp_all
  have C_lo: "1930094946265 / 1000000000000 \<le> gn_C x y"
    unfolding gn_C_def using tC1_lo tC1_hi tC2_lo tC2_hi tC3_lo tC3_hi by linarith
  have C_hi: "gn_C x y \<le> 1930094946463 / 1000000000000"
    unfolding gn_C_def using tC1_lo tC1_hi tC2_lo tC2_hi tC3_lo tC3_hi by linarith
  have d1_lo: "- 1388435516893 / 1000000000000 \<le> 5 - receiver_dist1 x y"
    using S1_lo S1_hi by linarith
  have d1_hi: "5 - receiver_dist1 x y \<le> - 138843551672 / 100000000000"
    using S1_lo S1_hi by linarith
  have d2_lo: "104700591145 / 1000000000000 \<le> 5 - receiver_dist2 x y"
    using S2_lo S2_hi by linarith
  have d2_hi: "5 - receiver_dist2 x y \<le> 104700591337 / 1000000000000"
    using S2_lo S2_hi by linarith
  have d3_lo: "- 2502576925042 / 1000000000000 \<le> sqrt 50 - receiver_dist3 x y"
    using R50_lo R50_hi S3_lo S3_hi by linarith
  have d3_hi: "sqrt 50 - receiver_dist3 x y \<le> - 250257692482 / 100000000000"
    using R50_lo R50_hi S3_lo S3_hi by linarith
  have m1_lo: "- 217335764486 / 1000000000000 \<le> (5 - receiver_dist1 x y) / (receiver_dist1 x y)"
    by (rule div_lo[OF d1_lo d1_hi S1_lo S1_hi]) simp_all
  have m1_hi: "(5 - receiver_dist1 x y) / (receiver_dist1 x y) \<le> - 217335764452 / 1000000000000"
    by (rule div_hi[OF d1_lo d1_hi S1_lo S1_hi]) simp_all
  have m2_lo: "21387985167 / 1000000000000 \<le> (5 - receiver_dist2 x y) / (receiver_dist2 x y)"
    by (rule div_lo[OF d2_lo d2_hi S2_lo S2_hi]) simp_all
  have m2_hi: "(5 - receiver_dist2 x y) / (receiver_dist2 x y) \<le> 21387985208 / 1000000000000"
    by (rule div_hi[OF d2_lo d2_hi S2_lo S2_hi]) simp_all
  have m3_lo: "- 261402735727 / 1000000000000 \<le> (sqrt 50 - receiver_dist3 x y) / (receiver_dist3 x y)"
    by (rule div_lo[OF d3_lo d3_hi S3_lo S3_hi]) simp_all
  have m3_hi: "(sqrt 50 - receiver_dist3 x y) / (receiver_dist3 x y) \<le> - 261402735697 / 1000000000000"
    by (rule div_hi[OF d3_lo d3_hi S3_lo S3_hi]) simp_all
  have tu1_lo: "561651366162 / 1000000000000 \<le> (x - 5) * ((5 - receiver_dist1 x y) / (receiver_dist1 x y))"
    by (rule mult_lo[OF X5_lo X5_hi m1_lo m1_hi]) simp_all
  have tu1_hi: "(x - 5) * ((5 - receiver_dist1 x y) / (receiver_dist1 x y)) \<le> 561651366294 / 1000000000000"
    by (rule mult_hi[OF X5_lo X5_hi m1_lo m1_hi]) simp_all
  have tu2_lo: "- 55272040213 / 1000000000000 \<le> (x - 5) * ((5 - receiver_dist2 x y) / (receiver_dist2 x y))"
    by (rule mult_lo[OF X5_lo X5_hi m2_lo m2_hi]) simp_all
  have tu2_hi: "(x - 5) * ((5 - receiver_dist2 x y) / (receiver_dist2 x y)) \<le> - 55272040102 / 1000000000000"
    by (rule mult_hi[OF X5_lo X5_hi m2_lo m2_hi]) simp_all
  have tu3_lo: "1982545402372 / 1000000000000 \<le> (x - 10) * ((sqrt 50 - receiver_dist3 x y) / (receiver_dist3 x y))"
    by (rule mult_lo[OF X10_lo X10_hi m3_lo m3_hi]) simp_all
  have tu3_hi: "(x - 10) * ((sqrt 50 - receiver_dist3 x y) / (receiver_dist3 x y)) \<le> 1982545402653 / 1000000000000"
    by (rule mult_hi[OF X10_lo X10_hi m3_lo m3_hi]) simp_all
  have u_lo: "2488924728321 / 1000000000000 \<le> gn_u x y"
    unfolding gn_u_def using tu1_lo tu1_hi tu2_lo tu2_hi tu3_lo tu3_hi by linarith
  have u_hi: "gn_u x y \<le> 2488924728845 / 1000000000000"
    unfolding gn_u_def using tu1_lo tu1_hi tu2_lo tu2_hi tu3_lo tu3_hi by linarith
  have tv1_lo: "- 126976412275 / 100000000000 \<le> y * ((5 - receiver_dist1 x y) / (receiver_dist1 x y))"
    by (rule mult_lo[OF y_lo y_hi m1_lo m1_hi]) simp_all
  have tv1_hi: "y * ((5 - receiver_dist1 x y) / (receiver_dist1 x y)) \<le> - 1269764122529 / 1000000000000"
    by (rule mult_hi[OF y_lo y_hi m1_lo m1_hi]) simp_all
  have tv2_lo: "- 88922524699 / 1000000000000 \<le> (y - 10) * ((5 - receiver_dist2 x y) / (receiver_dist2 x y))"
    by (rule mult_lo[OF Y10_lo Y10_hi m2_lo m2_hi]) simp_all
  have tv2_hi: "(y - 10) * ((5 - receiver_dist2 x y) / (receiver_dist2 x y)) \<le> - 88922524526 / 1000000000000"
    by (rule mult_hi[OF Y10_lo Y10_hi m2_lo m2_hi]) simp_all
  have tv3_lo: "- 1527221330552 / 1000000000000 \<le> y * ((sqrt 50 - receiver_dist3 x y) / (receiver_dist3 x y))"
    by (rule mult_lo[OF y_lo y_hi m3_lo m3_hi]) simp_all
  have tv3_hi: "y * ((sqrt 50 - receiver_dist3 x y) / (receiver_dist3 x y)) \<le> - 152722133035 / 100000000000"
    by (rule mult_hi[OF y_lo y_hi m3_lo m3_hi]) simp_all
  have v_lo: "- 2885907978001 / 1000000000000 \<le> gn_v x y"
    unfolding gn_v_def using tv1_lo tv1_hi tv2_lo tv2_hi tv3_lo tv3_hi by linarith
  have v_hi: "gn_v x y \<le> - 2885907977405 / 1000000000000"
    unfolding gn_v_def using tv1_lo tv1_hi tv2_lo tv2_hi tv3_lo tv3_hi by linarith
  have AC_lo: "2065018336847 / 1000000000000 \<le> (gn_A x y) * (gn_C x y)"
    by (rule mult_lo[OF A_lo A_hi C_lo C_hi]) simp_all
  have AC_hi: "(gn_A x y) * (gn_C x y) \<le> 2065018337377 / 1000000000000"
    by (rule mult_hi[OF A_lo A_hi C_lo C_hi]) simp_all
  have BB_lo: "164059614887 / 1000000000000 \<le> (gn_B x y) * (gn_B x y)"
    by (rule mult_lo[OF B_lo B_hi B_lo B_hi]) simp_all
  have BB_hi: "(gn_B x y) * (gn_B x y) \<le> 164059615036 / 1000000000000"
    by (rule mult_hi[OF B_lo B_hi B_lo B_hi]) simp_all
  have det_lo: "1900958721811 / 1000000000000 \<le> gn_det x y"
    unfolding gn_det_def using AC_lo AC_hi BB_lo BB_hi by linarith
  have det_hi: "gn_det x y \<le> 190095872249 / 100000000000"
    unfolding gn_det_def using AC_lo AC_hi BB_lo BB_hi by linarith
  have Cu_lo: "4803861039766 / 1000000000000 \<le> (gn_C x y) * (gn_u x y)"
    by (rule mult_lo[OF C_lo C_hi u_lo u_hi]) simp_all
  have Cu_hi: "(gn_C x y) * (gn_u x y) \<le> 4803861041271 / 1000000000000"
    by (rule mult_hi[OF C_lo C_hi u_lo u_hi]) simp_all
  have Bv_lo: "1168916051973 / 1000000000000 \<le> (gn_B x y) * (gn_v x y)"
    by (rule mult_lo[OF B_lo B_hi v_lo v_hi]) simp_all
  have Bv_hi: "(gn_B x y) * (gn_v x y) \<le> 1168916052741 / 1000000000000"
    by (rule mult_hi[OF B_lo B_hi v_lo v_hi]) simp_all
  have Av_lo: "- 3087647530229 / 1000000000000 \<le> (gn_A x y) * (gn_v x y)"
    by (rule mult_lo[OF A_lo A_hi v_lo v_hi]) simp_all
  have Av_hi: "(gn_A x y) * (gn_v x y) \<le> - 3087647529117 / 1000000000000"
    by (rule mult_hi[OF A_lo A_hi v_lo v_hi]) simp_all
  have Bu_lo: "- 1008120872803 / 1000000000000 \<le> (gn_B x y) * (gn_u x y)"
    by (rule mult_lo[OF B_lo B_hi u_lo u_hi]) simp_all
  have Bu_hi: "(gn_B x y) * (gn_u x y) \<le> - 1008120872137 / 1000000000000"
    by (rule mult_hi[OF B_lo B_hi u_lo u_hi]) simp_all
  have nx_lo: "3634944987025 / 1000000000000 \<le> gn_C x y * gn_u x y - gn_B x y * gn_v x y"
    using Cu_lo Cu_hi Bv_lo Bv_hi by linarith
  have nx_hi: "gn_C x y * gn_u x y - gn_B x y * gn_v x y \<le> 3634944989298 / 1000000000000"
    using Cu_lo Cu_hi Bv_lo Bv_hi by linarith
  have ny_lo: "- 2079526658092 / 1000000000000 \<le> gn_A x y * gn_v x y - gn_B x y * gn_u x y"
    using Av_lo Av_hi Bu_lo Bu_hi by linarith
  have ny_hi: "gn_A x y * gn_v x y - gn_B x y * gn_u x y \<le> - 2079526656314 / 1000000000000"
    using Av_lo Av_hi Bu_lo Bu_hi by linarith
  have dx_lo: "1912164080166 / 1000000000000 \<le> (gn_C x y * gn_u x y - gn_B x y * gn_v x y) / (gn_det x y)"
    by (rule div_lo[OF nx_lo nx_hi det_lo det_hi]) simp_all
  have dx_hi: "(gn_C x y * gn_u x y - gn_B x y * gn_v x y) / (gn_det x y) \<le> 1912164082046 / 1000000000000"
    by (rule div_hi[OF nx_lo nx_hi det_lo det_hi]) simp_all
  have dy_lo: "- 1093935725291 / 1000000000000 \<le> (gn_A x y * gn_v x y - gn_B x y * gn_u x y) / (gn_det x y)"
    by (rule div_lo[OF ny_lo ny_hi det_lo det_hi]) simp_all
  have dy_hi: "(gn_A x y * gn_v x y - gn_B x y * gn_u x y) / (gn_det x y) \<le> - 1093935723964 / 1000000000000"
    by (rule div_hi[OF ny_lo ny_hi det_lo det_hi]) simp_all
  have gx_lo: "4327907560666 / 1000000000000 \<le> gn_x x y"
    unfolding gn_x_def using x_lo x_hi dx_lo dx_hi by linarith
  have gx_hi: "gn_x x y \<le> 4327907562746 / 1000000000000"
    unfolding gn_x_def using x_lo x_hi dx_lo dx_hi by linarith
  have gy_lo: "4748471877209 / 1000000000000 \<le> gn_y x y"
    unfolding gn_y_def using y_lo y_hi dy_lo dy_hi by linarith
  have gy_hi: "gn_y x y \<le> 4748471878636 / 1000000000000"
    unfolding gn_y_def using y_lo y_hi dy_lo dy_hi by linarith
  show "19009587218 / 10000000000 \<le> gn_det x y" using det_lo by linarith
  show "43279075606 / 10000000000 \<le> gn_x x y" using gx_lo by linarith
  show "gn_x x y \<le> 43279075628 / 10000000000" using gx_hi by linarith
  show "47484718772 / 10000000000 \<le> gn_y x y" using gy_lo by linarith
  show "gn_y x y \<le> 47484718787 / 10000000000" using gy_hi by linarith
qed

lemma gn_encl_3:
  fixes x y :: real
  assumes x_lo: "43279075606 / 10000000000 \<le> x" and x_hi: "x \<le> 43279075628 / 10000000000" and y_lo: "47484718772 / 10000000000 \<le> y" and y_hi: "y \<le> 47484718787 / 10000000000"
  shows "12270237304 / 10000000000 \<le> gn_det x y"
    and "49465491265 / 10000000000 \<le> gn_x x y" and "gn_x x y \<le> 49465491412 / 10000000000"
    and "49997735557 / 10000000000 \<le> gn_y x y" and "gn_y x y \<le> 49997735634 / 10000000000"
proof -
  have X5_lo: "- 6720924394 / 10000000000 \<le> x - 5"
    using x_lo x_hi by linarith
  have X5_hi: "x - 5 \<le> - 6720924372 / 10000000000"
    using x_lo x_hi by linarith
  have X10_lo: "- 56720924394 / 10000000000 \<le> x - 10"
    using x_lo x_hi by linarith
  have X10_hi: "x - 10 \<le> - 56720924372 / 10000000000"
    using x_lo x_hi by linarith
  have Y10_lo: "- 52515281228 / 10000000000 \<le> y - 10"
    using y_lo y_hi by linarith
  have Y10_hi: "y - 10 \<le> - 52515281213 / 10000000000"
    using y_lo y_hi by linarith
  have naa_lo: "451708244141 / 1000000000000 \<le> (x - 5) * (x - 5)"
    by (rule mult_lo[OF X5_lo X5_hi X5_lo X5_hi]) simp_all
  have naa_hi: "(x - 5) * (x - 5) \<le> 451708247099 / 1000000000000"
    by (rule mult_hi[OF X5_lo X5_hi X5_lo X5_hi]) simp_all
  have ncc_lo: "32172632616141 / 1000000000000 \<le> (x - 10) * (x - 10)"
    by (rule mult_lo[OF X10_lo X10_hi X10_lo X10_hi]) simp_all
  have ncc_hi: "(x - 10) * (x - 10) \<le> 32172632641099 / 1000000000000"
    by (rule mult_hi[OF X10_lo X10_hi X10_lo X10_hi]) simp_all
  have nyy_lo: "22547985168559 / 1000000000000 \<le> y * y"
    by (rule mult_lo[OF y_lo y_hi y_lo y_hi]) simp_all
  have nyy_hi: "y * y \<le> 22547985182805 / 1000000000000"
    by (rule mult_hi[OF y_lo y_hi y_lo y_hi]) simp_all
  have nbb_lo: "27578547608804 / 1000000000000 \<le> (y - 10) * (y - 10)"
    by (rule mult_lo[OF Y10_lo Y10_hi Y10_lo Y10_hi]) simp_all
  have nbb_hi: "(y - 10) * (y - 10) \<le> 2757854762456 / 100000000000"
    by (rule mult_hi[OF Y10_lo Y10_hi Y10_lo Y10_hi]) simp_all
  have nay_lo: "- 3191412048378 / 1000000000000 \<le> (x - 5) * y"
    by (rule mult_lo[OF X5_lo X5_hi y_lo y_hi]) simp_all
  have nay_hi: "(x - 5) * y \<le> - 3191412036923 / 1000000000000"
    by (rule mult_hi[OF X5_lo X5_hi y_lo y_hi]) simp_all
  have nab_lo: "3529512334068 / 1000000000000 \<le> (x - 5) * (y - 10)"
    by (rule mult_lo[OF X5_lo X5_hi Y10_lo Y10_hi]) simp_all
  have nab_hi: "(x - 5) * (y - 10) \<le> 3529512346631 / 1000000000000"
    by (rule mult_hi[OF X5_lo X5_hi Y10_lo Y10_hi]) simp_all
  have ncy_lo: "- 26933771441878 / 1000000000000 \<le> (x - 10) * y"
    by (rule mult_lo[OF X10_lo X10_hi y_lo y_hi]) simp_all
  have ncy_hi: "(x - 10) * y \<le> - 26933771422923 / 1000000000000"
    by (rule mult_hi[OF X10_lo X10_hi y_lo y_hi]) simp_all
  have saa_lo: "451708244141 / 1000000000000 \<le> (x - 5)\<^sup>2"
    unfolding power2_eq_square by (rule naa_lo)
  have saa_hi: "(x - 5)\<^sup>2 \<le> 451708247099 / 1000000000000"
    unfolding power2_eq_square by (rule naa_hi)
  have scc_lo: "32172632616141 / 1000000000000 \<le> (x - 10)\<^sup>2"
    unfolding power2_eq_square by (rule ncc_lo)
  have scc_hi: "(x - 10)\<^sup>2 \<le> 32172632641099 / 1000000000000"
    unfolding power2_eq_square by (rule ncc_hi)
  have syy_lo: "22547985168559 / 1000000000000 \<le> y\<^sup>2"
    unfolding power2_eq_square by (rule nyy_lo)
  have syy_hi: "y\<^sup>2 \<le> 22547985182805 / 1000000000000"
    unfolding power2_eq_square by (rule nyy_hi)
  have sbb_lo: "27578547608804 / 1000000000000 \<le> (y - 10)\<^sup>2"
    unfolding power2_eq_square by (rule nbb_lo)
  have sbb_hi: "(y - 10)\<^sup>2 \<le> 2757854762456 / 100000000000"
    unfolding power2_eq_square by (rule nbb_hi)
  have q1_lo: "229996934127 / 10000000000 \<le> (x - 5)\<^sup>2 + y\<^sup>2"
    using saa_lo saa_hi syy_lo syy_hi by linarith
  have q1_hi: "(x - 5)\<^sup>2 + y\<^sup>2 \<le> 22999693429904 / 1000000000000"
    using saa_lo saa_hi syy_lo syy_hi by linarith
  have q2_lo: "28030255852945 / 1000000000000 \<le> (x - 5)\<^sup>2 + (y - 10)\<^sup>2"
    using saa_lo saa_hi sbb_lo sbb_hi by linarith
  have q2_hi: "(x - 5)\<^sup>2 + (y - 10)\<^sup>2 \<le> 28030255871659 / 1000000000000"
    using saa_lo saa_hi sbb_lo sbb_hi by linarith
  have q3_lo: "547206177847 / 10000000000 \<le> (x - 10)\<^sup>2 + y\<^sup>2"
    using scc_lo scc_hi syy_lo syy_hi by linarith
  have q3_hi: "(x - 10)\<^sup>2 + y\<^sup>2 \<le> 54720617823904 / 1000000000000"
    using scc_lo scc_hi syy_lo syy_hi by linarith
  have S1_lo: "479579955927 / 100000000000 \<le> receiver_dist1 x y"
    unfolding receiver_dist1_def by (rule sqrt_lo[OF q1_lo]) simp_all
  have S1_hi: "receiver_dist1 x y \<le> 4795799561065 / 1000000000000"
    unfolding receiver_dist1_def by (rule sqrt_hi[OF _ q1_hi]) simp_all
  have S2_lo: "5294360759614 / 1000000000000 \<le> receiver_dist2 x y"
    unfolding receiver_dist2_def by (rule sqrt_lo[OF q2_lo]) simp_all
  have S2_hi: "receiver_dist2 x y \<le> 5294360761382 / 1000000000000"
    unfolding receiver_dist2_def by (rule sqrt_hi[OF _ q2_hi]) simp_all
  have S3_lo: "7397338560908 / 1000000000000 \<le> receiver_dist3 x y"
    unfolding receiver_dist3_def by (rule sqrt_lo[OF q3_lo]) simp_all
  have S3_hi: "receiver_dist3 x y \<le> 7397338563559 / 1000000000000"
    unfolding receiver_dist3_def by (rule sqrt_hi[OF _ q3_hi]) simp_all
  have c50_lo: "(50::real) \<le> 50" and c50_hi: "(50::real) \<le> 50" by simp_all
  have R50_lo: "7071067811865 / 1000000000000 \<le> sqrt 50"
    by (rule sqrt_lo[OF c50_lo]) simp_all
  have R50_hi: "sqrt 50 \<le> 7071067811866 / 1000000000000"
    by (rule sqrt_hi[OF _ c50_hi]) simp_all
  have tA1_lo: "19639750656 / 1000000000000 \<le> ((x - 5) * (x - 5)) / ((x - 5)\<^sup>2 + y\<^sup>2)"
    by (rule div_lo[OF naa_lo naa_hi q1_lo q1_hi]) simp_all
  have tA1_hi: "((x - 5) * (x - 5)) / ((x - 5)\<^sup>2 + y\<^sup>2) \<le> 196397508 / 10000000000"
    by (rule div_hi[OF naa_lo naa_hi q1_lo q1_hi]) simp_all
  have tA2_lo: "1611502393 / 100000000000 \<le> ((x - 5) * (x - 5)) / ((x - 5)\<^sup>2 + (y - 10)\<^sup>2)"
    by (rule div_lo[OF naa_lo naa_hi q2_lo q2_hi]) simp_all
  have tA2_hi: "((x - 5) * (x - 5)) / ((x - 5)\<^sup>2 + (y - 10)\<^sup>2) \<le> 16115024047 / 1000000000000"
    by (rule div_hi[OF naa_lo naa_hi q2_lo q2_hi]) simp_all
  have tA3_lo: "587943519199 / 1000000000000 \<le> ((x - 10) * (x - 10)) / ((x - 10)\<^sup>2 + y\<^sup>2)"
    by (rule div_lo[OF ncc_lo ncc_hi q3_lo q3_hi]) simp_all
  have tA3_hi: "((x - 10) * (x - 10)) / ((x - 10)\<^sup>2 + y\<^sup>2) \<le> 587943520077 / 1000000000000"
    by (rule div_hi[OF ncc_lo ncc_hi q3_lo q3_hi]) simp_all
  have A_lo: "623698293785 / 1000000000000 \<le> gn_A x y"
    unfolding gn_A_def using tA1_lo tA1_hi tA2_lo tA2_hi tA3_lo tA3_hi by linarith
  have A_hi: "gn_A x y \<le> 623698294924 / 1000000000000"
    unfolding gn_A_def using tA1_lo tA1_hi tA2_lo tA2_hi tA3_lo tA3_hi by linarith
  have tB1_lo: "- 138758895222 / 1000000000000 \<le> ((x - 5) * y) / ((x - 5)\<^sup>2 + y\<^sup>2)"
    by (rule div_lo[OF nay_lo nay_hi q1_lo q1_hi]) simp_all
  have tB1_hi: "((x - 5) * y) / ((x - 5)\<^sup>2 + y\<^sup>2) \<le> - 138758894619 / 1000000000000"
    by (rule div_hi[OF nay_lo nay_hi q1_lo q1_hi]) simp_all
  have tB2_lo: "125917949169 / 1000000000000 \<le> ((x - 5) * (y - 10)) / ((x - 5)\<^sup>2 + (y - 10)\<^sup>2)"
    by (rule div_lo[OF nab_lo nab_hi q2_lo q2_hi]) simp_all
  have tB2_hi: "((x - 5) * (y - 10)) / ((x - 5)\<^sup>2 + (y - 10)\<^sup>2) \<le> 125917949703 / 1000000000000"
    by (rule div_hi[OF nab_lo nab_hi q2_lo q2_hi]) simp_all
  have tB3_lo: "- 492205178455 / 1000000000000 \<le> ((x - 10) * y) / ((x - 10)\<^sup>2 + y\<^sup>2)"
    by (rule div_lo[OF ncy_lo ncy_hi q3_lo q3_hi]) simp_all
  have tB3_hi: "((x - 10) * y) / ((x - 10)\<^sup>2 + y\<^sup>2) \<le> - 492205177755 / 1000000000000"
    by (rule div_hi[OF ncy_lo ncy_hi q3_lo q3_hi]) simp_all
  have B_lo: "- 505046124508 / 1000000000000 \<le> gn_B x y"
    unfolding gn_B_def using tB1_lo tB1_hi tB2_lo tB2_hi tB3_lo tB3_hi by linarith
  have B_hi: "gn_B x y \<le> - 505046122671 / 1000000000000"
    unfolding gn_B_def using tB1_lo tB1_hi tB2_lo tB2_hi tB3_lo tB3_hi by linarith
  have tC1_lo: "980360248595 / 1000000000000 \<le> (y * y) / ((x - 5)\<^sup>2 + y\<^sup>2)"
    by (rule div_lo[OF nyy_lo nyy_hi q1_lo q1_hi]) simp_all
  have tC1_hi: "(y * y) / ((x - 5)\<^sup>2 + y\<^sup>2) \<le> 980360249949 / 1000000000000"
    by (rule div_hi[OF nyy_lo nyy_hi q1_lo q1_hi]) simp_all
  have tC2_lo: "983884975402 / 1000000000000 \<le> ((y - 10) * (y - 10)) / ((x - 5)\<^sup>2 + (y - 10)\<^sup>2)"
    by (rule div_lo[OF nbb_lo nbb_hi q2_lo q2_hi]) simp_all
  have tC2_hi: "((y - 10) * (y - 10)) / ((x - 5)\<^sup>2 + (y - 10)\<^sup>2) \<le> 983884976622 / 1000000000000"
    by (rule div_hi[OF nbb_lo nbb_hi q2_lo q2_hi]) simp_all
  have tC3_lo: "412056480084 / 1000000000000 \<le> (y * y) / ((x - 10)\<^sup>2 + y\<^sup>2)"
    by (rule div_lo[OF nyy_lo nyy_hi q3_lo q3_hi]) simp_all
  have tC3_hi: "(y * y) / ((x - 10)\<^sup>2 + y\<^sup>2) \<le> 41205648064 / 100000000000"
    by (rule div_hi[OF nyy_lo nyy_hi q3_lo q3_hi]) simp_all
  have C_lo: "2376301704081 / 1000000000000 \<le> gn_C x y"
    unfolding gn_C_def using tC1_lo tC1_hi tC2_lo tC2_hi tC3_lo tC3_hi by linarith
  have C_hi: "gn_C x y \<le> 2376301707211 / 1000000000000"
    unfolding gn_C_def using tC1_lo tC1_hi tC2_lo tC2_hi tC3_lo tC3_hi by linarith
  have d1_lo: "204200438935 / 1000000000000 \<le> 5 - receiver_dist1 x y"
    using S1_lo S1_hi by linarith
  have d1_hi: "5 - receiver_dist1 x y \<le> 20420044073 / 100000000000"
    using S1_lo S1_hi by linarith
  have d2_lo: "- 294360761382 / 1000000000000 \<le> 5 - receiver_dist2 x y"
    using S2_lo S2_hi by linarith
  have d2_hi: "5 - receiver_dist2 x y \<le> - 294360759614 / 1000000000000"
    using S2_lo S2_hi by linarith
  have d3_lo: "- 326270751694 / 1000000000000 \<le> sqrt 50 - receiver_dist3 x y"
    using R50_lo R50_hi S3_lo S3_hi by linarith
  have d3_hi: "sqrt 50 - receiver_dist3 x y \<le> - 326270749042 / 1000000000000"
    using R50_lo R50_hi S3_lo S3_hi by linarith
  have m1_lo: "42579018646 / 1000000000000 \<le> (5 - receiver_dist1 x y) / (receiver_dist1 x y)"
    by (rule div_lo[OF d1_lo d1_hi S1_lo S1_hi]) simp_all
  have m1_hi: "(5 - receiver_dist1 x y) / (receiver_dist1 x y) \<le> 42579019037 / 1000000000000"
    by (rule div_hi[OF d1_lo d1_hi S1_lo S1_hi]) simp_all
  have m2_lo: "- 55598923978 / 1000000000000 \<le> (5 - receiver_dist2 x y) / (receiver_dist2 x y)"
    by (rule div_lo[OF d2_lo d2_hi S2_lo S2_hi]) simp_all
  have m2_hi: "(5 - receiver_dist2 x y) / (receiver_dist2 x y) \<le> - 55598923624 / 1000000000000"
    by (rule div_hi[OF d2_lo d2_hi S2_lo S2_hi]) simp_all
  have m3_lo: "- 44106505199 / 1000000000000 \<le> (sqrt 50 - receiver_dist3 x y) / (receiver_dist3 x y)"
    by (rule div_lo[OF d3_lo d3_hi S3_lo S3_hi]) simp_all
  have m3_hi: "(sqrt 50 - receiver_dist3 x y) / (receiver_dist3 x y) \<le> - 44106504824 / 1000000000000"
    by (rule div_hi[OF d3_lo d3_hi S3_lo S3_hi]) simp_all
  have tu1_lo: "- 28617036772 / 1000000000000 \<le> (x - 5) * ((5 - receiver_dist1 x y) / (receiver_dist1 x y))"
    by (rule mult_lo[OF X5_lo X5_hi m1_lo m1_hi]) simp_all
  have tu1_hi: "(x - 5) * ((5 - receiver_dist1 x y) / (receiver_dist1 x y)) \<le> - 28617036415 / 1000000000000"
    by (rule mult_hi[OF X5_lo X5_hi m1_lo m1_hi]) simp_all
  have tu2_lo: "37367616084 / 1000000000000 \<le> (x - 5) * ((5 - receiver_dist2 x y) / (receiver_dist2 x y))"
    by (rule mult_lo[OF X5_lo X5_hi m2_lo m2_hi]) simp_all
  have tu2_hi: "(x - 5) * ((5 - receiver_dist2 x y) / (receiver_dist2 x y)) \<le> 37367616445 / 1000000000000"
    by (rule mult_hi[OF X5_lo X5_hi m2_lo m2_hi]) simp_all
  have tu3_lo: "250176172443 / 1000000000000 \<le> (x - 10) * ((sqrt 50 - receiver_dist3 x y) / (receiver_dist3 x y))"
    by (rule mult_lo[OF X10_lo X10_hi m3_lo m3_hi]) simp_all
  have tu3_hi: "(x - 10) * ((sqrt 50 - receiver_dist3 x y) / (receiver_dist3 x y)) \<le> 250176174668 / 1000000000000"
    by (rule mult_hi[OF X10_lo X10_hi m3_lo m3_hi]) simp_all
  have u_lo: "258926751755 / 1000000000000 \<le> gn_u x y"
    unfolding gn_u_def using tu1_lo tu1_hi tu2_lo tu2_hi tu3_lo tu3_hi by linarith
  have u_hi: "gn_u x y \<le> 258926754698 / 1000000000000"
    unfolding gn_u_def using tu1_lo tu1_hi tu2_lo tu2_hi tu3_lo tu3_hi by linarith
  have tv1_lo: "202185272599 / 1000000000000 \<le> y * ((5 - receiver_dist1 x y) / (receiver_dist1 x y))"
    by (rule mult_lo[OF y_lo y_hi m1_lo m1_hi]) simp_all
  have tv1_hi: "y * ((5 - receiver_dist1 x y) / (receiver_dist1 x y)) \<le> 20218527452 / 100000000000"
    by (rule mult_hi[OF y_lo y_hi m1_lo m1_hi]) simp_all
  have tv2_lo: "291979310925 / 1000000000000 \<le> (y - 10) * ((5 - receiver_dist2 x y) / (receiver_dist2 x y))"
    by (rule mult_lo[OF Y10_lo Y10_hi m2_lo m2_hi]) simp_all
  have tv2_hi: "(y - 10) * ((5 - receiver_dist2 x y) / (receiver_dist2 x y)) \<le> 291979312868 / 1000000000000"
    by (rule mult_hi[OF Y10_lo Y10_hi m2_lo m2_hi]) simp_all
  have tv3_lo: "- 209438499606 / 1000000000000 \<le> y * ((sqrt 50 - receiver_dist3 x y) / (receiver_dist3 x y))"
    by (rule mult_lo[OF y_lo y_hi m3_lo m3_hi]) simp_all
  have tv3_hi: "y * ((sqrt 50 - receiver_dist3 x y) / (receiver_dist3 x y)) \<le> - 209438497758 / 1000000000000"
    by (rule mult_hi[OF y_lo y_hi m3_lo m3_hi]) simp_all
  have v_lo: "284726083918 / 1000000000000 \<le> gn_v x y"
    unfolding gn_v_def using tv1_lo tv1_hi tv2_lo tv2_hi tv3_lo tv3_hi by linarith
  have v_hi: "gn_v x y \<le> 28472608963 / 100000000000"
    unfolding gn_v_def using tv1_lo tv1_hi tv2_lo tv2_hi tv3_lo tv3_hi by linarith
  have AC_lo: "1482095318353 / 1000000000000 \<le> (gn_A x y) * (gn_C x y)"
    by (rule mult_lo[OF A_lo A_hi C_lo C_hi]) simp_all
  have AC_hi: "(gn_A x y) * (gn_C x y) \<le> 1482095323013 / 1000000000000"
    by (rule mult_hi[OF A_lo A_hi C_lo C_hi]) simp_all
  have BB_lo: "255071586025 / 1000000000000 \<le> (gn_B x y) * (gn_B x y)"
    by (rule mult_lo[OF B_lo B_hi B_lo B_hi]) simp_all
  have BB_hi: "(gn_B x y) * (gn_B x y) \<le> 255071587881 / 1000000000000"
    by (rule mult_hi[OF B_lo B_hi B_lo B_hi]) simp_all
  have det_lo: "1227023730472 / 1000000000000 \<le> gn_det x y"
    unfolding gn_det_def using AC_lo AC_hi BB_lo BB_hi by linarith
  have det_hi: "gn_det x y \<le> 1227023736988 / 1000000000000"
    unfolding gn_det_def using AC_lo AC_hi BB_lo BB_hi by linarith
  have Cu_lo: "615288081427 / 1000000000000 \<le> (gn_C x y) * (gn_u x y)"
    by (rule mult_lo[OF C_lo C_hi u_lo u_hi]) simp_all
  have Cu_hi: "(gn_C x y) * (gn_u x y) \<le> 615288089232 / 1000000000000"
    by (rule mult_hi[OF C_lo C_hi u_lo u_hi]) simp_all
  have Bv_lo: "- 143799808114 / 1000000000000 \<le> (gn_B x y) * (gn_v x y)"
    by (rule mult_lo[OF B_lo B_hi v_lo v_hi]) simp_all
  have Bv_hi: "(gn_B x y) * (gn_v x y) \<le> - 143799804706 / 1000000000000"
    by (rule mult_hi[OF B_lo B_hi v_lo v_hi]) simp_all
  have Av_lo: "177583172735 / 1000000000000 \<le> (gn_A x y) * (gn_v x y)"
    by (rule mult_lo[OF A_lo A_hi v_lo v_hi]) simp_all
  have Av_hi: "(gn_A x y) * (gn_v x y) \<le> 177583176623 / 1000000000000"
    by (rule mult_hi[OF A_lo A_hi v_lo v_hi]) simp_all
  have Bu_lo: "- 130769953992 / 1000000000000 \<le> (gn_B x y) * (gn_u x y)"
    by (rule mult_lo[OF B_lo B_hi u_lo u_hi]) simp_all
  have Bu_hi: "(gn_B x y) * (gn_u x y) \<le> - 130769952029 / 1000000000000"
    by (rule mult_hi[OF B_lo B_hi u_lo u_hi]) simp_all
  have nx_lo: "759087886133 / 1000000000000 \<le> gn_C x y * gn_u x y - gn_B x y * gn_v x y"
    using Cu_lo Cu_hi Bv_lo Bv_hi by linarith
  have nx_hi: "gn_C x y * gn_u x y - gn_B x y * gn_v x y \<le> 759087897346 / 1000000000000"
    using Cu_lo Cu_hi Bv_lo Bv_hi by linarith
  have ny_lo: "308353124764 / 1000000000000 \<le> gn_A x y * gn_v x y - gn_B x y * gn_u x y"
    using Av_lo Av_hi Bu_lo Bu_hi by linarith
  have ny_hi: "gn_A x y * gn_v x y - gn_B x y * gn_u x y \<le> 308353130615 / 1000000000000"
    using Av_lo Av_hi Bu_lo Bu_hi by linarith
  have dx_lo: "61864156597 / 100000000000 \<le> (gn_C x y * gn_u x y - gn_B x y * gn_v x y) / (gn_det x y)"
    by (rule div_lo[OF nx_lo nx_hi det_lo det_hi]) simp_all
  have dx_hi: "(gn_C x y * gn_u x y - gn_B x y * gn_v x y) / (gn_det x y) \<le> 618641578394 / 1000000000000"
    by (rule div_hi[OF nx_lo nx_hi det_lo det_hi]) simp_all
  have dy_lo: "251301678581 / 1000000000000 \<le> (gn_A x y * gn_v x y - gn_B x y * gn_u x y) / (gn_det x y)"
    by (rule div_lo[OF ny_lo ny_hi det_lo det_hi]) simp_all
  have dy_hi: "(gn_A x y * gn_v x y - gn_B x y * gn_u x y) / (gn_det x y) \<le> 251301684685 / 1000000000000"
    by (rule div_hi[OF ny_lo ny_hi det_lo det_hi]) simp_all
  have gx_lo: "494654912657 / 100000000000 \<le> gn_x x y"
    unfolding gn_x_def using x_lo x_hi dx_lo dx_hi by linarith
  have gx_hi: "gn_x x y \<le> 4946549141194 / 1000000000000"
    unfolding gn_x_def using x_lo x_hi dx_lo dx_hi by linarith
  have gy_lo: "4999773555781 / 1000000000000 \<le> gn_y x y"
    unfolding gn_y_def using y_lo y_hi dy_lo dy_hi by linarith
  have gy_hi: "gn_y x y \<le> 4999773563385 / 1000000000000"
    unfolding gn_y_def using y_lo y_hi dy_lo dy_hi by linarith
  show "12270237304 / 10000000000 \<le> gn_det x y" using det_lo by linarith
  show "49465491265 / 10000000000 \<le> gn_x x y" using gx_lo by linarith
  show "gn_x x y \<le> 49465491412 / 10000000000" using gx_hi by linarith
  show "49997735557 / 10000000000 \<le> gn_y x y" using gy_lo by linarith
  show "gn_y x y \<le> 49997735634 / 10000000000" using gy_hi by linarith
qed

lemma gn_encl_4:
  fixes x y :: real
  assumes x_lo: "49465491265 / 10000000000 \<le> x" and x_hi: "x \<le> 49465491412 / 10000000000" and y_lo: "49997735557 / 10000000000 \<le> y" and y_hi: "y \<le> 49997735634 / 10000000000"
  shows "1011131911 / 1000000000 \<le> gn_det x y"
    and "49998432257 / 10000000000 \<le> gn_x x y" and "gn_x x y \<le> 49998432848 / 10000000000"
    and "49999970081 / 10000000000 \<le> gn_y x y" and "gn_y x y \<le> 49999970356 / 10000000000"
proof -
  have X5_lo: "- 534508735 / 10000000000 \<le> x - 5"
    using x_lo x_hi by linarith
  have X5_hi: "x - 5 \<le> - 534508588 / 10000000000"
    using x_lo x_hi by linarith
  have X10_lo: "- 50534508735 / 10000000000 \<le> x - 10"
    using x_lo x_hi by linarith
  have X10_hi: "x - 10 \<le> - 50534508588 / 10000000000"
    using x_lo x_hi by linarith
  have Y10_lo: "- 50002264443 / 10000000000 \<le> y - 10"
    using y_lo y_hi by linarith
  have Y10_hi: "y - 10 \<le> - 50002264366 / 10000000000"
    using y_lo y_hi by linarith
  have naa_lo: "2856994306 / 1000000000000 \<le> (x - 5) * (x - 5)"
    by (rule mult_lo[OF X5_lo X5_hi X5_lo X5_hi]) simp_all
  have naa_hi: "(x - 5) * (x - 5) \<le> 2856995878 / 1000000000000"
    by (rule mult_hi[OF X5_lo X5_hi X5_lo X5_hi]) simp_all
  have ncc_lo: "25537365582306 / 1000000000000 \<le> (x - 10) * (x - 10)"
    by (rule mult_lo[OF X10_lo X10_hi X10_lo X10_hi]) simp_all
  have ncc_hi: "(x - 10) * (x - 10) \<le> 25537365730878 / 1000000000000"
    by (rule mult_hi[OF X10_lo X10_hi X10_lo X10_hi]) simp_all
  have nyy_lo: "24997735608277 / 1000000000000 \<le> y * y"
    by (rule mult_lo[OF y_lo y_hi y_lo y_hi]) simp_all
  have nyy_hi: "y * y \<le> 24997735685274 / 1000000000000"
    by (rule mult_hi[OF y_lo y_hi y_lo y_hi]) simp_all
  have nbb_lo: "25002264417273 / 1000000000000 \<le> (y - 10) * (y - 10)"
    by (rule mult_lo[OF Y10_lo Y10_hi Y10_lo Y10_hi]) simp_all
  have nbb_hi: "(y - 10) * (y - 10) \<le> 25002264494278 / 1000000000000"
    by (rule mult_hi[OF Y10_lo Y10_hi Y10_lo Y10_hi]) simp_all
  have nay_lo: "- 267242264266 / 1000000000000 \<le> (x - 5) * y"
    by (rule mult_lo[OF X5_lo X5_hi y_lo y_hi]) simp_all
  have nay_hi: "(x - 5) * y \<le> - 267242190357 / 1000000000000"
    by (rule mult_hi[OF X5_lo X5_hi y_lo y_hi]) simp_all
  have nab_lo: "26726639723 / 100000000000 \<le> (x - 5) * (y - 10)"
    by (rule mult_lo[OF X5_lo X5_hi Y10_lo Y10_hi]) simp_all
  have nab_hi: "(x - 5) * (y - 10) \<le> 267266471146 / 1000000000000"
    by (rule mult_hi[OF X5_lo X5_hi Y10_lo Y10_hi]) simp_all
  have ncy_lo: "- 25266110081266 / 1000000000000 \<le> (x - 10) * y"
    by (rule mult_lo[OF X10_lo X10_hi y_lo y_hi]) simp_all
  have ncy_hi: "(x - 10) * y \<le> - 25266109968857 / 1000000000000"
    by (rule mult_hi[OF X10_lo X10_hi y_lo y_hi]) simp_all
  have saa_lo: "2856994306 / 1000000000000 \<le> (x - 5)\<^sup>2"
    unfolding power2_eq_square by (rule naa_lo)
  have saa_hi: "(x - 5)\<^sup>2 \<le> 2856995878 / 1000000000000"
    unfolding power2_eq_square by (rule naa_hi)
  have scc_lo: "25537365582306 / 1000000000000 \<le> (x - 10)\<^sup>2"
    unfolding power2_eq_square by (rule ncc_lo)
  have scc_hi: "(x - 10)\<^sup>2 \<le> 25537365730878 / 1000000000000"
    unfolding power2_eq_square by (rule ncc_hi)
  have syy_lo: "24997735608277 / 1000000000000 \<le> y\<^sup>2"
    unfolding power2_eq_square by (rule nyy_lo)
  have syy_hi: "y\<^sup>2 \<le> 24997735685274 / 1000000000000"
    unfolding power2_eq_square by (rule nyy_hi)
  have sbb_lo: "25002264417273 / 1000000000000 \<le> (y - 10)\<^sup>2"
    unfolding power2_eq_square by (rule nbb_lo)
  have sbb_hi: "(y - 10)\<^sup>2 \<le> 25002264494278 / 1000000000000"
    unfolding power2_eq_square by (rule nbb_hi)
  have q1_lo: "25000592602583 / 1000000000000 \<le> (x - 5)\<^sup>2 + y\<^sup>2"
    using saa_lo saa_hi syy_lo syy_hi by linarith
  have q1_hi: "(x - 5)\<^sup>2 + y\<^sup>2 \<le> 25000592681152 / 1000000000000"
    using saa_lo saa_hi syy_lo syy_hi by linarith
  have q2_lo: "25005121411579 / 1000000000000 \<le> (x - 5)\<^sup>2 + (y - 10)\<^sup>2"
    using saa_lo saa_hi sbb_lo sbb_hi by linarith
  have q2_hi: "(x - 5)\<^sup>2 + (y - 10)\<^sup>2 \<le> 25005121490156 / 1000000000000"
    using saa_lo saa_hi sbb_lo sbb_hi by linarith
  have q3_lo: "50535101190583 / 1000000000000 \<le> (x - 10)\<^sup>2 + y\<^sup>2"
    using scc_lo scc_hi syy_lo syy_hi by linarith
  have q3_hi: "(x - 10)\<^sup>2 + y\<^sup>2 \<le> 50535101416152 / 1000000000000"
    using scc_lo scc_hi syy_lo syy_hi by linarith
  have S1_lo: "5000059259907 / 1000000000000 \<le> receiver_dist1 x y"
    unfolding receiver_dist1_def by (rule sqrt_lo[OF q1_lo]) simp_all
  have S1_hi: "receiver_dist1 x y \<le> 5000059267764 / 1000000000000"
    unfolding receiver_dist1_def by (rule sqrt_hi[OF _ q1_hi]) simp_all
  have S2_lo: "5000512114931 / 1000000000000 \<le> receiver_dist2 x y"
    unfolding receiver_dist2_def by (rule sqrt_lo[OF q2_lo]) simp_all
  have S2_hi: "receiver_dist2 x y \<le> 5000512122789 / 1000000000000"
    unfolding receiver_dist2_def by (rule sqrt_hi[OF _ q2_hi]) simp_all
  have S3_lo: "7108804483918 / 1000000000000 \<le> receiver_dist3 x y"
    unfolding receiver_dist3_def by (rule sqrt_lo[OF q3_lo]) simp_all
  have S3_hi: "receiver_dist3 x y \<le> 7108804499785 / 1000000000000"
    unfolding receiver_dist3_def by (rule sqrt_hi[OF _ q3_hi]) simp_all
  have c50_lo: "(50::real) \<le> 50" and c50_hi: "(50::real) \<le> 50" by simp_all
  have R50_lo: "7071067811865 / 1000000000000 \<le> sqrt 50"
    by (rule sqrt_lo[OF c50_lo]) simp_all
  have R50_hi: "sqrt 50 \<le> 7071067811866 / 1000000000000"
    by (rule sqrt_hi[OF _ c50_hi]) simp_all
  have tA1_lo: "114277063 / 1000000000000 \<le> ((x - 5) * (x - 5)) / ((x - 5)\<^sup>2 + y\<^sup>2)"
    by (rule div_lo[OF naa_lo naa_hi q1_lo q1_hi]) simp_all
  have tA1_hi: "((x - 5) * (x - 5)) / ((x - 5)\<^sup>2 + y\<^sup>2) \<le> 114277127 / 1000000000000"
    by (rule div_hi[OF naa_lo naa_hi q1_lo q1_hi]) simp_all
  have tA2_lo: "114256365 / 1000000000000 \<le> ((x - 5) * (x - 5)) / ((x - 5)\<^sup>2 + (y - 10)\<^sup>2)"
    by (rule div_lo[OF naa_lo naa_hi q2_lo q2_hi]) simp_all
  have tA2_hi: "((x - 5) * (x - 5)) / ((x - 5)\<^sup>2 + (y - 10)\<^sup>2) \<le> 114256429 / 1000000000000"
    by (rule div_hi[OF naa_lo naa_hi q2_lo q2_hi]) simp_all
  have tA3_lo: "505339157668 / 1000000000000 \<le> ((x - 10) * (x - 10)) / ((x - 10)\<^sup>2 + y\<^sup>2)"
    by (rule div_lo[OF ncc_lo ncc_hi q3_lo q3_hi]) simp_all
  have tA3_hi: "((x - 10) * (x - 10)) / ((x - 10)\<^sup>2 + y\<^sup>2) \<le> 505339162864 / 1000000000000"
    by (rule div_hi[OF ncc_lo ncc_hi q3_lo q3_hi]) simp_all
  have A_lo: "505567691096 / 1000000000000 \<le> gn_A x y"
    unfolding gn_A_def using tA1_lo tA1_hi tA2_lo tA2_hi tA3_lo tA3_hi by linarith
  have A_hi: "gn_A x y \<le> 50556769642 / 100000000000"
    unfolding gn_A_def using tA1_lo tA1_hi tA2_lo tA2_hi tA3_lo tA3_hi by linarith
  have tB1_lo: "- 10689437188 / 1000000000000 \<le> ((x - 5) * y) / ((x - 5)\<^sup>2 + y\<^sup>2)"
    by (rule div_lo[OF nay_lo nay_hi q1_lo q1_hi]) simp_all
  have tB1_hi: "((x - 5) * y) / ((x - 5)\<^sup>2 + y\<^sup>2) \<le> - 10689434197 / 1000000000000"
    by (rule div_hi[OF nay_lo nay_hi q1_lo q1_hi]) simp_all
  have tB2_lo: "10688466254 / 1000000000000 \<le> ((x - 5) * (y - 10)) / ((x - 5)\<^sup>2 + (y - 10)\<^sup>2)"
    by (rule div_lo[OF nab_lo nab_hi q2_lo q2_hi]) simp_all
  have tB2_hi: "((x - 5) * (y - 10)) / ((x - 5)\<^sup>2 + (y - 10)\<^sup>2) \<le> 10688469244 / 1000000000000"
    by (rule div_hi[OF nab_lo nab_hi q2_lo q2_hi]) simp_all
  have tB3_lo: "- 499971494784 / 1000000000000 \<le> ((x - 10) * y) / ((x - 10)\<^sup>2 + y\<^sup>2)"
    by (rule div_lo[OF ncy_lo ncy_hi q3_lo q3_hi]) simp_all
  have tB3_hi: "((x - 10) * y) / ((x - 10)\<^sup>2 + y\<^sup>2) \<le> - 499971490326 / 1000000000000"
    by (rule div_hi[OF ncy_lo ncy_hi q3_lo q3_hi]) simp_all
  have B_lo: "- 499972465718 / 1000000000000 \<le> gn_B x y"
    unfolding gn_B_def using tB1_lo tB1_hi tB2_lo tB2_hi tB3_lo tB3_hi by linarith
  have B_hi: "gn_B x y \<le> - 499972455279 / 1000000000000"
    unfolding gn_B_def using tB1_lo tB1_hi tB2_lo tB2_hi tB3_lo tB3_hi by linarith
  have tC1_lo: "999885719794 / 1000000000000 \<le> (y * y) / ((x - 5)\<^sup>2 + y\<^sup>2)"
    by (rule div_lo[OF nyy_lo nyy_hi q1_lo q1_hi]) simp_all
  have tC1_hi: "(y * y) / ((x - 5)\<^sup>2 + y\<^sup>2) \<le> 999885726017 / 1000000000000"
    by (rule div_hi[OF nyy_lo nyy_hi q1_lo q1_hi]) simp_all
  have tC2_lo: "999885740491 / 1000000000000 \<le> ((y - 10) * (y - 10)) / ((x - 5)\<^sup>2 + (y - 10)\<^sup>2)"
    by (rule div_lo[OF nbb_lo nbb_hi q2_lo q2_hi]) simp_all
  have tC2_hi: "((y - 10) * (y - 10)) / ((x - 5)\<^sup>2 + (y - 10)\<^sup>2) \<le> 999885746714 / 1000000000000"
    by (rule div_hi[OF nbb_lo nbb_hi q2_lo q2_hi]) simp_all
  have tC3_lo: "494660837868 / 1000000000000 \<le> (y * y) / ((x - 10)\<^sup>2 + y\<^sup>2)"
    by (rule div_lo[OF nyy_lo nyy_hi q3_lo q3_hi]) simp_all
  have tC3_hi: "(y * y) / ((x - 10)\<^sup>2 + y\<^sup>2) \<le> 4946608416 / 10000000000"
    by (rule div_hi[OF nyy_lo nyy_hi q3_lo q3_hi]) simp_all
  have C_lo: "2494432298153 / 1000000000000 \<le> gn_C x y"
    unfolding gn_C_def using tC1_lo tC1_hi tC2_lo tC2_hi tC3_lo tC3_hi by linarith
  have C_hi: "gn_C x y \<le> 2494432314331 / 1000000000000"
    unfolding gn_C_def using tC1_lo tC1_hi tC2_lo tC2_hi tC3_lo tC3_hi by linarith
  have d1_lo: "- 59267764 / 1000000000000 \<le> 5 - receiver_dist1 x y"
    using S1_lo S1_hi by linarith
  have d1_hi: "5 - receiver_dist1 x y \<le> - 59259907 / 1000000000000"
    using S1_lo S1_hi by linarith
  have d2_lo: "- 512122789 / 1000000000000 \<le> 5 - receiver_dist2 x y"
    using S2_lo S2_hi by linarith
  have d2_hi: "5 - receiver_dist2 x y \<le> - 512114931 / 1000000000000"
    using S2_lo S2_hi by linarith
  have d3_lo: "- 3773668792 / 100000000000 \<le> sqrt 50 - receiver_dist3 x y"
    using R50_lo R50_hi S3_lo S3_hi by linarith
  have d3_hi: "sqrt 50 - receiver_dist3 x y \<le> - 37736672052 / 1000000000000"
    using R50_lo R50_hi S3_lo S3_hi by linarith
  have m1_lo: "- 11853413 / 1000000000000 \<le> (5 - receiver_dist1 x y) / (receiver_dist1 x y)"
    by (rule div_lo[OF d1_lo d1_hi S1_lo S1_hi]) simp_all
  have m1_hi: "(5 - receiver_dist1 x y) / (receiver_dist1 x y) \<le> - 1185184 / 100000000000"
    by (rule div_hi[OF d1_lo d1_hi S1_lo S1_hi]) simp_all
  have m2_lo: "- 102414069 / 1000000000000 \<le> (5 - receiver_dist2 x y) / (receiver_dist2 x y)"
    by (rule div_lo[OF d2_lo d2_hi S2_lo S2_hi]) simp_all
  have m2_hi: "(5 - receiver_dist2 x y) / (receiver_dist2 x y) \<le> - 102412496 / 1000000000000"
    by (rule div_hi[OF d2_lo d2_hi S2_lo S2_hi]) simp_all
  have m3_lo: "- 5308443636 / 1000000000000 \<le> (sqrt 50 - receiver_dist3 x y) / (receiver_dist3 x y)"
    by (rule div_lo[OF d3_lo d3_hi S3_lo S3_hi]) simp_all
  have m3_hi: "(sqrt 50 - receiver_dist3 x y) / (receiver_dist3 x y) \<le> - 5308441391 / 1000000000000"
    by (rule div_hi[OF d3_lo d3_hi S3_lo S3_hi]) simp_all
  have tu1_lo: "633491 / 1000000000000 \<le> (x - 5) * ((5 - receiver_dist1 x y) / (receiver_dist1 x y))"
    by (rule mult_lo[OF X5_lo X5_hi m1_lo m1_hi]) simp_all
  have tu1_hi: "(x - 5) * ((5 - receiver_dist1 x y) / (receiver_dist1 x y)) \<le> 633576 / 1000000000000"
    by (rule mult_hi[OF X5_lo X5_hi m1_lo m1_hi]) simp_all
  have tu2_lo: "5474035 / 1000000000000 \<le> (x - 5) * ((5 - receiver_dist2 x y) / (receiver_dist2 x y))"
    by (rule mult_lo[OF X5_lo X5_hi m2_lo m2_hi]) simp_all
  have tu2_hi: "(x - 5) * ((5 - receiver_dist2 x y) / (receiver_dist2 x y)) \<le> 5474122 / 1000000000000"
    by (rule mult_hi[OF X5_lo X5_hi m2_lo m2_hi]) simp_all
  have tu3_lo: "26825947706 / 1000000000000 \<le> (x - 10) * ((sqrt 50 - receiver_dist3 x y) / (receiver_dist3 x y))"
    by (rule mult_lo[OF X10_lo X10_hi m3_lo m3_hi]) simp_all
  have tu3_hi: "(x - 10) * ((sqrt 50 - receiver_dist3 x y) / (receiver_dist3 x y)) \<le> 2682595913 / 100000000000"
    by (rule mult_hi[OF X10_lo X10_hi m3_lo m3_hi]) simp_all
  have u_lo: "26832055232 / 1000000000000 \<le> gn_u x y"
    unfolding gn_u_def using tu1_lo tu1_hi tu2_lo tu2_hi tu3_lo tu3_hi by linarith
  have u_hi: "gn_u x y \<le> 26832066828 / 1000000000000"
    unfolding gn_u_def using tu1_lo tu1_hi tu2_lo tu2_hi tu3_lo tu3_hi by linarith
  have tv1_lo: "- 59264381 / 1000000000000 \<le> y * ((5 - receiver_dist1 x y) / (receiver_dist1 x y))"
    by (rule mult_lo[OF y_lo y_hi m1_lo m1_hi]) simp_all
  have tv1_hi: "y * ((5 - receiver_dist1 x y) / (receiver_dist1 x y)) \<le> - 59256516 / 1000000000000"
    by (rule mult_hi[OF y_lo y_hi m1_lo m1_hi]) simp_all
  have tv2_lo: "512085669 / 1000000000000 \<le> (y - 10) * ((5 - receiver_dist2 x y) / (receiver_dist2 x y))"
    by (rule mult_lo[OF Y10_lo Y10_hi m2_lo m2_hi]) simp_all
  have tv2_hi: "(y - 10) * ((5 - receiver_dist2 x y) / (receiver_dist2 x y)) \<le> 512093537 / 1000000000000"
    by (rule mult_hi[OF Y10_lo Y10_hi m2_lo m2_hi]) simp_all
  have tv3_lo: "- 26541016155 / 1000000000000 \<le> y * ((sqrt 50 - receiver_dist3 x y) / (receiver_dist3 x y))"
    by (rule mult_lo[OF y_lo y_hi m3_lo m3_hi]) simp_all
  have tv3_hi: "y * ((sqrt 50 - receiver_dist3 x y) / (receiver_dist3 x y)) \<le> - 26541004888 / 1000000000000"
    by (rule mult_hi[OF y_lo y_hi m3_lo m3_hi]) simp_all
  have v_lo: "- 26088194867 / 1000000000000 \<le> gn_v x y"
    unfolding gn_v_def using tv1_lo tv1_hi tv2_lo tv2_hi tv3_lo tv3_hi by linarith
  have v_hi: "gn_v x y \<le> - 26088167867 / 1000000000000"
    unfolding gn_v_def using tv1_lo tv1_hi tv2_lo tv2_hi tv3_lo tv3_hi by linarith
  have AC_lo: "1261104377572 / 1000000000000 \<le> (gn_A x y) * (gn_C x y)"
    by (rule mult_lo[OF A_lo A_hi C_lo C_hi]) simp_all
  have AC_hi: "(gn_A x y) * (gn_C x y) \<le> 1261104399032 / 1000000000000"
    by (rule mult_hi[OF A_lo A_hi C_lo C_hi]) simp_all
  have BB_lo: "249972456037 / 1000000000000 \<le> (gn_B x y) * (gn_B x y)"
    by (rule mult_lo[OF B_lo B_hi B_lo B_hi]) simp_all
  have BB_hi: "(gn_B x y) * (gn_B x y) \<le> 249972466477 / 1000000000000"
    by (rule mult_hi[OF B_lo B_hi B_lo B_hi]) simp_all
  have det_lo: "1011131911095 / 1000000000000 \<le> gn_det x y"
    unfolding gn_det_def using AC_lo AC_hi BB_lo BB_hi by linarith
  have det_hi: "gn_det x y \<le> 1011131942995 / 1000000000000"
    unfolding gn_det_def using AC_lo AC_hi BB_lo BB_hi by linarith
  have Cu_lo: "66930745196 / 1000000000000 \<le> (gn_C x y) * (gn_u x y)"
    by (rule mult_lo[OF C_lo C_hi u_lo u_hi]) simp_all
  have Cu_hi: "(gn_C x y) * (gn_u x y) \<le> 66930774557 / 1000000000000"
    by (rule mult_hi[OF C_lo C_hi u_lo u_hi]) simp_all
  have Bv_lo: "13043365342 / 1000000000000 \<le> (gn_B x y) * (gn_v x y)"
    by (rule mult_lo[OF B_lo B_hi v_lo v_hi]) simp_all
  have Bv_hi: "(gn_B x y) * (gn_v x y) \<le> 13043379114 / 1000000000000"
    by (rule mult_hi[OF B_lo B_hi v_lo v_hi]) simp_all
  have Av_lo: "- 13189348583 / 1000000000000 \<le> (gn_A x y) * (gn_v x y)"
    by (rule mult_lo[OF A_lo A_hi v_lo v_hi]) simp_all
  have Av_hi: "(gn_A x y) * (gn_v x y) \<le> - 13189334793 / 1000000000000"
    by (rule mult_hi[OF A_lo A_hi v_lo v_hi]) simp_all
  have Bu_lo: "- 13415294613 / 1000000000000 \<le> (gn_B x y) * (gn_u x y)"
    by (rule mult_lo[OF B_lo B_hi u_lo u_hi]) simp_all
  have Bu_hi: "(gn_B x y) * (gn_u x y) \<le> - 13415288534 / 1000000000000"
    by (rule mult_hi[OF B_lo B_hi u_lo u_hi]) simp_all
  have nx_lo: "53887366082 / 1000000000000 \<le> gn_C x y * gn_u x y - gn_B x y * gn_v x y"
    using Cu_lo Cu_hi Bv_lo Bv_hi by linarith
  have nx_hi: "gn_C x y * gn_u x y - gn_B x y * gn_v x y \<le> 53887409215 / 1000000000000"
    using Cu_lo Cu_hi Bv_lo Bv_hi by linarith
  have ny_lo: "225939951 / 1000000000000 \<le> gn_A x y * gn_v x y - gn_B x y * gn_u x y"
    using Av_lo Av_hi Bu_lo Bu_hi by linarith
  have ny_hi: "gn_A x y * gn_v x y - gn_B x y * gn_u x y \<le> 22595982 / 100000000000"
    using Av_lo Av_hi Bu_lo Bu_hi by linarith
  have dx_lo: "53294099207 / 1000000000000 \<le> (gn_C x y * gn_u x y - gn_B x y * gn_v x y) / (gn_det x y)"
    by (rule div_lo[OF nx_lo nx_hi det_lo det_hi]) simp_all
  have dx_hi: "(gn_C x y * gn_u x y - gn_B x y * gn_v x y) / (gn_det x y) \<le> 53294143548 / 1000000000000"
    by (rule div_hi[OF nx_lo nx_hi det_lo det_hi]) simp_all
  have dy_lo: "22345249 / 100000000000 \<le> (gn_A x y * gn_v x y - gn_B x y * gn_u x y) / (gn_det x y)"
    by (rule div_lo[OF ny_lo ny_hi det_lo det_hi]) simp_all
  have dy_hi: "(gn_A x y * gn_v x y - gn_B x y * gn_u x y) / (gn_det x y) \<le> 223472148 / 1000000000000"
    by (rule div_hi[OF ny_lo ny_hi det_lo det_hi]) simp_all
  have gx_lo: "4999843225707 / 1000000000000 \<le> gn_x x y"
    unfolding gn_x_def using x_lo x_hi dx_lo dx_hi by linarith
  have gx_hi: "gn_x x y \<le> 4999843284748 / 1000000000000"
    unfolding gn_x_def using x_lo x_hi dx_lo dx_hi by linarith
  have gy_lo: "499999700819 / 100000000000 \<le> gn_y x y"
    unfolding gn_y_def using y_lo y_hi dy_lo dy_hi by linarith
  have gy_hi: "gn_y x y \<le> 4999997035548 / 1000000000000"
    unfolding gn_y_def using y_lo y_hi dy_lo dy_hi by linarith
  show "1011131911 / 1000000000 \<le> gn_det x y" using det_lo by linarith
  show "49998432257 / 10000000000 \<le> gn_x x y" using gx_lo by linarith
  show "gn_x x y \<le> 49998432848 / 10000000000" using gx_hi by linarith
  show "49999970081 / 10000000000 \<le> gn_y x y" using gy_lo by linarith
  show "gn_y x y \<le> 49999970356 / 10000000000" using gy_hi by linarith
qed

subsection \<open>The loop from (1, 1)\<close>

lemma gn_local_iter:
  assumes "\<bar>x - 5\<bar> \<le> r" and "\<bar>y - 5\<bar> \<le> r" and "r \<le> 1 / 20"
  shows "\<exists>x' y'. gauss_newton example_solver n [x, y] = Inr [x', y'] \<and>
           \<bar>x' - 5\<bar> \<le> r / 2 ^ n \<and> \<bar>y' - 5\<bar> \<le> r / 2 ^ n"
  using assms
proof (induction n arbitrary: x y r)
  case 0
  then show ?case by simp
next
  case (Suc n)
  have r0: "0 \<le> r" using Suc.prems(1) by linarith
  have r3: "r \<le> 3 / 50" using Suc.prems(3) by linarith
  note loc = gn_local[OF Suc.prems(1,2) r3]
  have y: "0 < y" "y < 10" using Suc.prems(2,3) by linarith+
  have det: "gn_det x y \<noteq> 0" using loc(1) by linarith
  have st: "gauss_newton_step example_solver [x, y] = Inr [gn_x x y, gn_y x y]"
    by (rule step_explicit[OF y det])
  have "10 * r\<^sup>2 = (10 * r) * r" by (simp add: power2_eq_square)
  also have "\<dots> \<le> (1 / 2) * r"
    by (rule mult_right_mono) (use Suc.prems(3) r0 in simp_all)
  finally have h: "10 * r\<^sup>2 \<le> r / 2" by simp
  have b: "\<bar>gn_x x y - 5\<bar> \<le> r / 2" "\<bar>gn_y x y - 5\<bar> \<le> r / 2" "r / 2 \<le> 1 / 20"
    using loc(2,3) h Suc.prems(3) r0 by linarith+
  from Suc.IH[OF b] obtain x' y' where
    "gauss_newton example_solver n [gn_x x y, gn_y x y] = Inr [x', y']"
    "\<bar>x' - 5\<bar> \<le> r / 2 / 2 ^ n" "\<bar>y' - 5\<bar> \<le> r / 2 / 2 ^ n"
    by blast
  then show ?case by (simp add: st)
qed

lemma gauss_newton_add:
  "gauss_newton h (m + n) p =
     (case gauss_newton h m p of Inl e \<Rightarrow> Inl e | Inr q \<Rightarrow> gauss_newton h n q)"
  by (induction m arbitrary: p) (simp_all split: sum.splits)

lemma first_steps:
  obtains x1 y1 x2 y2 x3 y3 x4 y4 where
    "gauss_newton_step example_solver [1, 1] = Inr [x1, y1]"
    "gauss_newton_step example_solver [x1, y1] = Inr [x2, y2]"
    "gauss_newton_step example_solver [x2, y2] = Inr [x3, y3]"
    "gauss_newton_step example_solver [x3, y3] = Inr [x4, y4]"
    "\<bar>x4 - 5\<bar> \<le> 1 / 5000" "\<bar>y4 - 5\<bar> \<le> 1 / 5000"
proof -
  define x1 where "x1 = gn_x 1 1"
  define y1 where "y1 = gn_y 1 1"
  define x2 where "x2 = gn_x x1 y1"
  define y2 where "y2 = gn_y x1 y1"
  define x3 where "x3 = gn_x x2 y2"
  define y3 where "y3 = gn_y x2 y2"
  define x4 where "x4 = gn_x x3 y3"
  define y4 where "y4 = gn_y x3 y3"
  note e1 = gn_encl_1[of 1 1, OF order_refl order_refl order_refl order_refl, folded x1_def y1_def]
  have st1: "gauss_newton_step example_solver [1, 1] = Inr [x1, y1]"
    unfolding x1_def y1_def by (rule step_explicit) (use e1(1) in simp_all)
  note e2 = gn_encl_2[OF e1(2-5), folded x2_def y2_def]
  have st2: "gauss_newton_step example_solver [x1, y1] = Inr [x2, y2]"
    unfolding x2_def y2_def by (rule step_explicit) (use e1(4,5) e2(1) in simp_all)
  note e3 = gn_encl_3[OF e2(2-5), folded x3_def y3_def]
  have st3: "gauss_newton_step example_solver [x2, y2] = Inr [x3, y3]"
    unfolding x3_def y3_def by (rule step_explicit) (use e2(4,5) e3(1) in simp_all)
  note e4 = gn_encl_4[OF e3(2-5), folded x4_def y4_def]
  have st4: "gauss_newton_step example_solver [x3, y3] = Inr [x4, y4]"
    unfolding x4_def y4_def by (rule step_explicit) (use e3(4,5) e4(1) in simp_all)
  have "\<bar>x4 - 5\<bar> \<le> 1 / 5000" "\<bar>y4 - 5\<bar> \<le> 1 / 5000"
    using e4(2-5) by simp_all
  with st1 st2 st3 st4 show ?thesis by (rule that)
qed

lemma gauss_newton_from_start:
  "\<exists>x y. gauss_newton example_solver n [1, 1] = Inr [x, y] \<and>
     (4 \<le> n \<longrightarrow> \<bar>x - 5\<bar> \<le> 1 / 5000 / 2 ^ (n - 4) \<and> \<bar>y - 5\<bar> \<le> 1 / 5000 / 2 ^ (n - 4)) \<and>
     (5 \<le> n \<longrightarrow> \<bar>x - 5\<bar> \<le> 4 / 10 ^ 7 \<and> \<bar>y - 5\<bar> \<le> 4 / 10 ^ 7)"
proof -
  obtain x1 y1 x2 y2 x3 y3 x4 y4 where
    s: "gauss_newton_step example_solver [1, 1] = Inr [x1, y1]"
       "gauss_newton_step example_solver [x1, y1] = Inr [x2, y2]"
       "gauss_newton_step example_solver [x2, y2] = Inr [x3, y3]"
       "gauss_newton_step example_solver [x3, y3] = Inr [x4, y4]"
    and b4: "\<bar>x4 - 5\<bar> \<le> 1 / 5000" "\<bar>y4 - 5\<bar> \<le> 1 / 5000"
    by (rule first_steps)
  have four: "gauss_newton example_solver (4 + m) [1, 1] = gauss_newton example_solver m [x4, y4]" for m
    by (simp add: eval_nat_numeral s)
  consider "n = 0" | "n = 1" | "n = 2" | "n = 3" | "4 \<le> n" by linarith
  then show ?thesis
  proof cases
    case 5
    then obtain m where n: "n = 4 + m" using le_Suc_ex by blast
    from gn_local_iter[OF b4, of m] obtain x y where
      g: "gauss_newton example_solver m [x4, y4] = Inr [x, y]"
      and b: "\<bar>x - 5\<bar> \<le> 1 / 5000 / 2 ^ m" "\<bar>y - 5\<bar> \<le> 1 / 5000 / 2 ^ m"
      by auto
    have tol: "\<bar>x - 5\<bar> \<le> 4 / 10 ^ 7 \<and> \<bar>y - 5\<bar> \<le> 4 / 10 ^ 7" if "5 \<le> n"
    proof -
      from that n obtain k where m: "m = Suc k" by (cases m) auto
      have r3: "(1 / 5000 :: real) \<le> 3 / 50" by simp
      note loc = gn_local[OF b4 r3]
      have y4: "0 < y4" "y4 < 10" using b4(2) by linarith+
      have st: "gauss_newton_step example_solver [x4, y4] = Inr [gn_x x4 y4, gn_y x4 y4]"
        by (rule step_explicit[OF y4]) (use loc(1) in simp)
      have b5: "\<bar>gn_x x4 y4 - 5\<bar> \<le> 4 / 10 ^ 7" "\<bar>gn_y x4 y4 - 5\<bar> \<le> 4 / 10 ^ 7"
        using loc(2,3) by (simp_all add: power2_eq_square)
      from gn_local_iter[OF b5, of k] obtain x' y' where
        "gauss_newton example_solver k [gn_x x4 y4, gn_y x4 y4] = Inr [x', y']"
        and b': "\<bar>x' - 5\<bar> \<le> 4 / 10 ^ 7 / 2 ^ k" "\<bar>y' - 5\<bar> \<le> 4 / 10 ^ 7 / 2 ^ k"
        by auto
      then have "x' = x" "y' = y" using g m st by simp_all
      moreover have "(4 / 10 ^ 7 :: real) / 2 ^ k \<le> 4 / 10 ^ 7"
        by (simp add: field_simps)
      ultimately show ?thesis using b' by linarith
    qed
    show ?thesis
      using g b tol n by (auto simp: four)
  qed (simp_all add: eval_nat_numeral s)
qed

lemma data_is_noiseless: "predicted example_solver [5, 5] = Inr (data example_solver)"
  by (simp add: predicted_ok example_fields distance_def sqrt_25)

lemma iterate_bound:
  assumes "4 \<le> k"
  shows "\<bar>projr (gauss_newton example_solver k [1, 1]) ! 0 - 5\<bar> \<le> (1 / 2) ^ k * (16 / 5000)"
    and "\<bar>projr (gauss_newton example_solver k [1, 1]) ! 1 - 5\<bar> \<le> (1 / 2) ^ k * (16 / 5000)"
proof -
  from gauss_newton_from_start[of k] assms obtain x y where
    g: "gauss_newton example_solver k [1, 1] = Inr [x, y]"
    and b: "\<bar>x - 5\<bar> \<le> 1 / 5000 / 2 ^ (k - 4)" "\<bar>y - 5\<bar> \<le> 1 / 5000 / 2 ^ (k - 4)"
    by blast
  from assms obtain m where k: "k = m + 4" using le_Suc_ex by (metis add.commute)
  have "(1 / 5000 :: real) / 2 ^ (k - 4) = (1 / 2) ^ k * (16 / 5000)"
    unfolding k by (simp add: power_add power_divide)
  with g b show "\<bar>projr (gauss_newton example_solver k [1, 1]) ! 0 - 5\<bar> \<le> (1 / 2) ^ k * (16 / 5000)"
    and "\<bar>projr (gauss_newton example_solver k [1, 1]) ! 1 - 5\<bar> \<le> (1 / 2) ^ k * (16 / 5000)"
    by simp_all
qed

lemma iterates_converge:
  "(\<lambda>k. projr (gauss_newton example_solver k [1, 1]) ! 0) \<longlonglongrightarrow> 5"
  "(\<lambda>k. projr (gauss_newton example_solver k [1, 1]) ! 1) \<longlonglongrightarrow> 5"
proof -
  have z: "(\<lambda>k. (1 / 2 :: real) ^ k) \<longlonglongrightarrow> 0"
    by (rule LIMSEQ_realpow_zero) simp_all
  have "(\<lambda>k. projr (gauss_newton example_solver k [1, 1]) ! 0 - 5) \<longlonglongrightarrow> 0"
    by (rule tendsto_0_le[OF z, where K = "16 / 5000"])
       (use iterate_bound(1) in \<open>auto simp: eventually_sequentially intro!: exI[of _ 4]\<close>)
  then show "(\<lambda>k. projr (gauss_newton example_solver k [1, 1]) ! 0) \<longlonglongrightarrow> 5"
    by (rule LIM_zero_cancel)
  have "(\<lambda>k. projr (gauss_newton example_solver k [1, 1]) ! 1 - 5) \<longlonglongrightarrow> 0"
    by (rule tendsto_0_le[OF z, where K = "16 / 5000"])
       (use iterate_bound(2) in \<open>auto simp: eventually_sequentially intro!: exI[of _ 4]\<close>)
  then show "(\<lambda>k. projr (gauss_newton example_solver k [1, 1]) ! 1) \<longlonglongrightarrow> 5"
    by (rule LIM_zero_cancel)
qed

text \<open>
  C8. On the example, whose data are what \<open>predicted\<close> returns at the true source (5, 5),
  the Gauss-Newton loop started at (1, 1), the initial solution of the docstring, returns
  after every number n of iterations; from 5 iterations on both coordinates are within
  4e-7 of 5, so that they print as 5.0000, and the iterates converge to (5, 5). Started
  anywhere within 1/20 of (5, 5) in both coordinates, the loop halves the error with every
  iteration, at least.
\<close>

theorem gauss_newton_recovers_epicenter:
  "predicted example_solver [5, 5] = Inr (data example_solver) \<and>
   (\<exists>x y. gauss_newton example_solver n [1, 1] = Inr [x, y] \<and>
      (5 \<le> n \<longrightarrow> \<bar>x - 5\<bar> \<le> 4 / 10 ^ 7 \<and> \<bar>y - 5\<bar> \<le> 4 / 10 ^ 7)) \<and>
   (\<lambda>k. projr (gauss_newton example_solver k [1, 1]) ! 0) \<longlonglongrightarrow> 5 \<and>
   (\<lambda>k. projr (gauss_newton example_solver k [1, 1]) ! 1) \<longlonglongrightarrow> 5 \<and>
   (\<bar>x0 - 5\<bar> \<le> 1 / 20 \<and> \<bar>y0 - 5\<bar> \<le> 1 / 20 \<longrightarrow>
      (\<exists>x y. gauss_newton example_solver n [x0, y0] = Inr [x, y] \<and>
         \<bar>x - 5\<bar> \<le> 1 / 20 / 2 ^ n \<and> \<bar>y - 5\<bar> \<le> 1 / 20 / 2 ^ n))"
  using gauss_newton_from_start[of n] data_is_noiseless iterates_converge
    gn_local_iter[of x0 "1 / 20" y0 n] by blast

text \<open>
  The loop run for 5 iterations, from (1, 1) and from (5.01, 4.99).
\<close>

theorem gauss_newton_recovers_epicenter_witness:
  "(5::nat) \<le> 5 \<and>
   (\<exists>x y. gauss_newton example_solver 5 [1, 1] = Inr [x, y] \<and>
      \<bar>x - 5\<bar> \<le> 4 / 10 ^ 7 \<and> \<bar>y - 5\<bar> \<le> 4 / 10 ^ 7) \<and>
   \<bar>501 / 100 - 5 :: real\<bar> \<le> 1 / 20 \<and> \<bar>499 / 100 - 5 :: real\<bar> \<le> 1 / 20 \<and>
   (\<exists>x y. gauss_newton example_solver 5 [501 / 100, 499 / 100] = Inr [x, y] \<and>
      \<bar>x - 5\<bar> \<le> 1 / 20 / 2 ^ 5 \<and> \<bar>y - 5\<bar> \<le> 1 / 20 / 2 ^ 5)"
  using gauss_newton_recovers_epicenter[of 5 "501 / 100" "499 / 100"] by simp

section \<open>Properties of the derivative detector\<close>

subsection \<open>What the loops compute\<close>

lemma derivatives_loop_ok:
  assumes "\<forall>e \<in> set rest. fst e < length items \<and> items ! fst e = snd e"
  shows "derivatives_loop items rest acc =
           Inr (acc @ map (raw_derivative items) (filter (\<lambda>i. 0 < i) (map fst rest)))"
  using assms
proof (induction rest arbitrary: acc)
  case Nil
  then show ?case by simp
next
  case (Cons e rest)
  obtain i t v where e: "e = (i, t, v)" by (cases e)
  from Cons.prems e have i: "i < length items" and it: "items ! i = (t, v)"
    and rest: "\<forall>e \<in> set rest. fst e < length items \<and> items ! fst e = snd e"
    by auto
  show ?case
  proof (cases "0 < i")
    case False
    then show ?thesis using Cons.IH[OF rest] e by simp
  next
    case True
    then have "i - 1 < length items" using i by simp
    then show ?thesis
      using True e it Cons.IH[OF rest]
      by (simp add: list_get_def py_truediv_def raw_derivative_def Let_def)
  qed
qed

lemma filter_pos_upt: "filter (\<lambda>i. 0 < i) [0..<n] = [1..<n]"
proof (cases n)
  case 0
  then show ?thesis by simp
next
  case (Suc m)
  have "filter (\<lambda>i. 0 < i) [Suc 0..<Suc m] = [Suc 0..<Suc m]"
    by (rule filter_True) auto
  then show ?thesis using Suc by (simp add: upt_conv_Cons del: upt_Suc)
qed

lemma compute_derivatives_ok:
  "compute_derivatives d =
     Inr (d\<lparr>derivatives :=
              (if 2 \<le> length (time_series_items d)
               then raw_derivative (time_series_items d) 1
                      # map (raw_derivative (time_series_items d)) [1..<length (time_series_items d)]
               else [])\<rparr>)"
proof -
  let ?items = "time_series_items d"
  have "\<forall>e \<in> set (enumerate 0 ?items). fst e < length ?items \<and> ?items ! fst e = snd e"
    by (auto simp: in_set_enumerate_eq)
  then have loop: "derivatives_loop ?items (enumerate 0 ?items) [] =
      Inr (map (raw_derivative ?items) [1..<length ?items])"
    by (simp add: derivatives_loop_ok filter_pos_upt)
  show ?thesis
  proof (cases "2 \<le> length ?items")
    case True
    then have "[1..<length ?items] = 1 # [Suc 1..<length ?items]"
      by (simp add: upt_conv_Cons)
    then show ?thesis using True loop by (simp add: compute_derivatives_def)
  next
    case False
    then have "[1..<length ?items] = []" by simp
    then show ?thesis using False loop by (simp add: compute_derivatives_def)
  qed
qed

lemma raw_derivative_nonneg: "0 \<le> raw_derivative items i"
  by (simp add: raw_derivative_def Let_def)

lemma scores_loop_error:
  "scores_loop rest derivs ema scores = Inl e \<Longrightarrow> e = IndexError"
  by (induction rest derivs ema scores rule: scores_loop.induct)
     (auto simp: list_get_def split: sum.splits if_splits)

lemma divide_scores_ok:
  "stdev \<noteq> 0 \<Longrightarrow> divide_scores scores stdev = Inr (map (\<lambda>(t, v). (t, v / stdev)) scores)"
  by (induction scores stdev rule: divide_scores.induct) (simp_all add: py_truediv_def)

lemma normalize_scores_ok:
  "normalize_scores scores =
     Inr (if scores \<noteq> [] \<and> np_std (map snd scores) \<noteq> 0
          then map (\<lambda>(t, v). (t, v / np_std (map snd scores))) scores else scores)"
  by (simp add: normalize_scores_def Let_def divide_scores_ok)

lemma set_scores_error:
  "set_scores compute_ema denoise d = Inl e \<Longrightarrow> e = IndexError"
  by (auto simp: set_scores_def compute_derivatives_ok normalize_scores_ok Let_def
      split: sum.splits dest: scores_loop_error)

subsection \<open>The list of derivatives and the divisions\<close>

text \<open>
  C9 (amended). For every time series of at least two points \<open>_compute_derivatives\<close>
  returns, the list it stores has exactly one entry per point, every entry is at least 0,
  and the first entry equals the second.
\<close>

theorem compute_derivatives_entries:
  "\<exists>d'. compute_derivatives d = Inr d' \<and>
     (2 \<le> length (time_series_items d) \<longrightarrow>
        length (derivatives d') = length (time_series_items d) \<and>
        (\<forall>x \<in> set (derivatives d'). 0 \<le> x) \<and>
        derivatives d' ! 0 = derivatives d' ! 1)"
  by (auto simp: compute_derivatives_ok raw_derivative_nonneg)

text \<open>
  Three points; the derivatives are 4/2 and 3/1 in absolute value, the first repeated.
\<close>

theorem compute_derivatives_entries_witness:
  "2 \<le> length (time_series_items
            \<lparr>time_series_items = [(0, 1), (2, 5), (3, 2)], smoothing_factor = 1 / 5,
             derivatives = [], anom_scores = []\<rparr>) \<and>
   derivatives (projr (compute_derivatives
            \<lparr>time_series_items = [(0, 1), (2, 5), (3, 2)], smoothing_factor = 1 / 5,
             derivatives = [], anom_scores = []\<rparr>)) = [2, 2, 3]"
proof -
  let ?d = "\<lparr>time_series_items = [(0, 1), (2, 5), (3, 2)], smoothing_factor = 1 / 5,
             derivatives = [], anom_scores = []\<rparr> :: derivative_detector"
  from compute_derivatives_entries[of ?d] obtain d' where
    c: "compute_derivatives ?d = Inr d'" and l: "length (derivatives d') = 3"
    and e: "derivatives d' ! 0 = derivatives d' ! 1"
    by auto
  have "compute_derivatives ?d = Inr (?d\<lparr>derivatives := [2, 2, 3]\<rparr>)"
    by (simp add: compute_derivatives_def enumerate_eq_zip list_get_def py_truediv_def
        upt_conv_Cons)
  moreover from this c have "d' = ?d\<lparr>derivatives := [2, 2, 3]\<rparr>" by simp
  ultimately show ?thesis using l e by simp
qed

text \<open>
  A series of a single point: the loop appends nothing, the guard \<open>if derivatives:\<close>
  skips the insertion, and the list stored is empty, not of length 1.
\<close>

theorem compute_derivatives_single_point_counterexample:
  "length (time_series_items
            \<lparr>time_series_items = [(0, 1)], smoothing_factor = 1 / 5,
             derivatives = [], anom_scores = []\<rparr>) = 1 \<and>
   compute_derivatives
            \<lparr>time_series_items = [(0, 1)], smoothing_factor = 1 / 5,
             derivatives = [], anom_scores = []\<rparr>
     = Inr \<lparr>time_series_items = [(0, 1)], smoothing_factor = 1 / 5,
             derivatives = [], anom_scores = []\<rparr>"
  by (simp add: compute_derivatives_def enumerate_eq_zip)

text \<open>
  C10. \<open>_compute_derivatives\<close> always returns and raises no ZeroDivisionError: where two
  consecutive timestamps are equal, the entry is the absolute difference of the two values.
  \<open>_set_scores\<close> raises no ZeroDivisionError either: the scores are divided by their
  standard deviation when it is not zero and are left as they are when it is zero.
\<close>

theorem detector_never_divides_by_zero:
  "(\<exists>d'. compute_derivatives d = Inr d' \<and>
      (\<forall>i. 0 < i \<and> i < length (time_series_items d) \<and>
            fst (time_series_items d ! i) = fst (time_series_items d ! (i - 1)) \<longrightarrow>
         derivatives d' ! i
           = \<bar>snd (time_series_items d ! i) - snd (time_series_items d ! (i - 1))\<bar>)) \<and>
   set_scores compute_ema denoise d \<noteq> Inl ZeroDivisionError \<and>
   normalize_scores scores \<noteq> Inl ZeroDivisionError \<and>
   (scores \<noteq> [] \<and> np_std (map snd scores) \<noteq> 0 \<longrightarrow>
      normalize_scores scores
        = Inr (map (\<lambda>(t, v). (t, v / np_std (map snd scores))) scores)) \<and>
   (scores \<noteq> [] \<and> np_std (map snd scores) = 0 \<longrightarrow>
      normalize_scores scores = Inr scores)"
proof -
  let ?items = "time_series_items d"
  have eq: "derivatives (d\<lparr>derivatives :=
              (if 2 \<le> length ?items
               then raw_derivative ?items 1 # map (raw_derivative ?items) [1..<length ?items]
               else [])\<rparr>) ! i = \<bar>snd (?items ! i) - snd (?items ! (i - 1))\<bar>"
    if "0 < i \<and> i < length ?items \<and> fst (?items ! i) = fst (?items ! (i - 1))" for i
  proof -
    from that have two: "2 \<le> length ?items" by simp
    from that obtain j where j: "i = Suc j" by (cases i) auto
    with that have "j < length [1..<length ?items]" by auto
    then have "map (raw_derivative ?items) [1..<length ?items] ! j = raw_derivative ?items i"
      using j by (simp del: upt_Suc)
    then have "(raw_derivative ?items 1 # map (raw_derivative ?items) [1..<length ?items]) ! i
        = raw_derivative ?items i"
      using j by simp
    then show ?thesis using two that by (simp add: raw_derivative_def)
  qed
  have s: "set_scores compute_ema denoise d \<noteq> Inl ZeroDivisionError"
    using set_scores_error[of compute_ema denoise d ZeroDivisionError] by auto
  show ?thesis
    using eq s by (simp add: compute_derivatives_ok normalize_scores_ok)
qed

lemma sqrt_4: "sqrt 4 = 2"
  by (rule real_sqrt_unique) simp_all

text \<open>
  A series whose first two timestamps are equal, scores of standard deviation 2 and
  scores of standard deviation 0.
\<close>

theorem detector_never_divides_by_zero_witness:
  "0 < (1::nat) \<and>
   1 < length (time_series_items
            \<lparr>time_series_items = [(0, 1), (0, 4), (2, 10)], smoothing_factor = 1 / 5,
             derivatives = [], anom_scores = []\<rparr>) \<and>
   fst ([(0, 1), (0, 4), (2, 10 :: real)] ! 1) = fst ([(0 :: real, 1 :: real), (0, 4), (2, 10)] ! 0) \<and>
   derivatives (projr (compute_derivatives
            \<lparr>time_series_items = [(0, 1), (0, 4), (2, 10)], smoothing_factor = 1 / 5,
             derivatives = [], anom_scores = []\<rparr>)) ! 1 = 3 \<and>
   np_std (map snd [(0, 2), (1, 6 :: real)]) = 2 \<and>
   normalize_scores [(0, 2), (1, 6)] = Inr [(0, 1), (1, 3)] \<and>
   np_std (map snd [(0, 3), (2, 3 :: real)]) = 0 \<and>
   normalize_scores [(0, 3), (2, 3)] = Inr [(0, 3), (2, 3)] \<and>
   set_scores (\<lambda>sf xs. map (\<lambda>x. x / 3) xs) (\<lambda>sc. sc)
            \<lparr>time_series_items = [(0, 1), (0, 4), (2, 10)], smoothing_factor = 1 / 5,
             derivatives = [], anom_scores = []\<rparr>
     = Inr \<lparr>time_series_items = [(0, 1), (0, 4), (2, 10)], smoothing_factor = 1 / 5,
             derivatives = [3, 3, 3], anom_scores = [(0, 2), (2, 2)]\<rparr>"
proof -
  let ?d = "\<lparr>time_series_items = [(0, 1), (0, 4), (2, 10)], smoothing_factor = 1 / 5,
             derivatives = [], anom_scores = []\<rparr> :: derivative_detector"
  have std1: "np_std (map snd [(0, 2), (1, 6 :: real)]) = 2"
    by (simp add: np_std_def np_mean_def sqrt_4)
  have std2: "np_std (map snd [(0, 3), (2, 3 :: real)]) = 0"
    by (simp add: np_std_def np_mean_def)
  note t1 = detector_never_divides_by_zero[of ?d "\<lambda>sf xs. xs" "\<lambda>sc. sc" "[(0, 2), (1, 6)]"]
  note t2 = detector_never_divides_by_zero[of ?d "\<lambda>sf xs. xs" "\<lambda>sc. sc" "[(0, 3), (2, 3)]"]
  from t1 obtain d' where c: "compute_derivatives ?d = Inr d'"
    and e: "\<forall>i. 0 < i \<and> i < length (time_series_items ?d) \<and>
            fst (time_series_items ?d ! i) = fst (time_series_items ?d ! (i - 1)) \<longrightarrow>
         derivatives d' ! i
           = \<bar>snd (time_series_items ?d ! i) - snd (time_series_items ?d ! (i - 1))\<bar>"
    by blast
  from e[rule_format, of 1] have "derivatives d' ! 1 = 3" by simp
  moreover from t1 std1 have "normalize_scores [(0, 2), (1, 6)] = Inr [(0, 1), (1, 3)]"
    by simp
  moreover from t2 std2 have "normalize_scores [(0, 3), (2, 3)] = Inr [(0, 3), (2, 3)]"
    by simp
  moreover have "set_scores (\<lambda>sf xs. map (\<lambda>x. x / 3) xs) (\<lambda>sc. sc) ?d
     = Inr (?d\<lparr>derivatives := [3, 3, 3], anom_scores := [(0, 2), (2, 2)]\<rparr>)"
    by (simp add: set_scores_def compute_derivatives_def enumerate_eq_zip list_get_def
        py_truediv_def upt_conv_Cons normalize_scores_def np_std_def np_mean_def)
  ultimately show ?thesis using c std1 std2 by simp
qed

text \<open>
  On a series of a single point \<open>_set_scores\<close> reads \<open>self.derivatives[0]\<close> of the
  empty list and raises IndexError.
\<close>

lemma set_scores_single_point:
  "time_series_items d = [item] \<Longrightarrow> set_scores compute_ema denoise d = Inl IndexError"
  by (cases item) (simp add: set_scores_def compute_derivatives_ok list_get_def)

end
